theory Spec2Isabelle
  imports Complex_Main
begin

section \<open>The presentation library, as far as the script uses it\<close>

text \<open>
  The script \<^verbatim>\<open>create_angular_presentation.py\<close> builds a slide deck by calls into the
  python-pptx library. The library's document objects are modelled as records. A Python
  object that the script reaches through a variable (a slide, a text box, a paragraph) is a
  handle, an index path into the presentation, and every call that mutates the object is a
  function from the presentation to the updated presentation, so that aliasing behaves as in
  Python. An exception is a value of type \<open>error\<close> in the left summand of the result.

  Lengths keep the constructor the script calls. The script's float arguments and its
  float arithmetic are read as exact decimals: \<^verbatim>\<open>Inches(1 + i * 2.8)\<close> is the exact
  \<open>Inches (1 + i * 2.8)\<close>, where the library cuts the float product down to a whole
  number of English metric units, which for a few of the positions of
  \<^verbatim>\<open>create_results_slide\<close> is one unit less than the exact value. Texts are byte
  strings, a character beyond ASCII is its UTF-8 bytes.
\<close>

datatype error = KeyError string | IndexError | TypeError | OSError string

datatype length = Inches rat | Pt nat | Emu int

text \<open>
  \<^verbatim>\<open>RGBColor(r, g, b)\<close>. The library accepts the numbers 0 to 255 only; the script
  passes literals in that range.
\<close>

datatype rgb = RGBColor nat nat nat

datatype PP_ALIGN = LEFT | CENTER | RIGHT

datatype fill_format = NoFill | Solid "rgb option" | Gradient "rgb list"

record paragraph_rec =
  p_text :: string
  font_size :: "length option"
  font_bold :: "bool option"
  font_name :: "string option"
  font_color :: "rgb option"
  alignment :: "PP_ALIGN option"

record shape =
  box_left :: length
  box_top :: length
  box_width :: length
  box_height :: length
  text_frame :: "paragraph_rec list"

record slide_rec =
  layout :: string
  background_fill :: fill_format
  shapes :: "shape list"
  notes_text :: "string option"

record presentation =
  slide_width :: length
  slide_height :: length
  slide_layouts :: "string list"
  slides :: "slide_rec list"

type_synonym colors = "string \<rightharpoonup> rgb"

type_synonym slide_ref = nat
type_synonym shape_ref = "nat \<times> nat"
type_synonym paragraph_ref = "nat \<times> nat \<times> nat"

subsection \<open>Exceptions\<close>

definition bindE :: "error + 'a \<Rightarrow> ('a \<Rightarrow> error + 'b) \<Rightarrow> error + 'b" where
  "bindE m k = (case m of Inl e \<Rightarrow> Inl e | Inr x \<Rightarrow> k x)"

text \<open>A \<^verbatim>\<open>for\<close> loop over a list whose body may raise: the first exception ends the loop.\<close>

fun for_each :: "'a list \<Rightarrow> ('a \<Rightarrow> 's \<Rightarrow> error + 's) \<Rightarrow> 's \<Rightarrow> error + 's" where
  "for_each [] body s = Inr s"
| "for_each (x # xs) body s = bindE (body x s) (for_each xs body)"

text \<open>\<^verbatim>\<open>xs[i]\<close> on a list and \<^verbatim>\<open>d[k]\<close> on a dict.\<close>

definition getitem :: "'a list \<Rightarrow> nat \<Rightarrow> error + 'a" where
  "getitem xs i = (if i < length xs then Inr (xs ! i) else Inl IndexError)"

text \<open>A dict display \<^verbatim>\<open>{k: v, ...}\<close>: of two entries with one key the later one counts.\<close>

definition dict :: "('k \<times> 'v) list \<Rightarrow> 'k \<rightharpoonup> 'v" where
  "dict kvs = map_of (rev kvs)"

definition lookup :: "colors \<Rightarrow> string \<Rightarrow> error + rgb" where
  "lookup cs k = (case cs k of None \<Rightarrow> Inl (KeyError k) | Some v \<Rightarrow> Inr v)"

subsection \<open>Object updates through handles\<close>

definition upd_slide :: "slide_ref \<Rightarrow> (slide_rec \<Rightarrow> slide_rec) \<Rightarrow> presentation \<Rightarrow> presentation" where
  "upd_slide sid f prs = prs\<lparr>slides := (slides prs)[sid := f (slides prs ! sid)]\<rparr>"

definition upd_shape :: "shape_ref \<Rightarrow> (shape \<Rightarrow> shape) \<Rightarrow> presentation \<Rightarrow> presentation" where
  "upd_shape r f prs =
     upd_slide (fst r) (\<lambda>s. s\<lparr>shapes := (shapes s)[snd r := f (shapes s ! snd r)]\<rparr>) prs"

definition upd_paragraph ::
  "paragraph_ref \<Rightarrow> (paragraph_rec \<Rightarrow> paragraph_rec) \<Rightarrow> presentation \<Rightarrow> presentation" where
  "upd_paragraph r f prs =
     upd_shape (fst r, fst (snd r))
       (\<lambda>b. b\<lparr>text_frame := (text_frame b)[snd (snd r) := f (text_frame b ! snd (snd r))]\<rparr>) prs"

definition the_slide :: "presentation \<Rightarrow> slide_ref \<Rightarrow> slide_rec" where
  "the_slide prs sid = slides prs ! sid"

definition the_shape :: "presentation \<Rightarrow> shape_ref \<Rightarrow> shape" where
  "the_shape prs r = shapes (the_slide prs (fst r)) ! snd r"

subsection \<open>The calls of the library\<close>

text \<open>
  \<^verbatim>\<open>Presentation()\<close> opens the library's default template: a 4:3 page of 10 by 7.5 inches,
  eleven slide layouts of which number 6 is the blank one, and no slide.
\<close>

definition Presentation :: presentation where
  "Presentation =
     \<lparr>slide_width = Emu 9144000, slide_height = Emu 6858000,
      slide_layouts =
        [''Title Slide'', ''Title and Content'', ''Section Header'', ''Two Content'',
         ''Comparison'', ''Title Only'', ''Blank'', ''Content with Caption'',
         ''Picture with Caption'', ''Title and Vertical Text'', ''Vertical Title and Text''],
      slides = []\<rparr>"

text \<open>
  \<^verbatim>\<open>prs.slides.add_slide(layout)\<close> appends a slide and returns it. The slide starts with
  no fill of its own, no notes and no shape. The library copies the placeholders of the
  layout into the new slide; the blank layout, which is the one the script takes from the
  default template, has none to copy. A layout is its name here, and the placeholders
  that another layout would bring are left out: the first shapes of a slide made from such
  a layout are not modelled.
\<close>

definition add_slide :: "presentation \<Rightarrow> string \<Rightarrow> presentation \<times> slide_ref" where
  "add_slide prs slide_layout =
     (prs\<lparr>slides := slides prs @
        [\<lparr>layout = slide_layout, background_fill = NoFill, shapes = [], notes_text = None\<rparr>]\<rparr>,
      length (slides prs))"

text \<open>\<^verbatim>\<open>fill.solid()\<close> makes the fill a solid one with no colour yet.\<close>

definition solid :: "presentation \<Rightarrow> slide_ref \<Rightarrow> presentation" where
  "solid prs fill = upd_slide fill (\<lambda>s. s\<lparr>background_fill := Solid None\<rparr>) prs"

text \<open>
  \<^verbatim>\<open>fill.fore_color.rgb = c\<close>: the library raises a TypeError on a fill that has no
  foreground colour, that is on any fill but a solid one.
\<close>

definition set_fore_color_rgb :: "presentation \<Rightarrow> slide_ref \<Rightarrow> rgb \<Rightarrow> error + presentation" where
  "set_fore_color_rgb prs fill c =
     (case background_fill (the_slide prs fill) of
        Solid _ \<Rightarrow> Inr (upd_slide fill (\<lambda>s. s\<lparr>background_fill := Solid (Some c)\<rparr>) prs)
      | _ \<Rightarrow> Inl TypeError)"

definition new_paragraph :: paragraph_rec where
  "new_paragraph =
     \<lparr>p_text = [], font_size = None, font_bold = None, font_name = None, font_color = None,
      alignment = None\<rparr>"

text \<open>\<^verbatim>\<open>slide.shapes.add_textbox(left, top, width, height)\<close>: a new box with one empty paragraph.\<close>

definition add_textbox ::
  "presentation \<Rightarrow> slide_ref \<Rightarrow> length \<Rightarrow> length \<Rightarrow> length \<Rightarrow> length \<Rightarrow> presentation \<times> shape_ref" where
  "add_textbox prs slide l t w h =
     (upd_slide slide (\<lambda>s. s\<lparr>shapes := shapes s @
        [\<lparr>box_left = l, box_top = t, box_width = w, box_height = h,
          text_frame = [new_paragraph]\<rparr>]\<rparr>) prs,
      (slide, length (shapes (the_slide prs slide))))"

text \<open>\<^verbatim>\<open>frame.clear()\<close> keeps the first paragraph only, without its text.\<close>

definition clear :: "presentation \<Rightarrow> shape_ref \<Rightarrow> presentation" where
  "clear prs frame =
     upd_shape frame
       (\<lambda>b. b\<lparr>text_frame := (case text_frame b of [] \<Rightarrow> [] | p # _ \<Rightarrow> [p\<lparr>p_text := []\<rparr>])\<rparr>) prs"

definition len_paragraphs :: "presentation \<Rightarrow> shape_ref \<Rightarrow> nat" where
  "len_paragraphs prs frame = length (text_frame (the_shape prs frame))"

text \<open>\<^verbatim>\<open>frame.paragraphs[i]\<close> raises an IndexError out of range.\<close>

definition paragraphs_getitem :: "presentation \<Rightarrow> shape_ref \<Rightarrow> nat \<Rightarrow> error + paragraph_ref" where
  "paragraphs_getitem prs frame i =
     (if i < len_paragraphs prs frame then Inr (fst frame, snd frame, i) else Inl IndexError)"

definition add_paragraph :: "presentation \<Rightarrow> shape_ref \<Rightarrow> presentation \<times> paragraph_ref" where
  "add_paragraph prs frame =
     (upd_shape frame (\<lambda>b. b\<lparr>text_frame := text_frame b @ [new_paragraph]\<rparr>) prs,
      (fst frame, snd frame, len_paragraphs prs frame))"

text \<open>
  \<^verbatim>\<open>p.text = s\<close>: the library makes each line feed of \<open>s\<close> a line break of the
  paragraph, and a line break is a vertical tab in the text that is read back.
\<close>

definition line_breaks :: "string \<Rightarrow> string" where
  "line_breaks s = map (\<lambda>c. if c = CHR 0x0A then CHR 0x0B else c) s"

definition set_text :: "presentation \<Rightarrow> paragraph_ref \<Rightarrow> string \<Rightarrow> presentation" where
  "set_text prs p s = upd_paragraph p (\<lambda>q. q\<lparr>p_text := line_breaks s\<rparr>) prs"

definition set_font_size :: "presentation \<Rightarrow> paragraph_ref \<Rightarrow> length \<Rightarrow> presentation" where
  "set_font_size prs p n = upd_paragraph p (\<lambda>q. q\<lparr>font_size := Some n\<rparr>) prs"

definition set_font_bold :: "presentation \<Rightarrow> paragraph_ref \<Rightarrow> bool \<Rightarrow> presentation" where
  "set_font_bold prs p b = upd_paragraph p (\<lambda>q. q\<lparr>font_bold := Some b\<rparr>) prs"

definition set_font_name :: "presentation \<Rightarrow> paragraph_ref \<Rightarrow> string \<Rightarrow> presentation" where
  "set_font_name prs p n = upd_paragraph p (\<lambda>q. q\<lparr>font_name := Some n\<rparr>) prs"

definition set_font_color_rgb :: "presentation \<Rightarrow> paragraph_ref \<Rightarrow> rgb \<Rightarrow> presentation" where
  "set_font_color_rgb prs p c = upd_paragraph p (\<lambda>q. q\<lparr>font_color := Some c\<rparr>) prs"

definition set_alignment :: "presentation \<Rightarrow> paragraph_ref \<Rightarrow> PP_ALIGN \<Rightarrow> presentation" where
  "set_alignment prs p a = upd_paragraph p (\<lambda>q. q\<lparr>alignment := Some a\<rparr>) prs"

text \<open>\<^verbatim>\<open>slide.notes_slide.notes_text_frame.text = s\<close> creates the notes page and sets its text.\<close>

definition set_notes_text :: "presentation \<Rightarrow> slide_ref \<Rightarrow> string \<Rightarrow> presentation" where
  "set_notes_text prs notes_text_frame s = upd_slide notes_text_frame (\<lambda>sl. sl\<lparr>notes_text := Some s\<rparr>) prs"

text \<open>The characters of the script's texts beyond ASCII, in UTF-8.\<close>

definition u_arrow :: string where
  "u_arrow = [CHR 0xE2, CHR 0x86, CHR 0x92]"

definition u_bullet :: string where
  "u_bullet = [CHR 0xE2, CHR 0x80, CHR 0xA2]"

definition u_emdash :: string where
  "u_emdash = [CHR 0xE2, CHR 0x80, CHR 0x94]"

section \<open>The script\<close>

text \<open>The colour table of \<^verbatim>\<open>create_angular_presentation\<close>, a dict literal.\<close>

definition colors :: colors where
  "colors = dict
     [(''title_bg_start'', RGBColor 26 26 46),
      (''title_bg_end'', RGBColor 22 33 62),
      (''content_bg'', RGBColor 255 255 255),
      (''angular_red'', RGBColor 221 0 49),
      (''lighthouse_blue'', RGBColor 66 133 244),
      (''performance_green'', RGBColor 52 168 83),
      (''light_blue'', RGBColor 135 206 235),
      (''dark_blue'', RGBColor 26 26 46),
      (''dark_gray'', RGBColor 51 51 51),
      (''white'', RGBColor 255 255 255),
      (''light_gray'', RGBColor 200 200 200),
      (''red_gradient_start'', RGBColor 255 107 107),
      (''red_gradient_end'', RGBColor 255 142 142),
      (''blue_gradient_start'', RGBColor 66 133 244),
      (''blue_gradient_end'', RGBColor 135 206 235),
      (''green_gradient_start'', RGBColor 52 168 83),
      (''green_gradient_end'', RGBColor 144 238 144),
      (''orange_gradient_start'', RGBColor 251 188 4),
      (''orange_gradient_end'', RGBColor 255 215 0),
      (''purple_gradient_start'', RGBColor 156 39 176),
      (''purple_gradient_end'', RGBColor 225 190 231),
      (''teal_gradient_start'', RGBColor 0 150 136),
      (''teal_gradient_end'', RGBColor 128 203 196),
      (''indigo_gradient_start'', RGBColor 63 81 181),
      (''indigo_gradient_end'', RGBColor 159 168 218),
      (''dark_gradient_start'', RGBColor 44 62 80),
      (''dark_gradient_end'', RGBColor 52 73 94),
      (''success_gradient_start'', RGBColor 39 174 96),
      (''success_gradient_end'', RGBColor 88 214 141),
      (''future_gradient_start'', RGBColor 142 68 173),
      (''future_gradient_end'', RGBColor 187 143 206),
      (''action_gradient_start'', RGBColor 231 76 60),
      (''action_gradient_end'', RGBColor 241 148 138),
      (''discussion_gradient_start'', RGBColor 52 152 219),
      (''discussion_gradient_end'', RGBColor 133 193 233),
      (''gratitude_gradient_start'', RGBColor 243 156 18),
      (''gratitude_gradient_end'', RGBColor 247 220 111)]"

text \<open>
  The slide functions. Each takes the presentation and the colour table and returns the
  presentation it has changed, or the exception that a statement raised.
\<close>

text \<open>\<^verbatim>\<open>create_title_slide\<close>, lines 113 to 182.\<close>

definition create_title_slide :: "presentation \<Rightarrow> colors \<Rightarrow> error + presentation" where
  \<open>create_title_slide prs cs =
    bindE (getitem (slide_layouts prs) 6) (\<lambda>slide_layout.
    let (prs, slide) = add_slide prs slide_layout in
    let background = slide in
    let fill = background in
    let prs = solid prs fill in
    bindE (lookup cs ''title_bg_start'') (\<lambda>c.
    bindE (set_fore_color_rgb prs fill c) (\<lambda>prs.
    let (prs, title_box) = add_textbox prs slide (Inches 1) (Inches 2) (Inches 11.33) (Inches 1.5) in
    let title_frame = title_box in
    let prs = clear prs title_frame in
    bindE (paragraphs_getitem prs title_frame 0) (\<lambda>title_p.
    let prs = set_text prs title_p ''The Zen of Angular Optimization: A Lighthouse-Guided Journey'' in
    let prs = set_font_size prs title_p (Pt 48) in
    let prs = set_font_bold prs title_p True in
    let prs = set_font_name prs title_p ''Roboto'' in
    bindE (lookup cs ''white'') (\<lambda>c.
    let prs = set_font_color_rgb prs title_p c in
    let prs = set_alignment prs title_p CENTER in
    let (prs, subtitle_box) = add_textbox prs slide (Inches 1) (Inches 3.8) (Inches 11.33) (Inches 0.8) in
    let subtitle_frame = subtitle_box in
    let prs = clear prs subtitle_frame in
    bindE (paragraphs_getitem prs subtitle_frame 0) (\<lambda>subtitle_p.
    let prs = set_text prs subtitle_p ''From 4.5MB bundles to blazing-fast load times'' in
    let prs = set_font_size prs subtitle_p (Pt 24) in
    let prs = set_font_name prs subtitle_p ''Roboto'' in
    bindE (lookup cs ''light_blue'') (\<lambda>c.
    let prs = set_font_color_rgb prs subtitle_p c in
    let prs = set_alignment prs subtitle_p CENTER in
    let (prs, angular_box) = add_textbox prs slide (Inches 0.5) (Inches 0.5) (Inches 2) (Inches 0.8) in
    let angular_frame = angular_box in
    let prs = clear prs angular_frame in
    bindE (paragraphs_getitem prs angular_frame 0) (\<lambda>angular_p.
    let prs = set_text prs angular_p ''Angular'' in
    let prs = set_font_size prs angular_p (Pt 20) in
    let prs = set_font_bold prs angular_p True in
    bindE (lookup cs ''angular_red'') (\<lambda>c.
    let prs = set_font_color_rgb prs angular_p c in
    let (prs, lighthouse_box) = add_textbox prs slide (Inches 10.83) (Inches 0.5) (Inches 2) (Inches 0.8) in
    let lighthouse_frame = lighthouse_box in
    let prs = clear prs lighthouse_frame in
    bindE (paragraphs_getitem prs lighthouse_frame 0) (\<lambda>lighthouse_p.
    let prs = set_text prs lighthouse_p ''Lighthouse'' in
    let prs = set_font_size prs lighthouse_p (Pt 20) in
    let prs = set_font_bold prs lighthouse_p True in
    bindE (lookup cs ''lighthouse_blue'') (\<lambda>c.
    let prs = set_font_color_rgb prs lighthouse_p c in
    let prs = set_alignment prs lighthouse_p RIGHT in
    let (prs, perf_box) = add_textbox prs slide (Inches 4) (Inches 5.2) (Inches 5.33) (Inches 0.8) in
    let perf_frame = perf_box in
    let prs = clear prs perf_frame in
    bindE (paragraphs_getitem prs perf_frame 0) (\<lambda>perf_p.
    let prs = set_text prs perf_p (''Performance Score: 45 '' @ u_arrow @ '' 78'') in
    let prs = set_font_size prs perf_p (Pt 20) in
    bindE (lookup cs ''performance_green'') (\<lambda>c.
    let prs = set_font_color_rgb prs perf_p c in
    let prs = set_alignment prs perf_p CENTER in
    let notes_slide = slide in
    let notes_text_frame = notes_slide in
    let prs = set_notes_text prs notes_text_frame ''Hook: Start with '3 seconds. That's all you have.' Make eye contact, pause for dramatic effect. Frame this as an opportunity, not a problem.'' in
    Inr prs)))))))))))))\<close>

text \<open>\<^verbatim>\<open>create_hook_slide\<close>, lines 184 to 240.\<close>

definition create_hook_slide :: "presentation \<Rightarrow> colors \<Rightarrow> error + presentation" where
  \<open>create_hook_slide prs cs =
    bindE (getitem (slide_layouts prs) 6) (\<lambda>slide_layout.
    let (prs, slide) = add_slide prs slide_layout in
    let background = slide in
    let fill = background in
    let prs = solid prs fill in
    bindE (lookup cs ''red_gradient_start'') (\<lambda>c.
    bindE (set_fore_color_rgb prs fill c) (\<lambda>prs.
    let (prs, countdown_box) = add_textbox prs slide (Inches 2) (Inches 1.5) (Inches 9.33) (Inches 2) in
    let countdown_frame = countdown_box in
    let prs = clear prs countdown_frame in
    bindE (paragraphs_getitem prs countdown_frame 0) (\<lambda>countdown_p.
    let prs = set_text prs countdown_p ''3'' in
    let prs = set_font_size prs countdown_p (Pt 120) in
    let prs = set_font_bold prs countdown_p True in
    let prs = set_font_name prs countdown_p ''Roboto'' in
    bindE (lookup cs ''white'') (\<lambda>c.
    let prs = set_font_color_rgb prs countdown_p c in
    let prs = set_alignment prs countdown_p CENTER in
    let (prs, subtitle_box) = add_textbox prs slide (Inches 1) (Inches 3.8) (Inches 11.33) (Inches 0.8) in
    let subtitle_frame = subtitle_box in
    let prs = clear prs subtitle_frame in
    bindE (paragraphs_getitem prs subtitle_frame 0) (\<lambda>subtitle_p.
    let prs = set_text prs subtitle_p ''That's All You Have'' in
    let prs = set_font_size prs subtitle_p (Pt 36) in
    let prs = set_font_name prs subtitle_p ''Roboto'' in
    bindE (lookup cs ''white'') (\<lambda>c.
    let prs = set_font_color_rgb prs subtitle_p c in
    let prs = set_alignment prs subtitle_p CENTER in
    let (prs, stats_box) = add_textbox prs slide (Inches 1) (Inches 5) (Inches 11.33) (Inches 1.5) in
    let stats_frame = stats_box in
    let prs = clear prs stats_frame in
    let stats = [''53% of users abandon if load > 3 seconds'',
       ''4.47 MB initial bundle'',
       ''Performance Score: 45/100''] in
    bindE (for_each (List.enumerate 0 stats) (\<lambda>(i, stat) prs.
       bindE (if i < len_paragraphs prs stats_frame
       then bindE (paragraphs_getitem prs stats_frame i) (\<lambda>p. Inr (prs, p))
       else Inr (add_paragraph prs stats_frame)) (\<lambda>(prs, p).
       let prs = set_text prs p stat in
       let prs = set_font_size prs p (Pt 20) in
       let prs = set_font_name prs p ''Roboto'' in
       bindE (lookup cs ''light_gray'') (\<lambda>c.
       let prs = set_font_color_rgb prs p c in
       let prs = set_alignment prs p CENTER in
       Inr prs))) prs) (\<lambda>prs.
    let notes_slide = slide in
    let notes_text_frame = notes_slide in
    let prs = set_notes_text prs notes_text_frame ''Don't shame the current state. Frame as 'opportunity for improvement'. Use hand gestures to emphasize the 3-second countdown.'' in
    Inr prs))))))))\<close>

text \<open>\<^verbatim>\<open>create_lighthouse_metrics_slide\<close>, lines 242 to 308.\<close>

definition create_lighthouse_metrics_slide :: "presentation \<Rightarrow> colors \<Rightarrow> error + presentation" where
  \<open>create_lighthouse_metrics_slide prs cs =
    bindE (getitem (slide_layouts prs) 6) (\<lambda>slide_layout.
    let (prs, slide) = add_slide prs slide_layout in
    let background = slide in
    let fill = background in
    let prs = solid prs fill in
    bindE (lookup cs ''blue_gradient_start'') (\<lambda>c.
    bindE (set_fore_color_rgb prs fill c) (\<lambda>prs.
    let (prs, title_box) = add_textbox prs slide (Inches 1) (Inches 0.5) (Inches 11.33) (Inches 1) in
    let title_frame = title_box in
    let prs = clear prs title_frame in
    bindE (paragraphs_getitem prs title_frame 0) (\<lambda>title_p.
    let prs = set_text prs title_p ''What Lighthouse Really Measures'' in
    let prs = set_font_size prs title_p (Pt 36) in
    let prs = set_font_bold prs title_p True in
    let prs = set_font_name prs title_p ''Roboto'' in
    bindE (lookup cs ''white'') (\<lambda>c.
    let prs = set_font_color_rgb prs title_p c in
    let prs = set_alignment prs title_p CENTER in
    bindE (lookup cs ''performance_green'') (\<lambda>c1.
    bindE (lookup cs ''lighthouse_blue'') (\<lambda>c2.
    bindE (lookup cs ''orange_gradient_start'') (\<lambda>c3.
    let metrics = [(''FCP'', ''First Contentful Paint'', ''When users see something'', c1),
       (''LCP'', ''Largest Contentful Paint'', ''When they see what matters'', c2),
       (''TTI'', ''Time to Interactive'', ''When they can do something'', c3),
       (''CLS'', ''Cumulative Layout Shift'', ''Whether the page is stable'', (RGBColor 255 100 100))] in
    let y_start = (2 :: rat) in
    bindE (for_each (List.enumerate 0 metrics) (\<lambda>(i, abbr, full, desc, color) prs.
       let (prs, abbr_box) = add_textbox prs slide (Inches 1) (Inches (y_start + of_nat i * 1.2)) (Inches 1.5) (Inches 0.8) in
       let abbr_frame = abbr_box in
       let prs = clear prs abbr_frame in
       bindE (paragraphs_getitem prs abbr_frame 0) (\<lambda>abbr_p.
       let prs = set_text prs abbr_p abbr in
       let prs = set_font_size prs abbr_p (Pt 24) in
       let prs = set_font_bold prs abbr_p True in
       let prs = set_font_color_rgb prs abbr_p color in
       let prs = set_alignment prs abbr_p CENTER in
       let (prs, name_box) = add_textbox prs slide (Inches 3) (Inches (y_start + of_nat i * 1.2)) (Inches 4) (Inches 0.4) in
       let name_frame = name_box in
       let prs = clear prs name_frame in
       bindE (paragraphs_getitem prs name_frame 0) (\<lambda>name_p.
       let prs = set_text prs name_p full in
       let prs = set_font_size prs name_p (Pt 18) in
       let prs = set_font_bold prs name_p True in
       bindE (lookup cs ''white'') (\<lambda>c.
       let prs = set_font_color_rgb prs name_p c in
       let (prs, desc_box) = add_textbox prs slide (Inches 3) (Inches (y_start + of_nat i * 1.2 + 0.4)) (Inches 8) (Inches 0.6) in
       let desc_frame = desc_box in
       let prs = clear prs desc_frame in
       bindE (paragraphs_getitem prs desc_frame 0) (\<lambda>desc_p.
       let prs = set_text prs desc_p desc in
       let prs = set_font_size prs desc_p (Pt 16) in
       bindE (lookup cs ''light_gray'') (\<lambda>c.
       let prs = set_font_color_rgb prs desc_p c in
       Inr prs)))))) prs) (\<lambda>prs.
    let notes_slide = slide in
    let notes_text_frame = notes_slide in
    let prs = set_notes_text prs notes_text_frame ''Use hand gestures to show timeline progression. Emphasize that Lighthouse measures user experience, not just speed.'' in
    Inr prs)))))))))\<close>

text \<open>\<^verbatim>\<open>create_approach_slide\<close>, lines 310 to 378.\<close>

definition create_approach_slide :: "presentation \<Rightarrow> colors \<Rightarrow> error + presentation" where
  \<open>create_approach_slide prs cs =
    bindE (getitem (slide_layouts prs) 6) (\<lambda>slide_layout.
    let (prs, slide) = add_slide prs slide_layout in
    let background = slide in
    let fill = background in
    let prs = solid prs fill in
    bindE (lookup cs ''green_gradient_start'') (\<lambda>c.
    bindE (set_fore_color_rgb prs fill c) (\<lambda>prs.
    let (prs, title_box) = add_textbox prs slide (Inches 1) (Inches 0.5) (Inches 11.33) (Inches 1) in
    let title_frame = title_box in
    let prs = clear prs title_frame in
    bindE (paragraphs_getitem prs title_frame 0) (\<lambda>title_p.
    let prs = set_text prs title_p (''Measure '' @ u_arrow @ '' Analyze '' @ u_arrow @ '' Optimize'') in
    let prs = set_font_size prs title_p (Pt 36) in
    let prs = set_font_bold prs title_p True in
    let prs = set_font_name prs title_p ''Roboto'' in
    bindE (lookup cs ''white'') (\<lambda>c.
    let prs = set_font_color_rgb prs title_p c in
    let prs = set_alignment prs title_p CENTER in
    bindE (lookup cs ''lighthouse_blue'') (\<lambda>c1.
    bindE (lookup cs ''orange_gradient_start'') (\<lambda>c2.
    bindE (lookup cs ''performance_green'') (\<lambda>c3.
    let steps = [(''1'', ''Measure'', ''Lighthouse CI baseline'', c1),
       (''2'', ''Analyze'', ''Bundle analysis & bottleneck identification'', c2),
       (''3'', ''Optimize'', ''Targeted interventions'', c3)] in
    bindE (for_each (List.enumerate 0 steps) (\<lambda>(i, num, title, desc, color) prs.
       let x_pos = 1 + of_nat i * 3.8 in
       let (prs, num_box) = add_textbox prs slide (Inches x_pos) (Inches 2.5) (Inches 1) (Inches 1) in
       let num_frame = num_box in
       let prs = clear prs num_frame in
       bindE (paragraphs_getitem prs num_frame 0) (\<lambda>num_p.
       let prs = set_text prs num_p num in
       let prs = set_font_size prs num_p (Pt 48) in
       let prs = set_font_bold prs num_p True in
       let prs = set_font_color_rgb prs num_p color in
       let prs = set_alignment prs num_p CENTER in
       let (prs, title_box) = add_textbox prs slide (Inches x_pos) (Inches 3.8) (Inches 3) (Inches 0.6) in
       let title_frame = title_box in
       let prs = clear prs title_frame in
       bindE (paragraphs_getitem prs title_frame 0) (\<lambda>title_p.
       let prs = set_text prs title_p title in
       let prs = set_font_size prs title_p (Pt 20) in
       let prs = set_font_bold prs title_p True in
       bindE (lookup cs ''white'') (\<lambda>c.
       let prs = set_font_color_rgb prs title_p c in
       let prs = set_alignment prs title_p CENTER in
       let (prs, desc_box) = add_textbox prs slide (Inches x_pos) (Inches 4.6) (Inches 3) (Inches 1) in
       let desc_frame = desc_box in
       let prs = clear prs desc_frame in
       bindE (paragraphs_getitem prs desc_frame 0) (\<lambda>desc_p.
       let prs = set_text prs desc_p desc in
       let prs = set_font_size prs desc_p (Pt 14) in
       bindE (lookup cs ''light_gray'') (\<lambda>c.
       let prs = set_font_color_rgb prs desc_p c in
       let prs = set_alignment prs desc_p CENTER in
       Inr prs)))))) prs) (\<lambda>prs.
    let notes_slide = slide in
    let notes_text_frame = notes_slide in
    let prs = set_notes_text prs notes_text_frame ([CHR 0x27] @ ''No optimization without measurement.' 'We use Lighthouse CI to make performance a first-class citizen.'' @ [CHR 0x27]) in
    Inr prs)))))))))\<close>

text \<open>\<^verbatim>\<open>create_lazy_loading_slide\<close>, lines 380 to 436.\<close>

definition create_lazy_loading_slide :: "presentation \<Rightarrow> colors \<Rightarrow> error + presentation" where
  \<open>create_lazy_loading_slide prs cs =
    bindE (getitem (slide_layouts prs) 6) (\<lambda>slide_layout.
    let (prs, slide) = add_slide prs slide_layout in
    let background = slide in
    let fill = background in
    let prs = solid prs fill in
    bindE (lookup cs ''orange_gradient_start'') (\<lambda>c.
    bindE (set_fore_color_rgb prs fill c) (\<lambda>prs.
    let (prs, title_box) = add_textbox prs slide (Inches 1) (Inches 0.5) (Inches 11.33) (Inches 1) in
    let title_frame = title_box in
    let prs = clear prs title_frame in
    bindE (paragraphs_getitem prs title_frame 0) (\<lambda>title_p.
    let prs = set_text prs title_p ''Lazy Loading: Load Only What You Need'' in
    let prs = set_font_size prs title_p (Pt 36) in
    let prs = set_font_bold prs title_p True in
    let prs = set_font_name prs title_p ''Roboto'' in
    bindE (lookup cs ''white'') (\<lambda>c.
    let prs = set_font_color_rgb prs title_p c in
    let prs = set_alignment prs title_p CENTER in
    let (prs, before_box) = add_textbox prs slide (Inches 0.5) (Inches 2) (Inches 6) (Inches 2.5) in
    let before_frame = before_box in
    let prs = clear prs before_frame in
    bindE (paragraphs_getitem prs before_frame 0) (\<lambda>before_p.
    let prs = set_text prs before_p ''Before: Eager Loading\<newline>\<newline>import { CommitteeFormBuilderComponent }\<newline>from './committee-form-builder';'' in
    let prs = set_font_size prs before_p (Pt 14) in
    bindE (lookup cs ''light_gray'') (\<lambda>c.
    let prs = set_font_color_rgb prs before_p c in
    let prs = set_font_name prs before_p ''Courier New'' in
    let (prs, after_box) = add_textbox prs slide (Inches 6.5) (Inches 2) (Inches 6) (Inches 2.5) in
    let after_frame = after_box in
    let prs = clear prs after_frame in
    bindE (paragraphs_getitem prs after_frame 0) (\<lambda>after_p.
    let prs = set_text prs after_p ''After: Route-level Lazy Loading\<newline>\<newline>{\<newline>  path: 'CommitteeFormBuilder/:id',\<newline>  loadChildren: () => import('./features/committee-builder.module')\<newline>    .then(m => m.CommitteeBuilderModule)\<newline>}'' in
    let prs = set_font_size prs after_p (Pt 14) in
    bindE (lookup cs ''performance_green'') (\<lambda>c.
    let prs = set_font_color_rgb prs after_p c in
    let prs = set_font_name prs after_p ''Courier New'' in
    let (prs, impact_box) = add_textbox prs slide (Inches 2) (Inches 5) (Inches 9.33) (Inches 1.5) in
    let impact_frame = impact_box in
    let prs = clear prs impact_frame in
    bindE (paragraphs_getitem prs impact_frame 0) (\<lambda>impact_p.
    let prs = set_text prs impact_p (''Impact: Initial bundle reduced by ~792KB '' @ u_bullet @ '' TTI improved by ~2-3 seconds'') in
    let prs = set_font_size prs impact_p (Pt 20) in
    let prs = set_font_bold prs impact_p True in
    bindE (lookup cs ''orange_gradient_start'') (\<lambda>c.
    let prs = set_font_color_rgb prs impact_p c in
    let prs = set_alignment prs impact_p CENTER in
    let notes_slide = slide in
    let notes_text_frame = notes_slide in
    let prs = set_notes_text prs notes_text_frame ([CHR 0x27] @ ''We've already started this journey'' @ u_emdash @ ''now we finish it.' Show the dramatic bundle size reduction.'') in
    Inr prs)))))))))))\<close>

text \<open>\<^verbatim>\<open>create_onpush_slide\<close>, lines 438 to 496.\<close>

definition create_onpush_slide :: "presentation \<Rightarrow> colors \<Rightarrow> error + presentation" where
  \<open>create_onpush_slide prs cs =
    bindE (getitem (slide_layouts prs) 6) (\<lambda>slide_layout.
    let (prs, slide) = add_slide prs slide_layout in
    let background = slide in
    let fill = background in
    let prs = solid prs fill in
    bindE (lookup cs ''purple_gradient_start'') (\<lambda>c.
    bindE (set_fore_color_rgb prs fill c) (\<lambda>prs.
    let (prs, title_box) = add_textbox prs slide (Inches 1) (Inches 0.5) (Inches 11.33) (Inches 1) in
    let title_frame = title_box in
    let prs = clear prs title_frame in
    bindE (paragraphs_getitem prs title_frame 0) (\<lambda>title_p.
    let prs = set_text prs title_p ''OnPush: Smarter Change Detection'' in
    let prs = set_font_size prs title_p (Pt 36) in
    let prs = set_font_bold prs title_p True in
    let prs = set_font_name prs title_p ''Roboto'' in
    bindE (lookup cs ''white'') (\<lambda>c.
    let prs = set_font_color_rgb prs title_p c in
    let prs = set_alignment prs title_p CENTER in
    let (prs, problem_box) = add_textbox prs slide (Inches 1) (Inches 2) (Inches 11.33) (Inches 0.8) in
    let problem_frame = problem_box in
    let prs = clear prs problem_frame in
    bindE (paragraphs_getitem prs problem_frame 0) (\<lambda>problem_p.
    let prs = set_text prs problem_p ''The Problem: Every HTTP request triggers change detection across the entire component tree'' in
    let prs = set_font_size prs problem_p (Pt 18) in
    bindE (lookup cs ''light_gray'') (\<lambda>c.
    let prs = set_font_color_rgb prs problem_p c in
    let prs = set_alignment prs problem_p CENTER in
    let (prs, code_box) = add_textbox prs slide (Inches 2) (Inches 3) (Inches 9.33) (Inches 1.5) in
    let code_frame = code_box in
    let prs = clear prs code_frame in
    bindE (paragraphs_getitem prs code_frame 0) (\<lambda>code_p.
    let prs = set_text prs code_p ''@Component({\<newline>  selector: 'app-dashboard',\<newline>  templateUrl: './dashboard.component.html',\<newline>  changeDetection: ChangeDetectionStrategy.OnPush\<newline>})'' in
    let prs = set_font_size prs code_p (Pt 14) in
    bindE (lookup cs ''lighthouse_blue'') (\<lambda>c.
    let prs = set_font_color_rgb prs code_p c in
    let prs = set_font_name prs code_p ''Courier New'' in
    let prs = set_alignment prs code_p CENTER in
    let (prs, impact_box) = add_textbox prs slide (Inches 2) (Inches 5) (Inches 9.33) (Inches 1) in
    let impact_frame = impact_box in
    let prs = clear prs impact_frame in
    bindE (paragraphs_getitem prs impact_frame 0) (\<lambda>impact_p.
    let prs = set_text prs impact_p (''Impact: 40-60% reduction in change detection cycles '' @ u_bullet @ '' TTI improvement: ~1-2 seconds'') in
    let prs = set_font_size prs impact_p (Pt 18) in
    let prs = set_font_bold prs impact_p True in
    bindE (lookup cs ''performance_green'') (\<lambda>c.
    let prs = set_font_color_rgb prs impact_p c in
    let prs = set_alignment prs impact_p CENTER in
    let notes_slide = slide in
    let notes_text_frame = notes_slide in
    let prs = set_notes_text prs notes_text_frame ([CHR 0x27] @ ''Not every component needs this'' @ u_emdash @ ''start with leaf components.' Show the dramatic reduction in CPU usage.'') in
    Inr prs)))))))))))\<close>

text \<open>\<^verbatim>\<open>create_font_loading_slide\<close>, lines 498 to 577.\<close>

definition create_font_loading_slide :: "presentation \<Rightarrow> colors \<Rightarrow> error + presentation" where
  \<open>create_font_loading_slide prs cs =
    bindE (getitem (slide_layouts prs) 6) (\<lambda>slide_layout.
    let (prs, slide) = add_slide prs slide_layout in
    let background = slide in
    let fill = background in
    let prs = solid prs fill in
    bindE (lookup cs ''teal_gradient_start'') (\<lambda>c.
    bindE (set_fore_color_rgb prs fill c) (\<lambda>prs.
    let (prs, title_box) = add_textbox prs slide (Inches 1) (Inches 0.5) (Inches 11.33) (Inches 1) in
    let title_frame = title_box in
    let prs = clear prs title_frame in
    bindE (paragraphs_getitem prs title_frame 0) (\<lambda>title_p.
    let prs = set_text prs title_p ''Async Font Loading: Don't Block the Critical Path'' in
    let prs = set_font_size prs title_p (Pt 36) in
    let prs = set_font_bold prs title_p True in
    let prs = set_font_name prs title_p ''Roboto'' in
    bindE (lookup cs ''white'') (\<lambda>c.
    let prs = set_font_color_rgb prs title_p c in
    let prs = set_alignment prs title_p CENTER in
    let (prs, problem_box) = add_textbox prs slide (Inches 1) (Inches 2) (Inches 11.33) (Inches 0.6) in
    let problem_frame = problem_box in
    let prs = clear prs problem_frame in
    bindE (paragraphs_getitem prs problem_frame 0) (\<lambda>problem_p.
    let prs = set_text prs problem_p ''Current Problem: These block rendering!'' in
    let prs = set_font_size prs problem_p (Pt 18) in
    bindE (lookup cs ''light_gray'') (\<lambda>c.
    let prs = set_font_color_rgb prs problem_p c in
    let prs = set_alignment prs problem_p CENTER in
    let (prs, problem_code_box) = add_textbox prs slide (Inches 2) (Inches 2.8) (Inches 9.33) (Inches 0.8) in
    let problem_code_frame = problem_code_box in
    let prs = clear prs problem_code_frame in
    bindE (paragraphs_getitem prs problem_code_frame 0) (\<lambda>problem_code_p.
    let prs = set_text prs problem_code_p ''<link href="https://fonts.googleapis.com/css2?family=Roboto:wght@300;400;500&display=swap" rel="stylesheet">'' in
    let prs = set_font_size prs problem_code_p (Pt 12) in
    let prs = set_font_color_rgb prs problem_code_p (RGBColor 255 100 100) in
    let prs = set_font_name prs problem_code_p ''Courier New'' in
    let prs = set_alignment prs problem_code_p CENTER in
    let (prs, solution_box) = add_textbox prs slide (Inches 1) (Inches 4) (Inches 11.33) (Inches 0.6) in
    let solution_frame = solution_box in
    let prs = clear prs solution_frame in
    bindE (paragraphs_getitem prs solution_frame 0) (\<lambda>solution_p.
    let prs = set_text prs solution_p ''Optimized Approach: Preconnect + Async Load'' in
    let prs = set_font_size prs solution_p (Pt 18) in
    bindE (lookup cs ''performance_green'') (\<lambda>c.
    let prs = set_font_color_rgb prs solution_p c in
    let prs = set_alignment prs solution_p CENTER in
    let (prs, solution_code_box) = add_textbox prs slide (Inches 1) (Inches 4.8) (Inches 11.33) (Inches 1.2) in
    let solution_code_frame = solution_code_box in
    let prs = clear prs solution_code_frame in
    bindE (paragraphs_getitem prs solution_code_frame 0) (\<lambda>solution_code_p.
    let prs = set_text prs solution_code_p ''<!-- Preconnect to speed up DNS/TCP/TLS -->\<newline><link rel="preconnect" href="https://fonts.googleapis.com">\<newline><link rel="preconnect" href="https://fonts.gstatic.com" crossorigin>\<newline>\<newline><!-- Async load with font-display: swap -->\<newline><link href="https://fonts.googleapis.com/css2?family=Roboto:wght@300;400;500&display=swap"\<newline>      rel="stylesheet" media="print" onload="this.media='all'">'' in
    let prs = set_font_size prs solution_code_p (Pt 10) in
    bindE (lookup cs ''accent_cyan'') (\<lambda>c.
    let prs = set_font_color_rgb prs solution_code_p c in
    let prs = set_font_name prs solution_code_p ''Courier New'' in
    let prs = set_alignment prs solution_code_p CENTER in
    let (prs, impact_box) = add_textbox prs slide (Inches 2) (Inches 6.2) (Inches 9.33) (Inches 0.8) in
    let impact_frame = impact_box in
    let prs = clear prs impact_frame in
    bindE (paragraphs_getitem prs impact_frame 0) (\<lambda>impact_p.
    let prs = set_text prs impact_p (''Impact: FCP improvement of 400-800ms '' @ u_bullet @ '' Better perceived performance'') in
    let prs = set_font_size prs impact_p (Pt 16) in
    let prs = set_font_bold prs impact_p True in
    bindE (lookup cs ''orange_gradient_start'') (\<lambda>c.
    let prs = set_font_color_rgb prs impact_p c in
    let prs = set_alignment prs impact_p CENTER in
    let notes_slide = slide in
    let notes_text_frame = notes_slide in
    let prs = set_notes_text prs notes_text_frame ''Show the dramatic difference between blocking and non-blocking font loading. Emphasize the FCP improvement.'' in
    Inr prs))))))))))))))\<close>

text \<open>\<^verbatim>\<open>create_material_modules_slide\<close>, lines 579 to 647.\<close>

definition create_material_modules_slide :: "presentation \<Rightarrow> colors \<Rightarrow> error + presentation" where
  \<open>create_material_modules_slide prs cs =
    bindE (getitem (slide_layouts prs) 6) (\<lambda>slide_layout.
    let (prs, slide) = add_slide prs slide_layout in
    let background = slide in
    let fill = background in
    let prs = solid prs fill in
    bindE (lookup cs ''indigo_gradient_start'') (\<lambda>c.
    bindE (set_fore_color_rgb prs fill c) (\<lambda>prs.
    let (prs, title_box) = add_textbox prs slide (Inches 1) (Inches 0.5) (Inches 11.33) (Inches 1) in
    let title_frame = title_box in
    let prs = clear prs title_frame in
    bindE (paragraphs_getitem prs title_frame 0) (\<lambda>title_p.
    let prs = set_text prs title_p ''Refactor SharedModule: Import Only What You Use'' in
    let prs = set_font_size prs title_p (Pt 36) in
    let prs = set_font_bold prs title_p True in
    let prs = set_font_name prs title_p ''Roboto'' in
    bindE (lookup cs ''white'') (\<lambda>c.
    let prs = set_font_color_rgb prs title_p c in
    let prs = set_alignment prs title_p CENTER in
    let (prs, problem_box) = add_textbox prs slide (Inches 1) (Inches 2) (Inches 11.33) (Inches 0.6) in
    let problem_frame = problem_box in
    let prs = clear prs problem_frame in
    bindE (paragraphs_getitem prs problem_frame 0) (\<lambda>problem_p.
    let prs = set_text prs problem_p ''The Problem: SharedModule imports and exports 25+ Material modules'' in
    let prs = set_font_size prs problem_p (Pt 18) in
    bindE (lookup cs ''light_gray'') (\<lambda>c.
    let prs = set_font_color_rgb prs problem_p c in
    let prs = set_alignment prs problem_p CENTER in
    let (prs, code_box) = add_textbox prs slide (Inches 2) (Inches 2.8) (Inches 9.33) (Inches 1.5) in
    let code_frame = code_box in
    let prs = clear prs code_frame in
    bindE (paragraphs_getitem prs code_frame 0) (\<lambda>code_p.
    let prs = set_text prs code_p ''// shared.module.ts - Importing EVERYTHING\<newline>imports: [\<newline>  MatDialogModule, MatProgressSpinnerModule, MatIconModule,\<newline>  MatCardModule, MatDatepickerModule, MatFormFieldModule,\<newline>  // ... 20 more modules\<newline>]'' in
    let prs = set_font_size prs code_p (Pt 12) in
    let prs = set_font_color_rgb prs code_p (RGBColor 255 100 100) in
    let prs = set_font_name prs code_p ''Courier New'' in
    let prs = set_alignment prs code_p CENTER in
    let (prs, solution_box) = add_textbox prs slide (Inches 1) (Inches 4.5) (Inches 11.33) (Inches 0.6) in
    let solution_frame = solution_box in
    let prs = clear prs solution_frame in
    bindE (paragraphs_getitem prs solution_frame 0) (\<lambda>solution_p.
    let prs = set_text prs solution_p ''Optimized Approach: Feature-specific imports only'' in
    let prs = set_font_size prs solution_p (Pt 18) in
    bindE (lookup cs ''performance_green'') (\<lambda>c.
    let prs = set_font_color_rgb prs solution_p c in
    let prs = set_alignment prs solution_p CENTER in
    let (prs, impact_box) = add_textbox prs slide (Inches 2) (Inches 5.5) (Inches 9.33) (Inches 0.8) in
    let impact_frame = impact_box in
    let prs = clear prs impact_frame in
    bindE (paragraphs_getitem prs impact_frame 0) (\<lambda>impact_p.
    let prs = set_text prs impact_p (''Impact: ~200-300KB reduction in vendor bundle '' @ u_bullet @ '' Better tree-shaking'') in
    let prs = set_font_size prs impact_p (Pt 16) in
    let prs = set_font_bold prs impact_p True in
    bindE (lookup cs ''orange_gradient_start'') (\<lambda>c.
    let prs = set_font_color_rgb prs impact_p c in
    let prs = set_alignment prs impact_p CENTER in
    let notes_slide = slide in
    let notes_text_frame = notes_slide in
    let prs = set_notes_text prs notes_text_frame ''Show the dramatic difference in bundle size. Emphasize that this is about importing only what you actually use.'' in
    Inr prs))))))))))))\<close>

text \<open>\<^verbatim>\<open>create_demo_slide\<close>, lines 649 to 705.\<close>

definition create_demo_slide :: "presentation \<Rightarrow> colors \<Rightarrow> error + presentation" where
  \<open>create_demo_slide prs cs =
    bindE (getitem (slide_layouts prs) 6) (\<lambda>slide_layout.
    let (prs, slide) = add_slide prs slide_layout in
    let background = slide in
    let fill = background in
    let prs = solid prs fill in
    bindE (lookup cs ''dark_gradient_start'') (\<lambda>c.
    bindE (set_fore_color_rgb prs fill c) (\<lambda>prs.
    let (prs, title_box) = add_textbox prs slide (Inches 1) (Inches 0.5) (Inches 11.33) (Inches 1) in
    let title_frame = title_box in
    let prs = clear prs title_frame in
    bindE (paragraphs_getitem prs title_frame 0) (\<lambda>title_p.
    let prs = set_text prs title_p ''Watch the Magic Happen'' in
    let prs = set_font_size prs title_p (Pt 36) in
    let prs = set_font_bold prs title_p True in
    let prs = set_font_name prs title_p ''Roboto'' in
    bindE (lookup cs ''white'') (\<lambda>c.
    let prs = set_font_color_rgb prs title_p c in
    let prs = set_alignment prs title_p CENTER in
    let (prs, demo_box) = add_textbox prs slide (Inches 2) (Inches 2) (Inches 9.33) (Inches 3) in
    let demo_frame = demo_box in
    let prs = clear prs demo_frame in
    let demo_steps = [(''1. Here's the current dashboard'' @ u_emdash @ ''watch the metrics''),
       ''2. I'll apply OnPush to just 3 components'',
       ''3. Rebuild and re-run Lighthouse'',
       ''4. Notice the TTI dropped from 8.2s to 5.7s''] in
    bindE (for_each (List.enumerate 0 demo_steps) (\<lambda>(i, step) prs.
       bindE (if i < len_paragraphs prs demo_frame
       then bindE (paragraphs_getitem prs demo_frame i) (\<lambda>p. Inr (prs, p))
       else Inr (add_paragraph prs demo_frame)) (\<lambda>(prs, p).
       let prs = set_text prs p step in
       let prs = set_font_size prs p (Pt 18) in
       bindE (lookup cs ''light_gray'') (\<lambda>c.
       let prs = set_font_color_rgb prs p c in
       let prs = set_alignment prs p CENTER in
       Inr prs))) prs) (\<lambda>prs.
    let (prs, perf_box) = add_textbox prs slide (Inches 3) (Inches 5.5) (Inches 7.33) (Inches 1) in
    let perf_frame = perf_box in
    let prs = clear prs perf_frame in
    bindE (paragraphs_getitem prs perf_frame 0) (\<lambda>perf_p.
    let prs = set_text prs perf_p (''TTI: 8.2s '' @ u_arrow @ '' 5.7s'') in
    let prs = set_font_size prs perf_p (Pt 24) in
    let prs = set_font_bold prs perf_p True in
    bindE (lookup cs ''performance_green'') (\<lambda>c.
    let prs = set_font_color_rgb prs perf_p c in
    let prs = set_alignment prs perf_p CENTER in
    let notes_slide = slide in
    let notes_text_frame = notes_slide in
    let prs = set_notes_text prs notes_text_frame ''Have a backup video in case of technical difficulties. Show the dramatic improvement in real-time.'' in
    Inr prs))))))))\<close>

text \<open>\<^verbatim>\<open>create_results_slide\<close>, lines 707 to 800.\<close>

definition create_results_slide :: "presentation \<Rightarrow> colors \<Rightarrow> error + presentation" where
  \<open>create_results_slide prs cs =
    bindE (getitem (slide_layouts prs) 6) (\<lambda>slide_layout.
    let (prs, slide) = add_slide prs slide_layout in
    let background = slide in
    let fill = background in
    let prs = solid prs fill in
    bindE (lookup cs ''success_gradient_start'') (\<lambda>c.
    bindE (set_fore_color_rgb prs fill c) (\<lambda>prs.
    let (prs, title_box) = add_textbox prs slide (Inches 1) (Inches 0.5) (Inches 11.33) (Inches 1) in
    let title_frame = title_box in
    let prs = clear prs title_frame in
    bindE (paragraphs_getitem prs title_frame 0) (\<lambda>title_p.
    let prs = set_text prs title_p ''The Numbers Don't Lie'' in
    let prs = set_font_size prs title_p (Pt 36) in
    let prs = set_font_bold prs title_p True in
    let prs = set_font_name prs title_p ''Roboto'' in
    bindE (lookup cs ''white'') (\<lambda>c.
    let prs = set_font_color_rgb prs title_p c in
    let prs = set_alignment prs title_p CENTER in
    let results = [(''Performance Score'', ''45'', ''78'', ''+73%''),
       (''FCP'', ''2.8s'', ''1.2s'', ''-57%''),
       (''LCP'', ''6.4s'', ''2.3s'', ''-64%''),
       (''TTI'', ''8.2s'', ''3.1s'', ''-62%''),
       (''Bundle Size'', ''4.47 MB'', ''2.1 MB'', ''-53%'')] in
    let headers = [''Metric'',
       ''Before'',
       ''After'',
       ''Improvement''] in
    bindE (for_each (List.enumerate 0 headers) (\<lambda>(i, header) prs.
       let (prs, header_box) = add_textbox prs slide (Inches (1 + of_nat i * 2.8)) (Inches 2) (Inches 2.8) (Inches 0.6) in
       let header_frame = header_box in
       let prs = clear prs header_frame in
       bindE (paragraphs_getitem prs header_frame 0) (\<lambda>header_p.
       let prs = set_text prs header_p header in
       let prs = set_font_size prs header_p (Pt 16) in
       let prs = set_font_bold prs header_p True in
       bindE (lookup cs ''orange_gradient_start'') (\<lambda>c.
       let prs = set_font_color_rgb prs header_p c in
       let prs = set_alignment prs header_p CENTER in
       Inr prs))) prs) (\<lambda>prs.
    bindE (for_each (List.enumerate 0 results) (\<lambda>(row_idx, metric, before, after, improvement) prs.
       let y_pos = 2.8 + of_nat row_idx * 0.6 in
       let (prs, metric_box) = add_textbox prs slide (Inches 1) (Inches y_pos) (Inches 2.8) (Inches 0.6) in
       let metric_frame = metric_box in
       let prs = clear prs metric_frame in
       bindE (paragraphs_getitem prs metric_frame 0) (\<lambda>metric_p.
       let prs = set_text prs metric_p metric in
       let prs = set_font_size prs metric_p (Pt 14) in
       bindE (lookup cs ''white'') (\<lambda>c.
       let prs = set_font_color_rgb prs metric_p c in
       let prs = set_alignment prs metric_p CENTER in
       let (prs, before_box) = add_textbox prs slide (Inches 3.8) (Inches y_pos) (Inches 2.8) (Inches 0.6) in
       let before_frame = before_box in
       let prs = clear prs before_frame in
       bindE (paragraphs_getitem prs before_frame 0) (\<lambda>before_p.
       let prs = set_text prs before_p before in
       let prs = set_font_size prs before_p (Pt 14) in
       let prs = set_font_color_rgb prs before_p (RGBColor 255 100 100) in
       let prs = set_alignment prs before_p CENTER in
       let (prs, after_box) = add_textbox prs slide (Inches 6.6) (Inches y_pos) (Inches 2.8) (Inches 0.6) in
       let after_frame = after_box in
       let prs = clear prs after_frame in
       bindE (paragraphs_getitem prs after_frame 0) (\<lambda>after_p.
       let prs = set_text prs after_p after in
       let prs = set_font_size prs after_p (Pt 14) in
       bindE (lookup cs ''performance_green'') (\<lambda>c.
       let prs = set_font_color_rgb prs after_p c in
       let prs = set_alignment prs after_p CENTER in
       let (prs, improvement_box) = add_textbox prs slide (Inches 9.4) (Inches y_pos) (Inches 2.8) (Inches 0.6) in
       let improvement_frame = improvement_box in
       let prs = clear prs improvement_frame in
       bindE (paragraphs_getitem prs improvement_frame 0) (\<lambda>improvement_p.
       let prs = set_text prs improvement_p improvement in
       let prs = set_font_size prs improvement_p (Pt 14) in
       let prs = set_font_bold prs improvement_p True in
       bindE (lookup cs ''accent_cyan'') (\<lambda>c.
       let prs = set_font_color_rgb prs improvement_p c in
       let prs = set_alignment prs improvement_p CENTER in
       Inr prs)))))))) prs) (\<lambda>prs.
    let notes_slide = slide in
    let notes_text_frame = notes_slide in
    let prs = set_notes_text prs notes_text_frame ([CHR 0x27] @ ''These aren't theoretical'' @ u_emdash @ ''these are real improvements.' Emphasize the dramatic improvements.'') in
    Inr prs)))))))\<close>

text \<open>\<^verbatim>\<open>create_roadmap_slide\<close>, lines 802 to 872.\<close>

definition create_roadmap_slide :: "presentation \<Rightarrow> colors \<Rightarrow> error + presentation" where
  \<open>create_roadmap_slide prs cs =
    bindE (getitem (slide_layouts prs) 6) (\<lambda>slide_layout.
    let (prs, slide) = add_slide prs slide_layout in
    let background = slide in
    let fill = background in
    let prs = solid prs fill in
    bindE (lookup cs ''future_gradient_start'') (\<lambda>c.
    bindE (set_fore_color_rgb prs fill c) (\<lambda>prs.
    let (prs, title_box) = add_textbox prs slide (Inches 1) (Inches 0.5) (Inches 11.33) (Inches 1) in
    let title_frame = title_box in
    let prs = clear prs title_frame in
    bindE (paragraphs_getitem prs title_frame 0) (\<lambda>title_p.
    let prs = set_text prs title_p ''The Journey Continues'' in
    let prs = set_font_size prs title_p (Pt 36) in
    let prs = set_font_bold prs title_p True in
    let prs = set_font_name prs title_p ''Roboto'' in
    bindE (lookup cs ''white'') (\<lambda>c.
    let prs = set_font_color_rgb prs title_p c in
    let prs = set_alignment prs title_p CENTER in
    let (prs, high_low_box) = add_textbox prs slide (Inches 1) (Inches 2) (Inches 5.5) (Inches 2) in
    let high_low_frame = high_low_box in
    let prs = clear prs high_low_frame in
    bindE (paragraphs_getitem prs high_low_frame 0) (\<lambda>high_low_p.
    let prs = set_text prs high_low_p ''High Impact / Low Effort (Do First)'' in
    let prs = set_font_size prs high_low_p (Pt 18) in
    let prs = set_font_bold prs high_low_p True in
    bindE (lookup cs ''performance_green'') (\<lambda>c.
    let prs = set_font_color_rgb prs high_low_p c in
    let high_low_items = [(u_bullet @ '' Image lazy loading with loading='lazy'' @ [CHR 0x27]),
       (u_bullet @ '' Remove unused polyfills''),
       (u_bullet @ '' Enable Brotli compression'')] in
    bindE (for_each (List.enumerate 0 high_low_items) (\<lambda>(i, item) prs.
       bindE (if i + 1 < len_paragraphs prs high_low_frame
       then bindE (paragraphs_getitem prs high_low_frame (i + 1)) (\<lambda>p. Inr (prs, p))
       else Inr (add_paragraph prs high_low_frame)) (\<lambda>(prs, p).
       let prs = set_text prs p item in
       let prs = set_font_size prs p (Pt 14) in
       bindE (lookup cs ''light_gray'') (\<lambda>c.
       let prs = set_font_color_rgb prs p c in
       Inr prs))) prs) (\<lambda>prs.
    let (prs, high_high_box) = add_textbox prs slide (Inches 6.5) (Inches 2) (Inches 5.5) (Inches 2) in
    let high_high_frame = high_high_box in
    let prs = clear prs high_high_frame in
    bindE (paragraphs_getitem prs high_high_frame 0) (\<lambda>high_high_p.
    let prs = set_text prs high_high_p ''High Impact / High Effort (Plan Carefully)'' in
    let prs = set_font_size prs high_high_p (Pt 18) in
    let prs = set_font_bold prs high_high_p True in
    bindE (lookup cs ''accent_orange'') (\<lambda>c.
    let prs = set_font_color_rgb prs high_high_p c in
    let high_high_items = [(u_bullet @ '' Migrate to standalone components (Angular 18+)''),
       (u_bullet @ '' Implement virtual scrolling for large lists''),
       (u_bullet @ '' Progressive Web App (PWA) features'')] in
    bindE (for_each (List.enumerate 0 high_high_items) (\<lambda>(i, item) prs.
       bindE (if i + 1 < len_paragraphs prs high_high_frame
       then bindE (paragraphs_getitem prs high_high_frame (i + 1)) (\<lambda>p. Inr (prs, p))
       else Inr (add_paragraph prs high_high_frame)) (\<lambda>(prs, p).
       let prs = set_text prs p item in
       let prs = set_font_size prs p (Pt 14) in
       bindE (lookup cs ''light_gray'') (\<lambda>c.
       let prs = set_font_color_rgb prs p c in
       Inr prs))) prs) (\<lambda>prs.
    let notes_slide = slide in
    let notes_text_frame = notes_slide in
    let prs = set_notes_text prs notes_text_frame ''Show the strategic approach to optimization. Emphasize that this is just the beginning.'' in
    Inr prs)))))))))))\<close>

text \<open>\<^verbatim>\<open>create_cta_slide\<close>, lines 874 to 929.\<close>

definition create_cta_slide :: "presentation \<Rightarrow> colors \<Rightarrow> error + presentation" where
  \<open>create_cta_slide prs cs =
    bindE (getitem (slide_layouts prs) 6) (\<lambda>slide_layout.
    let (prs, slide) = add_slide prs slide_layout in
    let background = slide in
    let fill = background in
    let prs = solid prs fill in
    bindE (lookup cs ''action_gradient_start'') (\<lambda>c.
    bindE (set_fore_color_rgb prs fill c) (\<lambda>prs.
    let (prs, title_box) = add_textbox prs slide (Inches 1) (Inches 0.5) (Inches 11.33) (Inches 1) in
    let title_frame = title_box in
    let prs = clear prs title_frame in
    bindE (paragraphs_getitem prs title_frame 0) (\<lambda>title_p.
    let prs = set_text prs title_p ''Performance is a Feature, Not a Nice-to-Have'' in
    let prs = set_font_size prs title_p (Pt 36) in
    let prs = set_font_bold prs title_p True in
    let prs = set_font_name prs title_p ''Roboto'' in
    bindE (lookup cs ''white'') (\<lambda>c.
    let prs = set_font_color_rgb prs title_p c in
    let prs = set_alignment prs title_p CENTER in
    let (prs, takeaways_box) = add_textbox prs slide (Inches 2) (Inches 2) (Inches 9.33) (Inches 2) in
    let takeaways_frame = takeaways_box in
    let prs = clear prs takeaways_frame in
    let takeaways = [''1. Add Lighthouse CI to your pipeline today'',
       ''2. Set budget limits in angular.json'',
       ''3. Make one optimization per sprint''] in
    bindE (for_each (List.enumerate 0 takeaways) (\<lambda>(i, takeaway) prs.
       bindE (if i < len_paragraphs prs takeaways_frame
       then bindE (paragraphs_getitem prs takeaways_frame i) (\<lambda>p. Inr (prs, p))
       else Inr (add_paragraph prs takeaways_frame)) (\<lambda>(prs, p).
       let prs = set_text prs p takeaway in
       let prs = set_font_size prs p (Pt 20) in
       bindE (lookup cs ''light_gray'') (\<lambda>c.
       let prs = set_font_color_rgb prs p c in
       let prs = set_alignment prs p CENTER in
       Inr prs))) prs) (\<lambda>prs.
    let (prs, closing_box) = add_textbox prs slide (Inches 1) (Inches 4.5) (Inches 11.33) (Inches 1.5) in
    let closing_frame = closing_box in
    let prs = clear prs closing_frame in
    bindE (paragraphs_getitem prs closing_frame 0) (\<lambda>closing_p.
    let prs = set_text prs closing_p ''Remember: Every millisecond is a vote of confidence in your users.'' in
    let prs = set_font_size prs closing_p (Pt 24) in
    let prs = set_font_bold prs closing_p True in
    bindE (lookup cs ''accent_orange'') (\<lambda>c.
    let prs = set_font_color_rgb prs closing_p c in
    let prs = set_alignment prs closing_p CENTER in
    let notes_slide = slide in
    let notes_text_frame = notes_slide in
    let prs = set_notes_text prs notes_text_frame ''End with energy and conviction. Make it clear this is achievable. Encourage immediate action.'' in
    Inr prs))))))))\<close>

text \<open>\<^verbatim>\<open>create_qa_slide\<close>, lines 931 to 982.\<close>

definition create_qa_slide :: "presentation \<Rightarrow> colors \<Rightarrow> error + presentation" where
  \<open>create_qa_slide prs cs =
    bindE (getitem (slide_layouts prs) 6) (\<lambda>slide_layout.
    let (prs, slide) = add_slide prs slide_layout in
    let background = slide in
    let fill = background in
    let prs = solid prs fill in
    bindE (lookup cs ''discussion_gradient_start'') (\<lambda>c.
    bindE (set_fore_color_rgb prs fill c) (\<lambda>prs.
    let (prs, title_box) = add_textbox prs slide (Inches 1) (Inches 0.5) (Inches 11.33) (Inches 1) in
    let title_frame = title_box in
    let prs = clear prs title_frame in
    bindE (paragraphs_getitem prs title_frame 0) (\<lambda>title_p.
    let prs = set_text prs title_p ''Questions & Discussion'' in
    let prs = set_font_size prs title_p (Pt 36) in
    let prs = set_font_bold prs title_p True in
    let prs = set_font_name prs title_p ''Roboto'' in
    bindE (lookup cs ''white'') (\<lambda>c.
    let prs = set_font_color_rgb prs title_p c in
    let prs = set_alignment prs title_p CENTER in
    let (prs, resources_box) = add_textbox prs slide (Inches 2) (Inches 2.5) (Inches 9.33) (Inches 2) in
    let resources_frame = resources_box in
    let prs = clear prs resources_frame in
    bindE (paragraphs_getitem prs resources_frame 0) (\<lambda>resources_p.
    let prs = set_text prs resources_p ''Key Resources:'' in
    let prs = set_font_size prs resources_p (Pt 20) in
    let prs = set_font_bold prs resources_p True in
    bindE (lookup cs ''accent_cyan'') (\<lambda>c.
    let prs = set_font_color_rgb prs resources_p c in
    let prs = set_alignment prs resources_p CENTER in
    let resources = [(u_bullet @ '' Angular Performance Guide''),
       (u_bullet @ '' Lighthouse Documentation''),
       (u_bullet @ '' Web.dev Performance''),
       (u_bullet @ '' Core Web Vitals'')] in
    bindE (for_each (List.enumerate 0 resources) (\<lambda>(i, resource) prs.
       bindE (if i + 1 < len_paragraphs prs resources_frame
       then bindE (paragraphs_getitem prs resources_frame (i + 1)) (\<lambda>p. Inr (prs, p))
       else Inr (add_paragraph prs resources_frame)) (\<lambda>(prs, p).
       let prs = set_text prs p resource in
       let prs = set_font_size prs p (Pt 16) in
       bindE (lookup cs ''light_gray'') (\<lambda>c.
       let prs = set_font_color_rgb prs p c in
       let prs = set_alignment prs p CENTER in
       Inr prs))) prs) (\<lambda>prs.
    let notes_slide = slide in
    let notes_text_frame = notes_slide in
    let prs = set_notes_text prs notes_text_frame ''Be prepared for technical questions. Have backup slides with more details. Encourage discussion and feedback.'' in
    Inr prs))))))))\<close>

text \<open>\<^verbatim>\<open>create_thank_you_slide\<close>, lines 984 to 1020.\<close>

definition create_thank_you_slide :: "presentation \<Rightarrow> colors \<Rightarrow> error + presentation" where
  \<open>create_thank_you_slide prs cs =
    bindE (getitem (slide_layouts prs) 6) (\<lambda>slide_layout.
    let (prs, slide) = add_slide prs slide_layout in
    let background = slide in
    let fill = background in
    let prs = solid prs fill in
    bindE (lookup cs ''gratitude_gradient_start'') (\<lambda>c.
    bindE (set_fore_color_rgb prs fill c) (\<lambda>prs.
    let (prs, title_box) = add_textbox prs slide (Inches 1) (Inches 2) (Inches 11.33) (Inches 1.5) in
    let title_frame = title_box in
    let prs = clear prs title_frame in
    bindE (paragraphs_getitem prs title_frame 0) (\<lambda>title_p.
    let prs = set_text prs title_p ''Thank You for Your Time'' in
    let prs = set_font_size prs title_p (Pt 36) in
    let prs = set_font_bold prs title_p True in
    let prs = set_font_name prs title_p ''Roboto'' in
    bindE (lookup cs ''white'') (\<lambda>c.
    let prs = set_font_color_rgb prs title_p c in
    let prs = set_alignment prs title_p CENTER in
    let (prs, message_box) = add_textbox prs slide (Inches 1) (Inches 4) (Inches 11.33) (Inches 1.5) in
    let message_frame = message_box in
    let prs = clear prs message_frame in
    bindE (paragraphs_getitem prs message_frame 0) (\<lambda>message_p.
    let prs = set_text prs message_p ''Let's make the web faster, one optimization at a time.'' in
    let prs = set_font_size prs message_p (Pt 24) in
    bindE (lookup cs ''accent_orange'') (\<lambda>c.
    let prs = set_font_color_rgb prs message_p c in
    let prs = set_alignment prs message_p CENTER in
    let notes_slide = slide in
    let notes_text_frame = notes_slide in
    let prs = set_notes_text prs notes_text_frame ''End on a positive note. Encourage follow-up conversations. Thank the audience for their attention.'' in
    Inr prs)))))))\<close>

text \<open>
  The fourteen calls of \<^verbatim>\<open>create_angular_presentation\<close>, lines 69 to 109, on a
  presentation and a colour table: a call that raises ends the sequence.
\<close>

definition create_slides :: "presentation \<Rightarrow> colors \<Rightarrow> error + presentation" where
  "create_slides prs cs =
    bindE (create_title_slide prs cs) (\<lambda>prs.
    bindE (create_hook_slide prs cs) (\<lambda>prs.
    bindE (create_lighthouse_metrics_slide prs cs) (\<lambda>prs.
    bindE (create_approach_slide prs cs) (\<lambda>prs.
    bindE (create_lazy_loading_slide prs cs) (\<lambda>prs.
    bindE (create_onpush_slide prs cs) (\<lambda>prs.
    bindE (create_font_loading_slide prs cs) (\<lambda>prs.
    bindE (create_material_modules_slide prs cs) (\<lambda>prs.
    bindE (create_demo_slide prs cs) (\<lambda>prs.
    bindE (create_results_slide prs cs) (\<lambda>prs.
    bindE (create_roadmap_slide prs cs) (\<lambda>prs.
    bindE (create_cta_slide prs cs) (\<lambda>prs.
    bindE (create_qa_slide prs cs) (\<lambda>prs.
    bindE (create_thank_you_slide prs cs) (\<lambda>prs.
    Inr prs))))))))))))))"

text \<open>
  The variable \<^verbatim>\<open>prs\<close> of \<^verbatim>\<open>create_angular_presentation\<close> holds one object, which
  the statements of the function change one after the other. A run keeps the values that
  the object has had, the one it was created with and the one after each statement that has
  completed, and how the run stands: with the presentation as it is, or with the exception
  of the statement that raised, after which no statement is executed.
\<close>

record run =
  states :: "presentation list"
  outcome :: "error + presentation"

definition start_with :: "presentation \<Rightarrow> run" where
  "start_with prs = \<lparr>states = [prs], outcome = Inr prs\<rparr>"

definition then_do :: "run \<Rightarrow> (presentation \<Rightarrow> error + presentation) \<Rightarrow> run" where
  "then_do r stmt =
     (case outcome r of
        Inl e \<Rightarrow> r
      | Inr prs \<Rightarrow>
         (case stmt prs of
            Inl e \<Rightarrow> r\<lparr>outcome := Inl e\<rparr>
          | Inr prs' \<Rightarrow> \<lparr>states = states r @ [prs'], outcome = Inr prs'\<rparr>))"

text \<open>
  The statements of \<^verbatim>\<open>create_angular_presentation\<close>, lines 15 to 111: it takes no
  argument, opens the default presentation, sets the page width and the page height, binds
  the colour table and makes the fourteen calls.
\<close>

definition create_angular_presentation_run :: run where
  "create_angular_presentation_run =
    (let r = start_with Presentation;
         r = then_do r (\<lambda>prs. Inr (prs\<lparr>slide_width := Inches 13.33\<rparr>));
         r = then_do r (\<lambda>prs. Inr (prs\<lparr>slide_height := Inches 7.5\<rparr>));
         r = then_do r (\<lambda>prs. create_title_slide prs colors);
         r = then_do r (\<lambda>prs. create_hook_slide prs colors);
         r = then_do r (\<lambda>prs. create_lighthouse_metrics_slide prs colors);
         r = then_do r (\<lambda>prs. create_approach_slide prs colors);
         r = then_do r (\<lambda>prs. create_lazy_loading_slide prs colors);
         r = then_do r (\<lambda>prs. create_onpush_slide prs colors);
         r = then_do r (\<lambda>prs. create_font_loading_slide prs colors);
         r = then_do r (\<lambda>prs. create_material_modules_slide prs colors);
         r = then_do r (\<lambda>prs. create_demo_slide prs colors);
         r = then_do r (\<lambda>prs. create_results_slide prs colors);
         r = then_do r (\<lambda>prs. create_roadmap_slide prs colors);
         r = then_do r (\<lambda>prs. create_cta_slide prs colors);
         r = then_do r (\<lambda>prs. create_qa_slide prs colors);
         r = then_do r (\<lambda>prs. create_thank_you_slide prs colors)
     in r)"

text \<open>
  What a call of \<^verbatim>\<open>create_angular_presentation\<close> gives its caller: the presentation
  returned at line 111, or the exception.
\<close>

definition create_angular_presentation :: "error + presentation" where
  "create_angular_presentation = outcome create_angular_presentation_run"

subsection \<open>The main function and its surroundings\<close>

text \<open>
  What \<^verbatim>\<open>main\<close> can touch outside the program: the files, here a map from a path to the
  presentation saved there, the lines printed, and the paths that can be written.
  \<^verbatim>\<open>prs.save(path)\<close> writes the file, or raises an OSError and writes nothing.
\<close>

record world =
  files :: "string \<rightharpoonup> presentation"
  stdout :: "string list"
  writable :: "string \<Rightarrow> bool"

definition print :: "string \<Rightarrow> world \<Rightarrow> world" where
  "print s w = w\<lparr>stdout := stdout w @ [s]\<rparr>"

definition save :: "presentation \<Rightarrow> string \<Rightarrow> world \<Rightarrow> error + world" where
  "save prs path w =
     (if writable w path then Inr (w\<lparr>files := (files w)(path \<mapsto> prs)\<rparr>) else Inl (OSError path))"

text \<open>The decimal digits of a number, for the f-string of the last message.\<close>

fun str_nat :: "nat \<Rightarrow> string" where
  "str_nat n =
     (if n < 10 then [char_of (48 + n)] else str_nat (n div 10) @ [char_of (48 + n mod 10)])"

text \<open>
  The statements of \<^verbatim>\<open>main\<close> once the presentation is there, lines 1029 to 1036: it is
  saved, two messages are printed and the path is returned. The result is the world after
  the statements and either the path or the exception that left \<^verbatim>\<open>main\<close>.
\<close>

definition main_save :: "presentation \<Rightarrow> world \<Rightarrow> world \<times> (error + string)" where
  "main_save prs w =
    (let output_path = ''/workspace/Angular_Optimization_TED_Talk.pptx'' in
     case save prs output_path w of
       Inl e \<Rightarrow> (w, Inl e)
     | Inr w \<Rightarrow>
        (let w = print (''Presentation created successfully: '' @ output_path) w;
             w = print (''Total slides: '' @ str_nat (length (slides prs))) w
         in (w, Inr output_path)))"

text \<open>\<^verbatim>\<open>main\<close>, lines 1022 to 1036. No statement of it is inside a \<^verbatim>\<open>try\<close>.\<close>

definition main :: "world \<Rightarrow> world \<times> (error + string)" where
  "main w =
    (let w = print ''Creating Angular Optimization TED Talk presentation...'' w in
     case create_angular_presentation of
       Inl e \<Rightarrow> (w, Inl e)
     | Inr prs \<Rightarrow> main_save prs w)"

section \<open>Notions for the properties\<close>

text \<open>The functions that \<^verbatim>\<open>create_angular_presentation\<close> calls, in the order of the calls.\<close>

definition slide_calls :: "(presentation \<Rightarrow> colors \<Rightarrow> error + presentation) list" where
  "slide_calls =
     [create_title_slide, create_hook_slide, create_lighthouse_metrics_slide,
      create_approach_slide, create_lazy_loading_slide, create_onpush_slide,
      create_font_loading_slide, create_material_modules_slide, create_demo_slide,
      create_results_slide, create_roadmap_slide, create_cta_slide, create_qa_slide,
      create_thank_you_slide]"

text \<open>The first \<open>n\<close> calls in a row, on a presentation and a colour table.\<close>

definition run_calls :: "nat \<Rightarrow> presentation \<Rightarrow> colors \<Rightarrow> error + presentation" where
  "run_calls n prs cs = for_each (take n slide_calls) (\<lambda>f p. f p cs) prs"

text \<open>A slide has speaker notes that are not empty.\<close>

definition has_notes :: "slide_rec \<Rightarrow> bool" where
  "has_notes s = (case notes_text s of None \<Rightarrow> False | Some n \<Rightarrow> n \<noteq> [])"

text \<open>The background is one solid colour: a fill that is solid and has its colour set.\<close>

definition solid_background :: "slide_rec \<Rightarrow> bool" where
  "solid_background s =
     (case background_fill s of Solid (Some c) \<Rightarrow> True | _ \<Rightarrow> False)"

text \<open>The text of the first paragraph of the first box of a slide, if there is one.\<close>

definition slide_title :: "slide_rec \<Rightarrow> string option" where
  "slide_title s =
     (case shapes s of [] \<Rightarrow> None
      | b # _ \<Rightarrow> (case text_frame b of [] \<Rightarrow> None | p # _ \<Rightarrow> Some (p_text p)))"

text \<open>What a call has added: the slides after those that were there before, or its exception.\<close>

definition new_slides :: "presentation \<Rightarrow> error + presentation \<Rightarrow> error + slide_rec list" where
  "new_slides prs r =
     (case r of Inl e \<Rightarrow> Inl e | Inr p \<Rightarrow> Inr (drop (length (slides prs)) (slides p)))"

text \<open>
  A table with the two keys that the literal table lacks, to follow the script where a
  complete table takes it.
\<close>

definition colors_with_accents :: colors where
  "colors_with_accents =
     colors(''accent_cyan'' \<mapsto> RGBColor 0 255 255, ''accent_orange'' \<mapsto> RGBColor 255 165 0)"

text \<open>
  The presentation of \<^verbatim>\<open>create_angular_presentation\<close> when the page size is set, lines 19
  to 23, before the first call.
\<close>

definition widescreen :: presentation where
  "widescreen = Presentation\<lparr>slide_width := Inches 13.33, slide_height := Inches 7.5\<rparr>"

text \<open>A world with no file, nothing printed, in which every path can be written.\<close>

definition empty_world :: world where
  "empty_world = \<lparr>files = Map.empty, stdout = [], writable = (\<lambda>_. True)\<rparr>"

text \<open>
  The summary of a slide function, for the proofs: with the keys \<open>ks\<close> that it looks up,
  in the order of their first use, the function raises the IndexError of the layout lookup,
  or the KeyError of the first key that the table lacks, or else appends one slide, which
  \<open>mk\<close> gives from the layout and the colours found. \<open>with_colors\<close> looks the keys up in
  their order and hands the colours on.
\<close>

fun with_colors :: "colors \<Rightarrow> string list \<Rightarrow> (rgb list \<Rightarrow> error + 'a) \<Rightarrow> error + 'a" where
  "with_colors cs [] g = g []"
| "with_colors cs (k # ks) g =
     (case cs k of None \<Rightarrow> Inl (KeyError k) | Some v \<Rightarrow> with_colors cs ks (\<lambda>vs. g (v # vs)))"

definition slide_call ::
  "(presentation \<Rightarrow> colors \<Rightarrow> error + presentation) \<Rightarrow> string list \<Rightarrow>
   (string \<Rightarrow> rgb list \<Rightarrow> slide_rec) \<Rightarrow> bool" where
  "slide_call f ks mk \<longleftrightarrow>
     (\<forall>prs cs. f prs cs =
        (case getitem (slide_layouts prs) 6 of
           Inl e \<Rightarrow> Inl e
         | Inr l \<Rightarrow>
            with_colors cs ks (\<lambda>vs. Inr (prs\<lparr>slides := slides prs @ [mk l vs]\<rparr>))))"

definition well_made :: "(string \<Rightarrow> rgb list \<Rightarrow> slide_rec) \<Rightarrow> string \<Rightarrow> bool" where
  "well_made mk t \<longleftrightarrow>
     (\<forall>l vs. layout (mk l vs) = l \<and> solid_background (mk l vs) \<and> has_notes (mk l vs) \<and>
        slide_title (mk l vs) = Some t)"

text \<open>
  A function is a slide function that looks up the keys \<open>ks\<close> and puts the text \<open>t\<close> into
  the first box of its slide.
\<close>

definition makes_slide ::
  "(presentation \<Rightarrow> colors \<Rightarrow> error + presentation) \<Rightarrow> string list \<Rightarrow> string \<Rightarrow> bool" where
  "makes_slide f ks t \<longleftrightarrow> (\<exists>mk. slide_call f ks mk \<and> well_made mk t)"

text \<open>
  The keys that each slide function looks up in the colour table, in the order of their
  first use, and the text of the first box of its slide; both in the order of the calls.
\<close>

definition slide_keys :: "string list list" where
  "slide_keys =
     [[''title_bg_start'', ''white'', ''light_blue'', ''angular_red'', ''lighthouse_blue'', ''performance_green''],
      [''red_gradient_start'', ''white'', ''light_gray''],
      [''blue_gradient_start'', ''white'', ''performance_green'', ''lighthouse_blue'', ''orange_gradient_start'', ''light_gray''],
      [''green_gradient_start'', ''white'', ''lighthouse_blue'', ''orange_gradient_start'', ''performance_green'', ''light_gray''],
      [''orange_gradient_start'', ''white'', ''light_gray'', ''performance_green''],
      [''purple_gradient_start'', ''white'', ''light_gray'', ''lighthouse_blue'', ''performance_green''],
      [''teal_gradient_start'', ''white'', ''light_gray'', ''performance_green'', ''accent_cyan'', ''orange_gradient_start''],
      [''indigo_gradient_start'', ''white'', ''light_gray'', ''performance_green'', ''orange_gradient_start''],
      [''dark_gradient_start'', ''white'', ''light_gray'', ''performance_green''],
      [''success_gradient_start'', ''white'', ''orange_gradient_start'', ''performance_green'', ''accent_cyan''],
      [''future_gradient_start'', ''white'', ''performance_green'', ''light_gray'', ''accent_orange''],
      [''action_gradient_start'', ''white'', ''light_gray'', ''accent_orange''],
      [''discussion_gradient_start'', ''white'', ''accent_cyan'', ''light_gray''],
      [''gratitude_gradient_start'', ''white'', ''accent_orange'']]"

definition deck_titles :: "string list" where
  \<open>deck_titles =
     [''The Zen of Angular Optimization: A Lighthouse-Guided Journey'',
      ''3'',
      ''What Lighthouse Really Measures'',
      (''Measure '' @ u_arrow @ '' Analyze '' @ u_arrow @ '' Optimize''),
      ''Lazy Loading: Load Only What You Need'',
      ''OnPush: Smarter Change Detection'',
      ''Async Font Loading: Don't Block the Critical Path'',
      ''Refactor SharedModule: Import Only What You Use'',
      ''Watch the Magic Happen'',
      ''The Numbers Don't Lie'',
      ''The Journey Continues'',
      ''Performance is a Feature, Not a Nice-to-Have'',
      ''Questions & Discussion'',
      ''Thank You for Your Time'']\<close>

section \<open>Running the script\<close>

subsection \<open>Rules that run the statements in their order\<close>

lemma bindE_Inr: "bindE (Inr x) k = k x"
  by (simp add: bindE_def)

lemma bindE_Inl: "bindE (Inl e) k = Inl e"
  by (simp add: bindE_def)

lemma bindE_lookup:
  "bindE (lookup cs k) f = (case cs k of None \<Rightarrow> Inl (KeyError k) | Some v \<Rightarrow> f v)"
  by (simp add: bindE_def lookup_def split: option.split)

lemma bindE_weak_cong: "m = m' \<Longrightarrow> bindE m k = bindE m' k"
  by simp

lemma case_prod_weak_cong: "p = q \<Longrightarrow> case_prod c p = case_prod c q"
  by simp

lemma for_each_weak_cong: "xs = ys \<Longrightarrow> s = t \<Longrightarrow> for_each xs b s = for_each ys b t"
  by simp

text \<open>A paragraph that has been built is not looked into again.\<close>

lemma paragraph_weak_cong:
  "paragraph_rec.paragraph_rec_ext a b c d e f m = paragraph_rec.paragraph_rec_ext a b c d e f m"
  by (rule refl)

text \<open>Of a box only the paragraphs are looked into, not its position.\<close>

lemma shape_weak_cong:
  "tf = tf' \<Longrightarrow> shape.shape_ext l t w h tf m = shape.shape_ext l t w h tf' m"
  by simp

lemmas run_congs =
  let_weak_cong bindE_weak_cong case_prod_weak_cong for_each_weak_cong paragraph_weak_cong
  shape_weak_cong

text \<open>
  The calls are run on a presentation whose last slide is the one in the making. A call on
  another presentation is left as it is, so that nothing is unfolded before its turn.
\<close>

lemma upd_slide_last:
  "upd_slide (length ss) f (prs\<lparr>slides := ss @ [s]\<rparr>) = prs\<lparr>slides := ss @ [f s]\<rparr>"
  by (simp add: upd_slide_def)

lemma the_slide_last: "the_slide (prs\<lparr>slides := ss @ [s]\<rparr>) (length ss) = s"
  by (simp add: the_slide_def)

lemma add_textbox_last:
  "add_textbox (prs\<lparr>slides := ss @ [s]\<rparr>) (length ss) l t w h =
     (prs\<lparr>slides := ss @ [s\<lparr>shapes := shapes s @
        [\<lparr>box_left = l, box_top = t, box_width = w, box_height = h,
          text_frame = [new_paragraph]\<rparr>]\<rparr>]\<rparr>,
      (length ss, length (shapes s)))"
  by (simp add: add_textbox_def upd_slide_def the_slide_def)

lemma add_paragraph_last:
  "add_paragraph (prs\<lparr>slides := ss @ [s]\<rparr>) (length ss, k) =
     (prs\<lparr>slides := ss @ [s\<lparr>shapes := (shapes s)
        [k := (shapes s ! k)\<lparr>text_frame := text_frame (shapes s ! k) @ [new_paragraph]\<rparr>]\<rparr>]\<rparr>,
      (length ss, k, length (text_frame (shapes s ! k))))"
  by (simp add: add_paragraph_def upd_shape_def upd_slide_def len_paragraphs_def the_shape_def
      the_slide_def)

lemmas run_simps =
  bindE_Inr bindE_Inl bindE_lookup Let_def
  add_slide_def solid_def set_fore_color_rgb_def add_textbox_last clear_def
  len_paragraphs_def paragraphs_getitem_def add_paragraph_last set_text_def set_font_size_def
  set_font_bold_def set_font_name_def set_font_color_rgb_def set_alignment_def
  set_notes_text_def upd_slide_last upd_shape_def upd_paragraph_def the_slide_last
  the_shape_def new_paragraph_def

subsection \<open>The slide functions, one by one\<close>

lemma create_title_slide_call:
  \<open>makes_slide create_title_slide
     [''title_bg_start'', ''white'', ''light_blue'', ''angular_red'', ''lighthouse_blue'', ''performance_green'']
     ''The Zen of Angular Optimization: A Lighthouse-Guided Journey''\<close>
proof -
  have \<open>\<exists>mk. (\<forall>prs cs. create_title_slide prs cs =
      (case getitem (slide_layouts prs) 6 of Inl e \<Rightarrow> Inl e | Inr l \<Rightarrow>
      (case cs ''title_bg_start'' of None \<Rightarrow> Inl (KeyError ''title_bg_start'') | Some c1 \<Rightarrow>
      (case cs ''white'' of None \<Rightarrow> Inl (KeyError ''white'') | Some c2 \<Rightarrow>
      (case cs ''light_blue'' of None \<Rightarrow> Inl (KeyError ''light_blue'') | Some c3 \<Rightarrow>
      (case cs ''angular_red'' of None \<Rightarrow> Inl (KeyError ''angular_red'') | Some c4 \<Rightarrow>
      (case cs ''lighthouse_blue'' of None \<Rightarrow> Inl (KeyError ''lighthouse_blue'') | Some c5 \<Rightarrow>
      (case cs ''performance_green'' of None \<Rightarrow> Inl (KeyError ''performance_green'') | Some c6 \<Rightarrow>
       Inr (prs\<lparr>slides := slides prs @ [mk l c1 c2 c3 c4 c5 c6]\<rparr>)))))))))
    \<and> (\<forall>l c1 c2 c3 c4 c5 c6. layout (mk l c1 c2 c3 c4 c5 c6) = l \<and> background_fill (mk l c1 c2 c3 c4 c5 c6) = Solid (Some c1) \<and>
         has_notes (mk l c1 c2 c3 c4 c5 c6) \<and> slide_title (mk l c1 c2 c3 c4 c5 c6) = Some ''The Zen of Angular Optimization: A Lighthouse-Guided Journey'')\<close>
    apply (rule exI)
    apply (rule conjI)
     apply (intro allI)
     apply (simp add: create_title_slide_def run_simps split: sum.split option.split
        cong: run_congs)
     apply (intro allI impI conjI)
     apply (rule refl)
    apply (simp add: has_notes_def slide_title_def line_breaks_def u_arrow_def cong: paragraph_weak_cong shape_weak_cong)
    done
  then obtain mk where run: \<open>\<And>prs cs. create_title_slide prs cs =
      (case getitem (slide_layouts prs) 6 of Inl e \<Rightarrow> Inl e | Inr l \<Rightarrow>
      (case cs ''title_bg_start'' of None \<Rightarrow> Inl (KeyError ''title_bg_start'') | Some c1 \<Rightarrow>
      (case cs ''white'' of None \<Rightarrow> Inl (KeyError ''white'') | Some c2 \<Rightarrow>
      (case cs ''light_blue'' of None \<Rightarrow> Inl (KeyError ''light_blue'') | Some c3 \<Rightarrow>
      (case cs ''angular_red'' of None \<Rightarrow> Inl (KeyError ''angular_red'') | Some c4 \<Rightarrow>
      (case cs ''lighthouse_blue'' of None \<Rightarrow> Inl (KeyError ''lighthouse_blue'') | Some c5 \<Rightarrow>
      (case cs ''performance_green'' of None \<Rightarrow> Inl (KeyError ''performance_green'') | Some c6 \<Rightarrow>
       Inr (prs\<lparr>slides := slides prs @ [mk l c1 c2 c3 c4 c5 c6]\<rparr>))))))))\<close>
    and made: \<open>\<And>l c1 c2 c3 c4 c5 c6. layout (mk l c1 c2 c3 c4 c5 c6) = l \<and> background_fill (mk l c1 c2 c3 c4 c5 c6) = Solid (Some c1) \<and>
         has_notes (mk l c1 c2 c3 c4 c5 c6) \<and> slide_title (mk l c1 c2 c3 c4 c5 c6) = Some ''The Zen of Angular Optimization: A Lighthouse-Guided Journey''\<close>
    by blast
  have \<open>slide_call create_title_slide
     [''title_bg_start'', ''white'', ''light_blue'', ''angular_red'', ''lighthouse_blue'', ''performance_green'']
     (\<lambda>l vs. mk l (vs ! 0) (vs ! 1) (vs ! 2) (vs ! 3) (vs ! 4) (vs ! 5))\<close>
    unfolding slide_call_def
    by (intro allI) (simp add: run cong: sum.case_cong option.case_cong)
  moreover have \<open>well_made (\<lambda>l vs. mk l (vs ! 0) (vs ! 1) (vs ! 2) (vs ! 3) (vs ! 4) (vs ! 5)) ''The Zen of Angular Optimization: A Lighthouse-Guided Journey''\<close>
    unfolding well_made_def using made by (simp add: solid_background_def)
  ultimately show ?thesis unfolding makes_slide_def by blast
qed

lemma create_hook_slide_call:
  \<open>makes_slide create_hook_slide
     [''red_gradient_start'', ''white'', ''light_gray'']
     ''3''\<close>
proof -
  have \<open>\<exists>mk. (\<forall>prs cs. create_hook_slide prs cs =
      (case getitem (slide_layouts prs) 6 of Inl e \<Rightarrow> Inl e | Inr l \<Rightarrow>
      (case cs ''red_gradient_start'' of None \<Rightarrow> Inl (KeyError ''red_gradient_start'') | Some c1 \<Rightarrow>
      (case cs ''white'' of None \<Rightarrow> Inl (KeyError ''white'') | Some c2 \<Rightarrow>
      (case cs ''light_gray'' of None \<Rightarrow> Inl (KeyError ''light_gray'') | Some c3 \<Rightarrow>
       Inr (prs\<lparr>slides := slides prs @ [mk l c1 c2 c3]\<rparr>))))))
    \<and> (\<forall>l c1 c2 c3. layout (mk l c1 c2 c3) = l \<and> background_fill (mk l c1 c2 c3) = Solid (Some c1) \<and>
         has_notes (mk l c1 c2 c3) \<and> slide_title (mk l c1 c2 c3) = Some ''3'')\<close>
    apply (rule exI)
    apply (rule conjI)
     apply (intro allI)
     apply (simp add: create_hook_slide_def run_simps split: sum.split option.split
        cong: run_congs)
     apply (intro allI impI conjI)
     apply (rule refl)
    apply (simp add: has_notes_def slide_title_def line_breaks_def u_arrow_def cong: paragraph_weak_cong shape_weak_cong)
    done
  then obtain mk where run: \<open>\<And>prs cs. create_hook_slide prs cs =
      (case getitem (slide_layouts prs) 6 of Inl e \<Rightarrow> Inl e | Inr l \<Rightarrow>
      (case cs ''red_gradient_start'' of None \<Rightarrow> Inl (KeyError ''red_gradient_start'') | Some c1 \<Rightarrow>
      (case cs ''white'' of None \<Rightarrow> Inl (KeyError ''white'') | Some c2 \<Rightarrow>
      (case cs ''light_gray'' of None \<Rightarrow> Inl (KeyError ''light_gray'') | Some c3 \<Rightarrow>
       Inr (prs\<lparr>slides := slides prs @ [mk l c1 c2 c3]\<rparr>)))))\<close>
    and made: \<open>\<And>l c1 c2 c3. layout (mk l c1 c2 c3) = l \<and> background_fill (mk l c1 c2 c3) = Solid (Some c1) \<and>
         has_notes (mk l c1 c2 c3) \<and> slide_title (mk l c1 c2 c3) = Some ''3''\<close>
    by blast
  have \<open>slide_call create_hook_slide
     [''red_gradient_start'', ''white'', ''light_gray'']
     (\<lambda>l vs. mk l (vs ! 0) (vs ! 1) (vs ! 2))\<close>
    unfolding slide_call_def
    by (intro allI) (simp add: run cong: sum.case_cong option.case_cong)
  moreover have \<open>well_made (\<lambda>l vs. mk l (vs ! 0) (vs ! 1) (vs ! 2)) ''3''\<close>
    unfolding well_made_def using made by (simp add: solid_background_def)
  ultimately show ?thesis unfolding makes_slide_def by blast
qed

lemma create_lighthouse_metrics_slide_call:
  \<open>makes_slide create_lighthouse_metrics_slide
     [''blue_gradient_start'', ''white'', ''performance_green'', ''lighthouse_blue'', ''orange_gradient_start'', ''light_gray'']
     ''What Lighthouse Really Measures''\<close>
proof -
  have \<open>\<exists>mk. (\<forall>prs cs. create_lighthouse_metrics_slide prs cs =
      (case getitem (slide_layouts prs) 6 of Inl e \<Rightarrow> Inl e | Inr l \<Rightarrow>
      (case cs ''blue_gradient_start'' of None \<Rightarrow> Inl (KeyError ''blue_gradient_start'') | Some c1 \<Rightarrow>
      (case cs ''white'' of None \<Rightarrow> Inl (KeyError ''white'') | Some c2 \<Rightarrow>
      (case cs ''performance_green'' of None \<Rightarrow> Inl (KeyError ''performance_green'') | Some c3 \<Rightarrow>
      (case cs ''lighthouse_blue'' of None \<Rightarrow> Inl (KeyError ''lighthouse_blue'') | Some c4 \<Rightarrow>
      (case cs ''orange_gradient_start'' of None \<Rightarrow> Inl (KeyError ''orange_gradient_start'') | Some c5 \<Rightarrow>
      (case cs ''light_gray'' of None \<Rightarrow> Inl (KeyError ''light_gray'') | Some c6 \<Rightarrow>
       Inr (prs\<lparr>slides := slides prs @ [mk l c1 c2 c3 c4 c5 c6]\<rparr>)))))))))
    \<and> (\<forall>l c1 c2 c3 c4 c5 c6. layout (mk l c1 c2 c3 c4 c5 c6) = l \<and> background_fill (mk l c1 c2 c3 c4 c5 c6) = Solid (Some c1) \<and>
         has_notes (mk l c1 c2 c3 c4 c5 c6) \<and> slide_title (mk l c1 c2 c3 c4 c5 c6) = Some ''What Lighthouse Really Measures'')\<close>
    apply (rule exI)
    apply (rule conjI)
     apply (intro allI)
     apply (simp add: create_lighthouse_metrics_slide_def run_simps split: sum.split option.split
        cong: run_congs)
     apply (intro allI impI conjI)
     apply (rule refl)
    apply (simp add: has_notes_def slide_title_def line_breaks_def u_arrow_def cong: paragraph_weak_cong shape_weak_cong)
    done
  then obtain mk where run: \<open>\<And>prs cs. create_lighthouse_metrics_slide prs cs =
      (case getitem (slide_layouts prs) 6 of Inl e \<Rightarrow> Inl e | Inr l \<Rightarrow>
      (case cs ''blue_gradient_start'' of None \<Rightarrow> Inl (KeyError ''blue_gradient_start'') | Some c1 \<Rightarrow>
      (case cs ''white'' of None \<Rightarrow> Inl (KeyError ''white'') | Some c2 \<Rightarrow>
      (case cs ''performance_green'' of None \<Rightarrow> Inl (KeyError ''performance_green'') | Some c3 \<Rightarrow>
      (case cs ''lighthouse_blue'' of None \<Rightarrow> Inl (KeyError ''lighthouse_blue'') | Some c4 \<Rightarrow>
      (case cs ''orange_gradient_start'' of None \<Rightarrow> Inl (KeyError ''orange_gradient_start'') | Some c5 \<Rightarrow>
      (case cs ''light_gray'' of None \<Rightarrow> Inl (KeyError ''light_gray'') | Some c6 \<Rightarrow>
       Inr (prs\<lparr>slides := slides prs @ [mk l c1 c2 c3 c4 c5 c6]\<rparr>))))))))\<close>
    and made: \<open>\<And>l c1 c2 c3 c4 c5 c6. layout (mk l c1 c2 c3 c4 c5 c6) = l \<and> background_fill (mk l c1 c2 c3 c4 c5 c6) = Solid (Some c1) \<and>
         has_notes (mk l c1 c2 c3 c4 c5 c6) \<and> slide_title (mk l c1 c2 c3 c4 c5 c6) = Some ''What Lighthouse Really Measures''\<close>
    by blast
  have \<open>slide_call create_lighthouse_metrics_slide
     [''blue_gradient_start'', ''white'', ''performance_green'', ''lighthouse_blue'', ''orange_gradient_start'', ''light_gray'']
     (\<lambda>l vs. mk l (vs ! 0) (vs ! 1) (vs ! 2) (vs ! 3) (vs ! 4) (vs ! 5))\<close>
    unfolding slide_call_def
    by (intro allI) (simp add: run cong: sum.case_cong option.case_cong)
  moreover have \<open>well_made (\<lambda>l vs. mk l (vs ! 0) (vs ! 1) (vs ! 2) (vs ! 3) (vs ! 4) (vs ! 5)) ''What Lighthouse Really Measures''\<close>
    unfolding well_made_def using made by (simp add: solid_background_def)
  ultimately show ?thesis unfolding makes_slide_def by blast
qed

lemma create_approach_slide_call:
  \<open>makes_slide create_approach_slide
     [''green_gradient_start'', ''white'', ''lighthouse_blue'', ''orange_gradient_start'', ''performance_green'', ''light_gray'']
     (''Measure '' @ u_arrow @ '' Analyze '' @ u_arrow @ '' Optimize'')\<close>
proof -
  have \<open>\<exists>mk. (\<forall>prs cs. create_approach_slide prs cs =
      (case getitem (slide_layouts prs) 6 of Inl e \<Rightarrow> Inl e | Inr l \<Rightarrow>
      (case cs ''green_gradient_start'' of None \<Rightarrow> Inl (KeyError ''green_gradient_start'') | Some c1 \<Rightarrow>
      (case cs ''white'' of None \<Rightarrow> Inl (KeyError ''white'') | Some c2 \<Rightarrow>
      (case cs ''lighthouse_blue'' of None \<Rightarrow> Inl (KeyError ''lighthouse_blue'') | Some c3 \<Rightarrow>
      (case cs ''orange_gradient_start'' of None \<Rightarrow> Inl (KeyError ''orange_gradient_start'') | Some c4 \<Rightarrow>
      (case cs ''performance_green'' of None \<Rightarrow> Inl (KeyError ''performance_green'') | Some c5 \<Rightarrow>
      (case cs ''light_gray'' of None \<Rightarrow> Inl (KeyError ''light_gray'') | Some c6 \<Rightarrow>
       Inr (prs\<lparr>slides := slides prs @ [mk l c1 c2 c3 c4 c5 c6]\<rparr>)))))))))
    \<and> (\<forall>l c1 c2 c3 c4 c5 c6. layout (mk l c1 c2 c3 c4 c5 c6) = l \<and> background_fill (mk l c1 c2 c3 c4 c5 c6) = Solid (Some c1) \<and>
         has_notes (mk l c1 c2 c3 c4 c5 c6) \<and> slide_title (mk l c1 c2 c3 c4 c5 c6) = Some (''Measure '' @ u_arrow @ '' Analyze '' @ u_arrow @ '' Optimize''))\<close>
    apply (rule exI)
    apply (rule conjI)
     apply (intro allI)
     apply (simp add: create_approach_slide_def run_simps split: sum.split option.split
        cong: run_congs)
     apply (intro allI impI conjI)
     apply (rule refl)
    apply (simp add: has_notes_def slide_title_def line_breaks_def u_arrow_def cong: paragraph_weak_cong shape_weak_cong)
    done
  then obtain mk where run: \<open>\<And>prs cs. create_approach_slide prs cs =
      (case getitem (slide_layouts prs) 6 of Inl e \<Rightarrow> Inl e | Inr l \<Rightarrow>
      (case cs ''green_gradient_start'' of None \<Rightarrow> Inl (KeyError ''green_gradient_start'') | Some c1 \<Rightarrow>
      (case cs ''white'' of None \<Rightarrow> Inl (KeyError ''white'') | Some c2 \<Rightarrow>
      (case cs ''lighthouse_blue'' of None \<Rightarrow> Inl (KeyError ''lighthouse_blue'') | Some c3 \<Rightarrow>
      (case cs ''orange_gradient_start'' of None \<Rightarrow> Inl (KeyError ''orange_gradient_start'') | Some c4 \<Rightarrow>
      (case cs ''performance_green'' of None \<Rightarrow> Inl (KeyError ''performance_green'') | Some c5 \<Rightarrow>
      (case cs ''light_gray'' of None \<Rightarrow> Inl (KeyError ''light_gray'') | Some c6 \<Rightarrow>
       Inr (prs\<lparr>slides := slides prs @ [mk l c1 c2 c3 c4 c5 c6]\<rparr>))))))))\<close>
    and made: \<open>\<And>l c1 c2 c3 c4 c5 c6. layout (mk l c1 c2 c3 c4 c5 c6) = l \<and> background_fill (mk l c1 c2 c3 c4 c5 c6) = Solid (Some c1) \<and>
         has_notes (mk l c1 c2 c3 c4 c5 c6) \<and> slide_title (mk l c1 c2 c3 c4 c5 c6) = Some (''Measure '' @ u_arrow @ '' Analyze '' @ u_arrow @ '' Optimize'')\<close>
    by blast
  have \<open>slide_call create_approach_slide
     [''green_gradient_start'', ''white'', ''lighthouse_blue'', ''orange_gradient_start'', ''performance_green'', ''light_gray'']
     (\<lambda>l vs. mk l (vs ! 0) (vs ! 1) (vs ! 2) (vs ! 3) (vs ! 4) (vs ! 5))\<close>
    unfolding slide_call_def
    by (intro allI) (simp add: run cong: sum.case_cong option.case_cong)
  moreover have \<open>well_made (\<lambda>l vs. mk l (vs ! 0) (vs ! 1) (vs ! 2) (vs ! 3) (vs ! 4) (vs ! 5)) (''Measure '' @ u_arrow @ '' Analyze '' @ u_arrow @ '' Optimize'')\<close>
    unfolding well_made_def using made by (simp add: solid_background_def)
  ultimately show ?thesis unfolding makes_slide_def by blast
qed

lemma create_lazy_loading_slide_call:
  \<open>makes_slide create_lazy_loading_slide
     [''orange_gradient_start'', ''white'', ''light_gray'', ''performance_green'']
     ''Lazy Loading: Load Only What You Need''\<close>
proof -
  have \<open>\<exists>mk. (\<forall>prs cs. create_lazy_loading_slide prs cs =
      (case getitem (slide_layouts prs) 6 of Inl e \<Rightarrow> Inl e | Inr l \<Rightarrow>
      (case cs ''orange_gradient_start'' of None \<Rightarrow> Inl (KeyError ''orange_gradient_start'') | Some c1 \<Rightarrow>
      (case cs ''white'' of None \<Rightarrow> Inl (KeyError ''white'') | Some c2 \<Rightarrow>
      (case cs ''light_gray'' of None \<Rightarrow> Inl (KeyError ''light_gray'') | Some c3 \<Rightarrow>
      (case cs ''performance_green'' of None \<Rightarrow> Inl (KeyError ''performance_green'') | Some c4 \<Rightarrow>
       Inr (prs\<lparr>slides := slides prs @ [mk l c1 c2 c3 c4]\<rparr>)))))))
    \<and> (\<forall>l c1 c2 c3 c4. layout (mk l c1 c2 c3 c4) = l \<and> background_fill (mk l c1 c2 c3 c4) = Solid (Some c1) \<and>
         has_notes (mk l c1 c2 c3 c4) \<and> slide_title (mk l c1 c2 c3 c4) = Some ''Lazy Loading: Load Only What You Need'')\<close>
    apply (rule exI)
    apply (rule conjI)
     apply (intro allI)
     apply (simp add: create_lazy_loading_slide_def run_simps split: sum.split option.split
        cong: run_congs)
     apply (intro allI impI conjI)
     apply (rule refl)
    apply (simp add: has_notes_def slide_title_def line_breaks_def u_arrow_def cong: paragraph_weak_cong shape_weak_cong)
    done
  then obtain mk where run: \<open>\<And>prs cs. create_lazy_loading_slide prs cs =
      (case getitem (slide_layouts prs) 6 of Inl e \<Rightarrow> Inl e | Inr l \<Rightarrow>
      (case cs ''orange_gradient_start'' of None \<Rightarrow> Inl (KeyError ''orange_gradient_start'') | Some c1 \<Rightarrow>
      (case cs ''white'' of None \<Rightarrow> Inl (KeyError ''white'') | Some c2 \<Rightarrow>
      (case cs ''light_gray'' of None \<Rightarrow> Inl (KeyError ''light_gray'') | Some c3 \<Rightarrow>
      (case cs ''performance_green'' of None \<Rightarrow> Inl (KeyError ''performance_green'') | Some c4 \<Rightarrow>
       Inr (prs\<lparr>slides := slides prs @ [mk l c1 c2 c3 c4]\<rparr>))))))\<close>
    and made: \<open>\<And>l c1 c2 c3 c4. layout (mk l c1 c2 c3 c4) = l \<and> background_fill (mk l c1 c2 c3 c4) = Solid (Some c1) \<and>
         has_notes (mk l c1 c2 c3 c4) \<and> slide_title (mk l c1 c2 c3 c4) = Some ''Lazy Loading: Load Only What You Need''\<close>
    by blast
  have \<open>slide_call create_lazy_loading_slide
     [''orange_gradient_start'', ''white'', ''light_gray'', ''performance_green'']
     (\<lambda>l vs. mk l (vs ! 0) (vs ! 1) (vs ! 2) (vs ! 3))\<close>
    unfolding slide_call_def
    by (intro allI) (simp add: run cong: sum.case_cong option.case_cong)
  moreover have \<open>well_made (\<lambda>l vs. mk l (vs ! 0) (vs ! 1) (vs ! 2) (vs ! 3)) ''Lazy Loading: Load Only What You Need''\<close>
    unfolding well_made_def using made by (simp add: solid_background_def)
  ultimately show ?thesis unfolding makes_slide_def by blast
qed

lemma create_onpush_slide_call:
  \<open>makes_slide create_onpush_slide
     [''purple_gradient_start'', ''white'', ''light_gray'', ''lighthouse_blue'', ''performance_green'']
     ''OnPush: Smarter Change Detection''\<close>
proof -
  have \<open>\<exists>mk. (\<forall>prs cs. create_onpush_slide prs cs =
      (case getitem (slide_layouts prs) 6 of Inl e \<Rightarrow> Inl e | Inr l \<Rightarrow>
      (case cs ''purple_gradient_start'' of None \<Rightarrow> Inl (KeyError ''purple_gradient_start'') | Some c1 \<Rightarrow>
      (case cs ''white'' of None \<Rightarrow> Inl (KeyError ''white'') | Some c2 \<Rightarrow>
      (case cs ''light_gray'' of None \<Rightarrow> Inl (KeyError ''light_gray'') | Some c3 \<Rightarrow>
      (case cs ''lighthouse_blue'' of None \<Rightarrow> Inl (KeyError ''lighthouse_blue'') | Some c4 \<Rightarrow>
      (case cs ''performance_green'' of None \<Rightarrow> Inl (KeyError ''performance_green'') | Some c5 \<Rightarrow>
       Inr (prs\<lparr>slides := slides prs @ [mk l c1 c2 c3 c4 c5]\<rparr>))))))))
    \<and> (\<forall>l c1 c2 c3 c4 c5. layout (mk l c1 c2 c3 c4 c5) = l \<and> background_fill (mk l c1 c2 c3 c4 c5) = Solid (Some c1) \<and>
         has_notes (mk l c1 c2 c3 c4 c5) \<and> slide_title (mk l c1 c2 c3 c4 c5) = Some ''OnPush: Smarter Change Detection'')\<close>
    apply (rule exI)
    apply (rule conjI)
     apply (intro allI)
     apply (simp add: create_onpush_slide_def run_simps split: sum.split option.split
        cong: run_congs)
     apply (intro allI impI conjI)
     apply (rule refl)
    apply (simp add: has_notes_def slide_title_def line_breaks_def u_arrow_def cong: paragraph_weak_cong shape_weak_cong)
    done
  then obtain mk where run: \<open>\<And>prs cs. create_onpush_slide prs cs =
      (case getitem (slide_layouts prs) 6 of Inl e \<Rightarrow> Inl e | Inr l \<Rightarrow>
      (case cs ''purple_gradient_start'' of None \<Rightarrow> Inl (KeyError ''purple_gradient_start'') | Some c1 \<Rightarrow>
      (case cs ''white'' of None \<Rightarrow> Inl (KeyError ''white'') | Some c2 \<Rightarrow>
      (case cs ''light_gray'' of None \<Rightarrow> Inl (KeyError ''light_gray'') | Some c3 \<Rightarrow>
      (case cs ''lighthouse_blue'' of None \<Rightarrow> Inl (KeyError ''lighthouse_blue'') | Some c4 \<Rightarrow>
      (case cs ''performance_green'' of None \<Rightarrow> Inl (KeyError ''performance_green'') | Some c5 \<Rightarrow>
       Inr (prs\<lparr>slides := slides prs @ [mk l c1 c2 c3 c4 c5]\<rparr>)))))))\<close>
    and made: \<open>\<And>l c1 c2 c3 c4 c5. layout (mk l c1 c2 c3 c4 c5) = l \<and> background_fill (mk l c1 c2 c3 c4 c5) = Solid (Some c1) \<and>
         has_notes (mk l c1 c2 c3 c4 c5) \<and> slide_title (mk l c1 c2 c3 c4 c5) = Some ''OnPush: Smarter Change Detection''\<close>
    by blast
  have \<open>slide_call create_onpush_slide
     [''purple_gradient_start'', ''white'', ''light_gray'', ''lighthouse_blue'', ''performance_green'']
     (\<lambda>l vs. mk l (vs ! 0) (vs ! 1) (vs ! 2) (vs ! 3) (vs ! 4))\<close>
    unfolding slide_call_def
    by (intro allI) (simp add: run cong: sum.case_cong option.case_cong)
  moreover have \<open>well_made (\<lambda>l vs. mk l (vs ! 0) (vs ! 1) (vs ! 2) (vs ! 3) (vs ! 4)) ''OnPush: Smarter Change Detection''\<close>
    unfolding well_made_def using made by (simp add: solid_background_def)
  ultimately show ?thesis unfolding makes_slide_def by blast
qed

lemma create_font_loading_slide_call:
  \<open>makes_slide create_font_loading_slide
     [''teal_gradient_start'', ''white'', ''light_gray'', ''performance_green'', ''accent_cyan'', ''orange_gradient_start'']
     ''Async Font Loading: Don't Block the Critical Path''\<close>
proof -
  have \<open>\<exists>mk. (\<forall>prs cs. create_font_loading_slide prs cs =
      (case getitem (slide_layouts prs) 6 of Inl e \<Rightarrow> Inl e | Inr l \<Rightarrow>
      (case cs ''teal_gradient_start'' of None \<Rightarrow> Inl (KeyError ''teal_gradient_start'') | Some c1 \<Rightarrow>
      (case cs ''white'' of None \<Rightarrow> Inl (KeyError ''white'') | Some c2 \<Rightarrow>
      (case cs ''light_gray'' of None \<Rightarrow> Inl (KeyError ''light_gray'') | Some c3 \<Rightarrow>
      (case cs ''performance_green'' of None \<Rightarrow> Inl (KeyError ''performance_green'') | Some c4 \<Rightarrow>
      (case cs ''accent_cyan'' of None \<Rightarrow> Inl (KeyError ''accent_cyan'') | Some c5 \<Rightarrow>
      (case cs ''orange_gradient_start'' of None \<Rightarrow> Inl (KeyError ''orange_gradient_start'') | Some c6 \<Rightarrow>
       Inr (prs\<lparr>slides := slides prs @ [mk l c1 c2 c3 c4 c5 c6]\<rparr>)))))))))
    \<and> (\<forall>l c1 c2 c3 c4 c5 c6. layout (mk l c1 c2 c3 c4 c5 c6) = l \<and> background_fill (mk l c1 c2 c3 c4 c5 c6) = Solid (Some c1) \<and>
         has_notes (mk l c1 c2 c3 c4 c5 c6) \<and> slide_title (mk l c1 c2 c3 c4 c5 c6) = Some ''Async Font Loading: Don't Block the Critical Path'')\<close>
    apply (rule exI)
    apply (rule conjI)
     apply (intro allI)
     apply (simp add: create_font_loading_slide_def run_simps split: sum.split option.split
        cong: run_congs)
     apply (intro allI impI conjI)
     apply (rule refl)
    apply (simp add: has_notes_def slide_title_def line_breaks_def u_arrow_def cong: paragraph_weak_cong shape_weak_cong)
    done
  then obtain mk where run: \<open>\<And>prs cs. create_font_loading_slide prs cs =
      (case getitem (slide_layouts prs) 6 of Inl e \<Rightarrow> Inl e | Inr l \<Rightarrow>
      (case cs ''teal_gradient_start'' of None \<Rightarrow> Inl (KeyError ''teal_gradient_start'') | Some c1 \<Rightarrow>
      (case cs ''white'' of None \<Rightarrow> Inl (KeyError ''white'') | Some c2 \<Rightarrow>
      (case cs ''light_gray'' of None \<Rightarrow> Inl (KeyError ''light_gray'') | Some c3 \<Rightarrow>
      (case cs ''performance_green'' of None \<Rightarrow> Inl (KeyError ''performance_green'') | Some c4 \<Rightarrow>
      (case cs ''accent_cyan'' of None \<Rightarrow> Inl (KeyError ''accent_cyan'') | Some c5 \<Rightarrow>
      (case cs ''orange_gradient_start'' of None \<Rightarrow> Inl (KeyError ''orange_gradient_start'') | Some c6 \<Rightarrow>
       Inr (prs\<lparr>slides := slides prs @ [mk l c1 c2 c3 c4 c5 c6]\<rparr>))))))))\<close>
    and made: \<open>\<And>l c1 c2 c3 c4 c5 c6. layout (mk l c1 c2 c3 c4 c5 c6) = l \<and> background_fill (mk l c1 c2 c3 c4 c5 c6) = Solid (Some c1) \<and>
         has_notes (mk l c1 c2 c3 c4 c5 c6) \<and> slide_title (mk l c1 c2 c3 c4 c5 c6) = Some ''Async Font Loading: Don't Block the Critical Path''\<close>
    by blast
  have \<open>slide_call create_font_loading_slide
     [''teal_gradient_start'', ''white'', ''light_gray'', ''performance_green'', ''accent_cyan'', ''orange_gradient_start'']
     (\<lambda>l vs. mk l (vs ! 0) (vs ! 1) (vs ! 2) (vs ! 3) (vs ! 4) (vs ! 5))\<close>
    unfolding slide_call_def
    by (intro allI) (simp add: run cong: sum.case_cong option.case_cong)
  moreover have \<open>well_made (\<lambda>l vs. mk l (vs ! 0) (vs ! 1) (vs ! 2) (vs ! 3) (vs ! 4) (vs ! 5)) ''Async Font Loading: Don't Block the Critical Path''\<close>
    unfolding well_made_def using made by (simp add: solid_background_def)
  ultimately show ?thesis unfolding makes_slide_def by blast
qed

lemma create_material_modules_slide_call:
  \<open>makes_slide create_material_modules_slide
     [''indigo_gradient_start'', ''white'', ''light_gray'', ''performance_green'', ''orange_gradient_start'']
     ''Refactor SharedModule: Import Only What You Use''\<close>
proof -
  have \<open>\<exists>mk. (\<forall>prs cs. create_material_modules_slide prs cs =
      (case getitem (slide_layouts prs) 6 of Inl e \<Rightarrow> Inl e | Inr l \<Rightarrow>
      (case cs ''indigo_gradient_start'' of None \<Rightarrow> Inl (KeyError ''indigo_gradient_start'') | Some c1 \<Rightarrow>
      (case cs ''white'' of None \<Rightarrow> Inl (KeyError ''white'') | Some c2 \<Rightarrow>
      (case cs ''light_gray'' of None \<Rightarrow> Inl (KeyError ''light_gray'') | Some c3 \<Rightarrow>
      (case cs ''performance_green'' of None \<Rightarrow> Inl (KeyError ''performance_green'') | Some c4 \<Rightarrow>
      (case cs ''orange_gradient_start'' of None \<Rightarrow> Inl (KeyError ''orange_gradient_start'') | Some c5 \<Rightarrow>
       Inr (prs\<lparr>slides := slides prs @ [mk l c1 c2 c3 c4 c5]\<rparr>))))))))
    \<and> (\<forall>l c1 c2 c3 c4 c5. layout (mk l c1 c2 c3 c4 c5) = l \<and> background_fill (mk l c1 c2 c3 c4 c5) = Solid (Some c1) \<and>
         has_notes (mk l c1 c2 c3 c4 c5) \<and> slide_title (mk l c1 c2 c3 c4 c5) = Some ''Refactor SharedModule: Import Only What You Use'')\<close>
    apply (rule exI)
    apply (rule conjI)
     apply (intro allI)
     apply (simp add: create_material_modules_slide_def run_simps split: sum.split option.split
        cong: run_congs)
     apply (intro allI impI conjI)
     apply (rule refl)
    apply (simp add: has_notes_def slide_title_def line_breaks_def u_arrow_def cong: paragraph_weak_cong shape_weak_cong)
    done
  then obtain mk where run: \<open>\<And>prs cs. create_material_modules_slide prs cs =
      (case getitem (slide_layouts prs) 6 of Inl e \<Rightarrow> Inl e | Inr l \<Rightarrow>
      (case cs ''indigo_gradient_start'' of None \<Rightarrow> Inl (KeyError ''indigo_gradient_start'') | Some c1 \<Rightarrow>
      (case cs ''white'' of None \<Rightarrow> Inl (KeyError ''white'') | Some c2 \<Rightarrow>
      (case cs ''light_gray'' of None \<Rightarrow> Inl (KeyError ''light_gray'') | Some c3 \<Rightarrow>
      (case cs ''performance_green'' of None \<Rightarrow> Inl (KeyError ''performance_green'') | Some c4 \<Rightarrow>
      (case cs ''orange_gradient_start'' of None \<Rightarrow> Inl (KeyError ''orange_gradient_start'') | Some c5 \<Rightarrow>
       Inr (prs\<lparr>slides := slides prs @ [mk l c1 c2 c3 c4 c5]\<rparr>)))))))\<close>
    and made: \<open>\<And>l c1 c2 c3 c4 c5. layout (mk l c1 c2 c3 c4 c5) = l \<and> background_fill (mk l c1 c2 c3 c4 c5) = Solid (Some c1) \<and>
         has_notes (mk l c1 c2 c3 c4 c5) \<and> slide_title (mk l c1 c2 c3 c4 c5) = Some ''Refactor SharedModule: Import Only What You Use''\<close>
    by blast
  have \<open>slide_call create_material_modules_slide
     [''indigo_gradient_start'', ''white'', ''light_gray'', ''performance_green'', ''orange_gradient_start'']
     (\<lambda>l vs. mk l (vs ! 0) (vs ! 1) (vs ! 2) (vs ! 3) (vs ! 4))\<close>
    unfolding slide_call_def
    by (intro allI) (simp add: run cong: sum.case_cong option.case_cong)
  moreover have \<open>well_made (\<lambda>l vs. mk l (vs ! 0) (vs ! 1) (vs ! 2) (vs ! 3) (vs ! 4)) ''Refactor SharedModule: Import Only What You Use''\<close>
    unfolding well_made_def using made by (simp add: solid_background_def)
  ultimately show ?thesis unfolding makes_slide_def by blast
qed

lemma create_demo_slide_call:
  \<open>makes_slide create_demo_slide
     [''dark_gradient_start'', ''white'', ''light_gray'', ''performance_green'']
     ''Watch the Magic Happen''\<close>
proof -
  have \<open>\<exists>mk. (\<forall>prs cs. create_demo_slide prs cs =
      (case getitem (slide_layouts prs) 6 of Inl e \<Rightarrow> Inl e | Inr l \<Rightarrow>
      (case cs ''dark_gradient_start'' of None \<Rightarrow> Inl (KeyError ''dark_gradient_start'') | Some c1 \<Rightarrow>
      (case cs ''white'' of None \<Rightarrow> Inl (KeyError ''white'') | Some c2 \<Rightarrow>
      (case cs ''light_gray'' of None \<Rightarrow> Inl (KeyError ''light_gray'') | Some c3 \<Rightarrow>
      (case cs ''performance_green'' of None \<Rightarrow> Inl (KeyError ''performance_green'') | Some c4 \<Rightarrow>
       Inr (prs\<lparr>slides := slides prs @ [mk l c1 c2 c3 c4]\<rparr>)))))))
    \<and> (\<forall>l c1 c2 c3 c4. layout (mk l c1 c2 c3 c4) = l \<and> background_fill (mk l c1 c2 c3 c4) = Solid (Some c1) \<and>
         has_notes (mk l c1 c2 c3 c4) \<and> slide_title (mk l c1 c2 c3 c4) = Some ''Watch the Magic Happen'')\<close>
    apply (rule exI)
    apply (rule conjI)
     apply (intro allI)
     apply (simp add: create_demo_slide_def run_simps split: sum.split option.split
        cong: run_congs)
     apply (intro allI impI conjI)
     apply (rule refl)
    apply (simp add: has_notes_def slide_title_def line_breaks_def u_arrow_def cong: paragraph_weak_cong shape_weak_cong)
    done
  then obtain mk where run: \<open>\<And>prs cs. create_demo_slide prs cs =
      (case getitem (slide_layouts prs) 6 of Inl e \<Rightarrow> Inl e | Inr l \<Rightarrow>
      (case cs ''dark_gradient_start'' of None \<Rightarrow> Inl (KeyError ''dark_gradient_start'') | Some c1 \<Rightarrow>
      (case cs ''white'' of None \<Rightarrow> Inl (KeyError ''white'') | Some c2 \<Rightarrow>
      (case cs ''light_gray'' of None \<Rightarrow> Inl (KeyError ''light_gray'') | Some c3 \<Rightarrow>
      (case cs ''performance_green'' of None \<Rightarrow> Inl (KeyError ''performance_green'') | Some c4 \<Rightarrow>
       Inr (prs\<lparr>slides := slides prs @ [mk l c1 c2 c3 c4]\<rparr>))))))\<close>
    and made: \<open>\<And>l c1 c2 c3 c4. layout (mk l c1 c2 c3 c4) = l \<and> background_fill (mk l c1 c2 c3 c4) = Solid (Some c1) \<and>
         has_notes (mk l c1 c2 c3 c4) \<and> slide_title (mk l c1 c2 c3 c4) = Some ''Watch the Magic Happen''\<close>
    by blast
  have \<open>slide_call create_demo_slide
     [''dark_gradient_start'', ''white'', ''light_gray'', ''performance_green'']
     (\<lambda>l vs. mk l (vs ! 0) (vs ! 1) (vs ! 2) (vs ! 3))\<close>
    unfolding slide_call_def
    by (intro allI) (simp add: run cong: sum.case_cong option.case_cong)
  moreover have \<open>well_made (\<lambda>l vs. mk l (vs ! 0) (vs ! 1) (vs ! 2) (vs ! 3)) ''Watch the Magic Happen''\<close>
    unfolding well_made_def using made by (simp add: solid_background_def)
  ultimately show ?thesis unfolding makes_slide_def by blast
qed

lemma create_results_slide_call:
  \<open>makes_slide create_results_slide
     [''success_gradient_start'', ''white'', ''orange_gradient_start'', ''performance_green'', ''accent_cyan'']
     ''The Numbers Don't Lie''\<close>
proof -
  have \<open>\<exists>mk. (\<forall>prs cs. create_results_slide prs cs =
      (case getitem (slide_layouts prs) 6 of Inl e \<Rightarrow> Inl e | Inr l \<Rightarrow>
      (case cs ''success_gradient_start'' of None \<Rightarrow> Inl (KeyError ''success_gradient_start'') | Some c1 \<Rightarrow>
      (case cs ''white'' of None \<Rightarrow> Inl (KeyError ''white'') | Some c2 \<Rightarrow>
      (case cs ''orange_gradient_start'' of None \<Rightarrow> Inl (KeyError ''orange_gradient_start'') | Some c3 \<Rightarrow>
      (case cs ''performance_green'' of None \<Rightarrow> Inl (KeyError ''performance_green'') | Some c4 \<Rightarrow>
      (case cs ''accent_cyan'' of None \<Rightarrow> Inl (KeyError ''accent_cyan'') | Some c5 \<Rightarrow>
       Inr (prs\<lparr>slides := slides prs @ [mk l c1 c2 c3 c4 c5]\<rparr>))))))))
    \<and> (\<forall>l c1 c2 c3 c4 c5. layout (mk l c1 c2 c3 c4 c5) = l \<and> background_fill (mk l c1 c2 c3 c4 c5) = Solid (Some c1) \<and>
         has_notes (mk l c1 c2 c3 c4 c5) \<and> slide_title (mk l c1 c2 c3 c4 c5) = Some ''The Numbers Don't Lie'')\<close>
    apply (rule exI)
    apply (rule conjI)
     apply (intro allI)
     apply (simp add: create_results_slide_def run_simps split: sum.split option.split
        cong: run_congs)
     apply (intro allI impI conjI)
     apply (rule refl)
    apply (simp add: has_notes_def slide_title_def line_breaks_def u_arrow_def cong: paragraph_weak_cong shape_weak_cong)
    done
  then obtain mk where run: \<open>\<And>prs cs. create_results_slide prs cs =
      (case getitem (slide_layouts prs) 6 of Inl e \<Rightarrow> Inl e | Inr l \<Rightarrow>
      (case cs ''success_gradient_start'' of None \<Rightarrow> Inl (KeyError ''success_gradient_start'') | Some c1 \<Rightarrow>
      (case cs ''white'' of None \<Rightarrow> Inl (KeyError ''white'') | Some c2 \<Rightarrow>
      (case cs ''orange_gradient_start'' of None \<Rightarrow> Inl (KeyError ''orange_gradient_start'') | Some c3 \<Rightarrow>
      (case cs ''performance_green'' of None \<Rightarrow> Inl (KeyError ''performance_green'') | Some c4 \<Rightarrow>
      (case cs ''accent_cyan'' of None \<Rightarrow> Inl (KeyError ''accent_cyan'') | Some c5 \<Rightarrow>
       Inr (prs\<lparr>slides := slides prs @ [mk l c1 c2 c3 c4 c5]\<rparr>)))))))\<close>
    and made: \<open>\<And>l c1 c2 c3 c4 c5. layout (mk l c1 c2 c3 c4 c5) = l \<and> background_fill (mk l c1 c2 c3 c4 c5) = Solid (Some c1) \<and>
         has_notes (mk l c1 c2 c3 c4 c5) \<and> slide_title (mk l c1 c2 c3 c4 c5) = Some ''The Numbers Don't Lie''\<close>
    by blast
  have \<open>slide_call create_results_slide
     [''success_gradient_start'', ''white'', ''orange_gradient_start'', ''performance_green'', ''accent_cyan'']
     (\<lambda>l vs. mk l (vs ! 0) (vs ! 1) (vs ! 2) (vs ! 3) (vs ! 4))\<close>
    unfolding slide_call_def
    by (intro allI) (simp add: run cong: sum.case_cong option.case_cong)
  moreover have \<open>well_made (\<lambda>l vs. mk l (vs ! 0) (vs ! 1) (vs ! 2) (vs ! 3) (vs ! 4)) ''The Numbers Don't Lie''\<close>
    unfolding well_made_def using made by (simp add: solid_background_def)
  ultimately show ?thesis unfolding makes_slide_def by blast
qed

lemma create_roadmap_slide_call:
  \<open>makes_slide create_roadmap_slide
     [''future_gradient_start'', ''white'', ''performance_green'', ''light_gray'', ''accent_orange'']
     ''The Journey Continues''\<close>
proof -
  have \<open>\<exists>mk. (\<forall>prs cs. create_roadmap_slide prs cs =
      (case getitem (slide_layouts prs) 6 of Inl e \<Rightarrow> Inl e | Inr l \<Rightarrow>
      (case cs ''future_gradient_start'' of None \<Rightarrow> Inl (KeyError ''future_gradient_start'') | Some c1 \<Rightarrow>
      (case cs ''white'' of None \<Rightarrow> Inl (KeyError ''white'') | Some c2 \<Rightarrow>
      (case cs ''performance_green'' of None \<Rightarrow> Inl (KeyError ''performance_green'') | Some c3 \<Rightarrow>
      (case cs ''light_gray'' of None \<Rightarrow> Inl (KeyError ''light_gray'') | Some c4 \<Rightarrow>
      (case cs ''accent_orange'' of None \<Rightarrow> Inl (KeyError ''accent_orange'') | Some c5 \<Rightarrow>
       Inr (prs\<lparr>slides := slides prs @ [mk l c1 c2 c3 c4 c5]\<rparr>))))))))
    \<and> (\<forall>l c1 c2 c3 c4 c5. layout (mk l c1 c2 c3 c4 c5) = l \<and> background_fill (mk l c1 c2 c3 c4 c5) = Solid (Some c1) \<and>
         has_notes (mk l c1 c2 c3 c4 c5) \<and> slide_title (mk l c1 c2 c3 c4 c5) = Some ''The Journey Continues'')\<close>
    apply (rule exI)
    apply (rule conjI)
     apply (intro allI)
     apply (simp add: create_roadmap_slide_def run_simps split: sum.split option.split
        cong: run_congs)
     apply (intro allI impI conjI)
     apply (rule refl)
    apply (simp add: has_notes_def slide_title_def line_breaks_def u_arrow_def cong: paragraph_weak_cong shape_weak_cong)
    done
  then obtain mk where run: \<open>\<And>prs cs. create_roadmap_slide prs cs =
      (case getitem (slide_layouts prs) 6 of Inl e \<Rightarrow> Inl e | Inr l \<Rightarrow>
      (case cs ''future_gradient_start'' of None \<Rightarrow> Inl (KeyError ''future_gradient_start'') | Some c1 \<Rightarrow>
      (case cs ''white'' of None \<Rightarrow> Inl (KeyError ''white'') | Some c2 \<Rightarrow>
      (case cs ''performance_green'' of None \<Rightarrow> Inl (KeyError ''performance_green'') | Some c3 \<Rightarrow>
      (case cs ''light_gray'' of None \<Rightarrow> Inl (KeyError ''light_gray'') | Some c4 \<Rightarrow>
      (case cs ''accent_orange'' of None \<Rightarrow> Inl (KeyError ''accent_orange'') | Some c5 \<Rightarrow>
       Inr (prs\<lparr>slides := slides prs @ [mk l c1 c2 c3 c4 c5]\<rparr>)))))))\<close>
    and made: \<open>\<And>l c1 c2 c3 c4 c5. layout (mk l c1 c2 c3 c4 c5) = l \<and> background_fill (mk l c1 c2 c3 c4 c5) = Solid (Some c1) \<and>
         has_notes (mk l c1 c2 c3 c4 c5) \<and> slide_title (mk l c1 c2 c3 c4 c5) = Some ''The Journey Continues''\<close>
    by blast
  have \<open>slide_call create_roadmap_slide
     [''future_gradient_start'', ''white'', ''performance_green'', ''light_gray'', ''accent_orange'']
     (\<lambda>l vs. mk l (vs ! 0) (vs ! 1) (vs ! 2) (vs ! 3) (vs ! 4))\<close>
    unfolding slide_call_def
    by (intro allI) (simp add: run cong: sum.case_cong option.case_cong)
  moreover have \<open>well_made (\<lambda>l vs. mk l (vs ! 0) (vs ! 1) (vs ! 2) (vs ! 3) (vs ! 4)) ''The Journey Continues''\<close>
    unfolding well_made_def using made by (simp add: solid_background_def)
  ultimately show ?thesis unfolding makes_slide_def by blast
qed

lemma create_cta_slide_call:
  \<open>makes_slide create_cta_slide
     [''action_gradient_start'', ''white'', ''light_gray'', ''accent_orange'']
     ''Performance is a Feature, Not a Nice-to-Have''\<close>
proof -
  have \<open>\<exists>mk. (\<forall>prs cs. create_cta_slide prs cs =
      (case getitem (slide_layouts prs) 6 of Inl e \<Rightarrow> Inl e | Inr l \<Rightarrow>
      (case cs ''action_gradient_start'' of None \<Rightarrow> Inl (KeyError ''action_gradient_start'') | Some c1 \<Rightarrow>
      (case cs ''white'' of None \<Rightarrow> Inl (KeyError ''white'') | Some c2 \<Rightarrow>
      (case cs ''light_gray'' of None \<Rightarrow> Inl (KeyError ''light_gray'') | Some c3 \<Rightarrow>
      (case cs ''accent_orange'' of None \<Rightarrow> Inl (KeyError ''accent_orange'') | Some c4 \<Rightarrow>
       Inr (prs\<lparr>slides := slides prs @ [mk l c1 c2 c3 c4]\<rparr>)))))))
    \<and> (\<forall>l c1 c2 c3 c4. layout (mk l c1 c2 c3 c4) = l \<and> background_fill (mk l c1 c2 c3 c4) = Solid (Some c1) \<and>
         has_notes (mk l c1 c2 c3 c4) \<and> slide_title (mk l c1 c2 c3 c4) = Some ''Performance is a Feature, Not a Nice-to-Have'')\<close>
    apply (rule exI)
    apply (rule conjI)
     apply (intro allI)
     apply (simp add: create_cta_slide_def run_simps split: sum.split option.split
        cong: run_congs)
     apply (intro allI impI conjI)
     apply (rule refl)
    apply (simp add: has_notes_def slide_title_def line_breaks_def u_arrow_def cong: paragraph_weak_cong shape_weak_cong)
    done
  then obtain mk where run: \<open>\<And>prs cs. create_cta_slide prs cs =
      (case getitem (slide_layouts prs) 6 of Inl e \<Rightarrow> Inl e | Inr l \<Rightarrow>
      (case cs ''action_gradient_start'' of None \<Rightarrow> Inl (KeyError ''action_gradient_start'') | Some c1 \<Rightarrow>
      (case cs ''white'' of None \<Rightarrow> Inl (KeyError ''white'') | Some c2 \<Rightarrow>
      (case cs ''light_gray'' of None \<Rightarrow> Inl (KeyError ''light_gray'') | Some c3 \<Rightarrow>
      (case cs ''accent_orange'' of None \<Rightarrow> Inl (KeyError ''accent_orange'') | Some c4 \<Rightarrow>
       Inr (prs\<lparr>slides := slides prs @ [mk l c1 c2 c3 c4]\<rparr>))))))\<close>
    and made: \<open>\<And>l c1 c2 c3 c4. layout (mk l c1 c2 c3 c4) = l \<and> background_fill (mk l c1 c2 c3 c4) = Solid (Some c1) \<and>
         has_notes (mk l c1 c2 c3 c4) \<and> slide_title (mk l c1 c2 c3 c4) = Some ''Performance is a Feature, Not a Nice-to-Have''\<close>
    by blast
  have \<open>slide_call create_cta_slide
     [''action_gradient_start'', ''white'', ''light_gray'', ''accent_orange'']
     (\<lambda>l vs. mk l (vs ! 0) (vs ! 1) (vs ! 2) (vs ! 3))\<close>
    unfolding slide_call_def
    by (intro allI) (simp add: run cong: sum.case_cong option.case_cong)
  moreover have \<open>well_made (\<lambda>l vs. mk l (vs ! 0) (vs ! 1) (vs ! 2) (vs ! 3)) ''Performance is a Feature, Not a Nice-to-Have''\<close>
    unfolding well_made_def using made by (simp add: solid_background_def)
  ultimately show ?thesis unfolding makes_slide_def by blast
qed

lemma create_qa_slide_call:
  \<open>makes_slide create_qa_slide
     [''discussion_gradient_start'', ''white'', ''accent_cyan'', ''light_gray'']
     ''Questions & Discussion''\<close>
proof -
  have \<open>\<exists>mk. (\<forall>prs cs. create_qa_slide prs cs =
      (case getitem (slide_layouts prs) 6 of Inl e \<Rightarrow> Inl e | Inr l \<Rightarrow>
      (case cs ''discussion_gradient_start'' of None \<Rightarrow> Inl (KeyError ''discussion_gradient_start'') | Some c1 \<Rightarrow>
      (case cs ''white'' of None \<Rightarrow> Inl (KeyError ''white'') | Some c2 \<Rightarrow>
      (case cs ''accent_cyan'' of None \<Rightarrow> Inl (KeyError ''accent_cyan'') | Some c3 \<Rightarrow>
      (case cs ''light_gray'' of None \<Rightarrow> Inl (KeyError ''light_gray'') | Some c4 \<Rightarrow>
       Inr (prs\<lparr>slides := slides prs @ [mk l c1 c2 c3 c4]\<rparr>)))))))
    \<and> (\<forall>l c1 c2 c3 c4. layout (mk l c1 c2 c3 c4) = l \<and> background_fill (mk l c1 c2 c3 c4) = Solid (Some c1) \<and>
         has_notes (mk l c1 c2 c3 c4) \<and> slide_title (mk l c1 c2 c3 c4) = Some ''Questions & Discussion'')\<close>
    apply (rule exI)
    apply (rule conjI)
     apply (intro allI)
     apply (simp add: create_qa_slide_def run_simps split: sum.split option.split
        cong: run_congs)
     apply (intro allI impI conjI)
     apply (rule refl)
    apply (simp add: has_notes_def slide_title_def line_breaks_def u_arrow_def cong: paragraph_weak_cong shape_weak_cong)
    done
  then obtain mk where run: \<open>\<And>prs cs. create_qa_slide prs cs =
      (case getitem (slide_layouts prs) 6 of Inl e \<Rightarrow> Inl e | Inr l \<Rightarrow>
      (case cs ''discussion_gradient_start'' of None \<Rightarrow> Inl (KeyError ''discussion_gradient_start'') | Some c1 \<Rightarrow>
      (case cs ''white'' of None \<Rightarrow> Inl (KeyError ''white'') | Some c2 \<Rightarrow>
      (case cs ''accent_cyan'' of None \<Rightarrow> Inl (KeyError ''accent_cyan'') | Some c3 \<Rightarrow>
      (case cs ''light_gray'' of None \<Rightarrow> Inl (KeyError ''light_gray'') | Some c4 \<Rightarrow>
       Inr (prs\<lparr>slides := slides prs @ [mk l c1 c2 c3 c4]\<rparr>))))))\<close>
    and made: \<open>\<And>l c1 c2 c3 c4. layout (mk l c1 c2 c3 c4) = l \<and> background_fill (mk l c1 c2 c3 c4) = Solid (Some c1) \<and>
         has_notes (mk l c1 c2 c3 c4) \<and> slide_title (mk l c1 c2 c3 c4) = Some ''Questions & Discussion''\<close>
    by blast
  have \<open>slide_call create_qa_slide
     [''discussion_gradient_start'', ''white'', ''accent_cyan'', ''light_gray'']
     (\<lambda>l vs. mk l (vs ! 0) (vs ! 1) (vs ! 2) (vs ! 3))\<close>
    unfolding slide_call_def
    by (intro allI) (simp add: run cong: sum.case_cong option.case_cong)
  moreover have \<open>well_made (\<lambda>l vs. mk l (vs ! 0) (vs ! 1) (vs ! 2) (vs ! 3)) ''Questions & Discussion''\<close>
    unfolding well_made_def using made by (simp add: solid_background_def)
  ultimately show ?thesis unfolding makes_slide_def by blast
qed

lemma create_thank_you_slide_call:
  \<open>makes_slide create_thank_you_slide
     [''gratitude_gradient_start'', ''white'', ''accent_orange'']
     ''Thank You for Your Time''\<close>
proof -
  have \<open>\<exists>mk. (\<forall>prs cs. create_thank_you_slide prs cs =
      (case getitem (slide_layouts prs) 6 of Inl e \<Rightarrow> Inl e | Inr l \<Rightarrow>
      (case cs ''gratitude_gradient_start'' of None \<Rightarrow> Inl (KeyError ''gratitude_gradient_start'') | Some c1 \<Rightarrow>
      (case cs ''white'' of None \<Rightarrow> Inl (KeyError ''white'') | Some c2 \<Rightarrow>
      (case cs ''accent_orange'' of None \<Rightarrow> Inl (KeyError ''accent_orange'') | Some c3 \<Rightarrow>
       Inr (prs\<lparr>slides := slides prs @ [mk l c1 c2 c3]\<rparr>))))))
    \<and> (\<forall>l c1 c2 c3. layout (mk l c1 c2 c3) = l \<and> background_fill (mk l c1 c2 c3) = Solid (Some c1) \<and>
         has_notes (mk l c1 c2 c3) \<and> slide_title (mk l c1 c2 c3) = Some ''Thank You for Your Time'')\<close>
    apply (rule exI)
    apply (rule conjI)
     apply (intro allI)
     apply (simp add: create_thank_you_slide_def run_simps split: sum.split option.split
        cong: run_congs)
     apply (intro allI impI conjI)
     apply (rule refl)
    apply (simp add: has_notes_def slide_title_def line_breaks_def u_arrow_def cong: paragraph_weak_cong shape_weak_cong)
    done
  then obtain mk where run: \<open>\<And>prs cs. create_thank_you_slide prs cs =
      (case getitem (slide_layouts prs) 6 of Inl e \<Rightarrow> Inl e | Inr l \<Rightarrow>
      (case cs ''gratitude_gradient_start'' of None \<Rightarrow> Inl (KeyError ''gratitude_gradient_start'') | Some c1 \<Rightarrow>
      (case cs ''white'' of None \<Rightarrow> Inl (KeyError ''white'') | Some c2 \<Rightarrow>
      (case cs ''accent_orange'' of None \<Rightarrow> Inl (KeyError ''accent_orange'') | Some c3 \<Rightarrow>
       Inr (prs\<lparr>slides := slides prs @ [mk l c1 c2 c3]\<rparr>)))))\<close>
    and made: \<open>\<And>l c1 c2 c3. layout (mk l c1 c2 c3) = l \<and> background_fill (mk l c1 c2 c3) = Solid (Some c1) \<and>
         has_notes (mk l c1 c2 c3) \<and> slide_title (mk l c1 c2 c3) = Some ''Thank You for Your Time''\<close>
    by blast
  have \<open>slide_call create_thank_you_slide
     [''gratitude_gradient_start'', ''white'', ''accent_orange'']
     (\<lambda>l vs. mk l (vs ! 0) (vs ! 1) (vs ! 2))\<close>
    unfolding slide_call_def
    by (intro allI) (simp add: run cong: sum.case_cong option.case_cong)
  moreover have \<open>well_made (\<lambda>l vs. mk l (vs ! 0) (vs ! 1) (vs ! 2)) ''Thank You for Your Time''\<close>
    unfolding well_made_def using made by (simp add: solid_background_def)
  ultimately show ?thesis unfolding makes_slide_def by blast
qed

section \<open>What the summaries give\<close>

lemma with_colors_find:
  "with_colors cs ks g =
     (case find (\<lambda>k. cs k = None) ks of
        Some k \<Rightarrow> Inl (KeyError k)
      | None \<Rightarrow> g (map (\<lambda>k. the (cs k)) ks))"
  by (induction ks arbitrary: g) (auto split: option.splits)

lemma find_missing_None: "find (\<lambda>k. cs k = None) ks = None \<longleftrightarrow> set ks \<subseteq> dom cs"
  by (induction ks) auto

lemma find_missing_Some: "find (\<lambda>k. cs k = None) ks = Some k \<Longrightarrow> k \<in> set ks \<and> cs k = None"
  by (induction ks) (auto split: if_splits)

lemma slide_call_run:
  assumes "slide_call f ks mk"
  shows "f prs cs =
     (case getitem (slide_layouts prs) 6 of
        Inl e \<Rightarrow> Inl e
      | Inr l \<Rightarrow>
         (case find (\<lambda>k. cs k = None) ks of
            Some k \<Rightarrow> Inl (KeyError k)
          | None \<Rightarrow> Inr (prs\<lparr>slides := slides prs @ [mk l (map (\<lambda>k. the (cs k)) ks)]\<rparr>)))"
  using assms unfolding slide_call_def by (simp add: with_colors_find cong: sum.case_cong)

text \<open>The three ways a slide function can end.\<close>

lemma makes_slide_cases:
  assumes "makes_slide f ks t"
  obtains
    (no_layout) e where "getitem (slide_layouts prs) 6 = Inl e" and "f prs cs = Inl e"
  | (no_key) k where "k \<in> set ks" and "cs k = None" and "f prs cs = Inl (KeyError k)"
  | (slide) s where "set ks \<subseteq> dom cs"
      and "f prs cs = Inr (prs\<lparr>slides := slides prs @ [s]\<rparr>)"
      and "getitem (slide_layouts prs) 6 = Inr (layout s)"
      and "solid_background s" and "has_notes s" and "slide_title s = Some t"
proof -
  from assms obtain mk where call: "slide_call f ks mk" and made: "well_made mk t"
    unfolding makes_slide_def by blast
  note run = slide_call_run [OF call, of prs cs]
  show thesis
  proof (cases "getitem (slide_layouts prs) 6")
    case (Inl e)
    with run show thesis by (intro no_layout [of e]) simp_all
  next
    case (Inr l)
    show thesis
    proof (cases "find (\<lambda>k. cs k = None) ks")
      case None
      let ?s = "mk l (map (\<lambda>k. the (cs k)) ks)"
      from made have "layout ?s = l" "solid_background ?s" "has_notes ?s" "slide_title ?s = Some t"
        unfolding well_made_def by blast+
      moreover from None have "set ks \<subseteq> dom cs" by (simp add: find_missing_None)
      moreover from run Inr None have "f prs cs = Inr (prs\<lparr>slides := slides prs @ [?s]\<rparr>)" by simp
      ultimately show thesis using Inr by (intro slide [of ?s]) simp_all
    next
      case (Some k)
      with run Inr have "f prs cs = Inl (KeyError k)" by simp
      with find_missing_Some [OF Some] show thesis by (intro no_key [of k]) simp_all
    qed
  qed
qed

text \<open>The outcome depends on the presentation through its seventh layout only.\<close>

lemma makes_slide_static:
  assumes "makes_slide f ks t"
    and "getitem (slide_layouts p1) 6 = getitem (slide_layouts p2) 6"
  shows "(\<exists>e. f p1 cs = Inl e \<and> f p2 cs = Inl e) \<or>
    (\<exists>s. f p1 cs = Inr (p1\<lparr>slides := slides p1 @ [s]\<rparr>) \<and>
         f p2 cs = Inr (p2\<lparr>slides := slides p2 @ [s]\<rparr>))"
proof -
  from assms(1) obtain mk where call: "slide_call f ks mk"
    unfolding makes_slide_def by blast
  show ?thesis
    using assms(2)
    by (auto simp add: slide_call_run [OF call] split: sum.split option.split)
qed

text \<open>A slide function that completes has found the layout and all its keys.\<close>

lemma makes_slide_Inr:
  assumes "makes_slide f ks t" and "f prs cs = Inr prs'"
  obtains s where "prs' = prs\<lparr>slides := slides prs @ [s]\<rparr>"
    and "getitem (slide_layouts prs) 6 = Inr (layout s)"
    and "solid_background s" and "has_notes s" and "slide_title s = Some t"
    and "set ks \<subseteq> dom cs"
  using assms(2) by (cases rule: makes_slide_cases [OF assms(1), of prs cs]) auto

lemma makes_slide_complete:
  assumes "makes_slide f ks t" and "getitem (slide_layouts prs) 6 = Inr l" and "set ks \<subseteq> dom cs"
  obtains s where "f prs cs = Inr (prs\<lparr>slides := slides prs @ [s]\<rparr>)"
  using assms(2,3) by (cases rule: makes_slide_cases [OF assms(1), of prs cs]) auto

lemma makes_slide_raise:
  assumes "makes_slide f ks t" and "getitem (slide_layouts prs) 6 = Inr l"
    and "find (\<lambda>k. cs k = None) ks = Some k"
  shows "f prs cs = Inl (KeyError k)"
proof -
  from assms(1) obtain mk where call: "slide_call f ks mk"
    unfolding makes_slide_def by blast
  show ?thesis using assms(2,3) by (simp add: slide_call_run [OF call])
qed

subsection \<open>Calls in a row\<close>

lemma for_each_append:
  "for_each (xs @ ys) body s = bindE (for_each xs body s) (for_each ys body)"
  by (induction xs arbitrary: s) (simp_all add: bindE_def split: sum.split)

lemma for_each_snoc:
  "for_each (xs @ [x]) body s = bindE (for_each xs body s) (body x)"
proof -
  have "for_each [x] body = body x"
    by (rule ext) (simp add: bindE_def split: sum.split)
  then show ?thesis by (simp add: for_each_append)
qed

lemma run_calls_0: "run_calls 0 prs cs = Inr prs"
  by (simp add: run_calls_def)

lemma run_calls_Suc:
  "n < length slide_calls \<Longrightarrow>
   run_calls (Suc n) prs cs = bindE (run_calls n prs cs) (\<lambda>p. (slide_calls ! n) p cs)"
  by (simp add: run_calls_def take_Suc_conv_app_nth for_each_snoc)

lemma length_slide_calls: "length slide_calls = 14"
  by (simp add: slide_calls_def)

lemma create_slides_run: "create_slides prs cs = run_calls 14 prs cs"
proof -
  have "take 14 slide_calls = slide_calls" by (simp add: length_slide_calls)
  then show ?thesis
    by (simp add: run_calls_def) (simp add: slide_calls_def create_slides_def bindE_def split: sum.split)
qed

text \<open>A call that raises ends the row with its exception.\<close>

lemma run_calls_raise:
  assumes "run_calls n prs cs = Inr p" and "(slide_calls ! n) p cs = Inl e" and "n < m"
    and "m \<le> length slide_calls"
  shows "run_calls m prs cs = Inl e"
proof -
  from assms(3) obtain d where m: "m = Suc n + d"
    by (metis add_Suc less_iff_Suc_add)
  have "take m slide_calls = take (Suc n) slide_calls @ take d (drop (Suc n) slide_calls)"
    unfolding m by (rule take_add)
  moreover have "run_calls (Suc n) prs cs = Inl e"
    using assms by (simp add: run_calls_Suc bindE_def)
  ultimately show ?thesis
    by (simp add: run_calls_def for_each_append bindE_def)
qed

text \<open>Rows of slide functions, each with its keys and its title.\<close>

lemma row_deck:
  assumes "list_all2 (\<lambda>f kt. makes_slide f (fst kt) (snd kt)) fs kts"
    and "for_each fs (\<lambda>f p. f p cs) prs = Inr prs'"
  shows "\<exists>ss. prs' = prs\<lparr>slides := slides prs @ ss\<rparr> \<and>
    map slide_title ss = map (\<lambda>kt. Some (snd kt)) kts \<and>
    list_all (\<lambda>s. getitem (slide_layouts prs) 6 = Inr (layout s) \<and> solid_background s \<and>
      has_notes s) ss \<and>
    list_all (\<lambda>kt. set (fst kt) \<subseteq> dom cs) kts"
  using assms
proof (induction arbitrary: prs rule: list_all2_induct)
  case Nil
  then show ?case by simp
next
  case (Cons f fs kt kts)
  from Cons.prems obtain p where p: "f prs cs = Inr p"
    and rest: "for_each fs (\<lambda>f p. f p cs) p = Inr prs'"
    by (auto simp: bindE_def split: sum.splits)
  from Cons.hyps(1) p obtain s where s: "p = prs\<lparr>slides := slides prs @ [s]\<rparr>"
    and props: "getitem (slide_layouts prs) 6 = Inr (layout s)" "solid_background s"
      "has_notes s" "slide_title s = Some (snd kt)" "set (fst kt) \<subseteq> dom cs"
    by (rule makes_slide_Inr)
  from Cons.IH [OF rest] obtain ss where ss: "prs' = p\<lparr>slides := slides p @ ss\<rparr>"
    "map slide_title ss = map (\<lambda>kt. Some (snd kt)) kts"
    "list_all (\<lambda>s. getitem (slide_layouts p) 6 = Inr (layout s) \<and> solid_background s \<and>
      has_notes s) ss"
    "list_all (\<lambda>kt. set (fst kt) \<subseteq> dom cs) kts"
    by blast
  have "prs' = prs\<lparr>slides := slides prs @ s # ss\<rparr>"
    using ss(1) s by simp
  moreover have "slide_layouts p = slide_layouts prs"
    using s by simp
  ultimately show ?case
    using ss(2-4) props by (intro exI [of _ "s # ss"]) simp
qed

lemma row_static:
  assumes "list_all2 (\<lambda>f kt. makes_slide f (fst kt) (snd kt)) fs kts"
    and "getitem (slide_layouts p1) 6 = getitem (slide_layouts p2) 6"
  shows "(\<exists>e. for_each fs (\<lambda>f p. f p cs) p1 = Inl e \<and> for_each fs (\<lambda>f p. f p cs) p2 = Inl e) \<or>
    (\<exists>ss. for_each fs (\<lambda>f p. f p cs) p1 = Inr (p1\<lparr>slides := slides p1 @ ss\<rparr>) \<and>
          for_each fs (\<lambda>f p. f p cs) p2 = Inr (p2\<lparr>slides := slides p2 @ ss\<rparr>))"
  using assms
proof (induction arbitrary: p1 p2 rule: list_all2_induct)
  case Nil
  have "p1 = p1\<lparr>slides := slides p1 @ []\<rparr>" "p2 = p2\<lparr>slides := slides p2 @ []\<rparr>"
    by simp_all
  then show ?case by (metis for_each.simps(1))
next
  case (Cons f fs kt kts)
  from makes_slide_static [OF Cons.hyps(1) Cons.prems, of cs]
  show ?case
  proof (elim disjE exE conjE)
    fix e assume "f p1 cs = Inl e" "f p2 cs = Inl e"
    then show ?thesis by (simp add: bindE_def)
  next
    fix s
    let ?q1 = "p1\<lparr>slides := slides p1 @ [s]\<rparr>" and ?q2 = "p2\<lparr>slides := slides p2 @ [s]\<rparr>"
    assume f: "f p1 cs = Inr ?q1" "f p2 cs = Inr ?q2"
    have "getitem (slide_layouts ?q1) 6 = getitem (slide_layouts ?q2) 6"
      using Cons.prems by simp
    from Cons.IH [OF this] show ?thesis
    proof (elim disjE exE conjE)
      fix e
      assume "for_each fs (\<lambda>f p. f p cs) ?q1 = Inl e" "for_each fs (\<lambda>f p. f p cs) ?q2 = Inl e"
      with f show ?thesis by (simp add: bindE_def)
    next
      fix ss
      assume "for_each fs (\<lambda>f p. f p cs) ?q1 = Inr (?q1\<lparr>slides := slides ?q1 @ ss\<rparr>)"
        "for_each fs (\<lambda>f p. f p cs) ?q2 = Inr (?q2\<lparr>slides := slides ?q2 @ ss\<rparr>)"
      with f have "for_each (f # fs) (\<lambda>f p. f p cs) p1 = Inr (p1\<lparr>slides := slides p1 @ s # ss\<rparr>)"
        "for_each (f # fs) (\<lambda>f p. f p cs) p2 = Inr (p2\<lparr>slides := slides p2 @ s # ss\<rparr>)"
        by (simp_all add: bindE_def)
      then show ?thesis by blast
    qed
  qed
qed

lemma row_complete:
  assumes "list_all2 (\<lambda>f kt. makes_slide f (fst kt) (snd kt)) fs kts"
    and "getitem (slide_layouts prs) 6 = Inr l"
    and "list_all (\<lambda>kt. set (fst kt) \<subseteq> dom cs) kts"
  shows "\<exists>prs'. for_each fs (\<lambda>f p. f p cs) prs = Inr prs'"
  using assms
proof (induction arbitrary: prs rule: list_all2_induct)
  case Nil
  then show ?case by simp
next
  case (Cons f fs kt kts)
  from Cons.prems have "set (fst kt) \<subseteq> dom cs" by simp
  with Cons.hyps(1) Cons.prems(1) obtain s
    where s: "f prs cs = Inr (prs\<lparr>slides := slides prs @ [s]\<rparr>)"
    by (rule makes_slide_complete)
  have "getitem (slide_layouts (prs\<lparr>slides := slides prs @ [s]\<rparr>)) 6 = Inr l"
    using Cons.prems(1) by simp
  from Cons.IH [OF this] Cons.prems(2) s show ?case
    by (simp add: bindE_def)
qed

subsection \<open>The calls of the script\<close>

lemma calls_summary:
  "list_all2 (\<lambda>f kt. makes_slide f (fst kt) (snd kt)) slide_calls (zip slide_keys deck_titles)"
  unfolding slide_calls_def slide_keys_def deck_titles_def
  by (simp only: zip_Cons_Cons zip_Nil list_all2_Cons list_all2_Nil fst_conv snd_conv simp_thms
      create_title_slide_call create_hook_slide_call create_lighthouse_metrics_slide_call
      create_approach_slide_call create_lazy_loading_slide_call create_onpush_slide_call
      create_font_loading_slide_call create_material_modules_slide_call create_demo_slide_call
      create_results_slide_call create_roadmap_slide_call create_cta_slide_call
      create_qa_slide_call create_thank_you_slide_call)

lemma row_summary:
  "list_all2 (\<lambda>f kt. makes_slide f (fst kt) (snd kt))
     (take n slide_calls) (take n (zip slide_keys deck_titles))"
  by (rule list_all2_takeI [OF calls_summary])

lemma run_calls_deck:
  assumes "run_calls n prs cs = Inr prs'"
  shows "\<exists>ss. prs' = prs\<lparr>slides := slides prs @ ss\<rparr> \<and>
    map slide_title ss = map Some (take n deck_titles) \<and>
    list_all (\<lambda>s. getitem (slide_layouts prs) 6 = Inr (layout s) \<and> solid_background s \<and>
      has_notes s) ss"
proof -
  have "map (\<lambda>kt. Some (snd kt)) (take n (zip slide_keys deck_titles)) =
      map Some (take n deck_titles)"
    by (simp add: take_map [symmetric] slide_keys_def deck_titles_def del: take_map)
  with row_deck [OF row_summary, of n cs prs prs'] assms show ?thesis
    unfolding run_calls_def by auto
qed

lemma run_calls_static:
  assumes "getitem (slide_layouts p1) 6 = getitem (slide_layouts p2) 6"
  shows "new_slides p1 (run_calls n p1 cs) = new_slides p2 (run_calls n p2 cs)"
  using row_static [OF row_summary assms, of n cs]
  unfolding run_calls_def new_slides_def by auto

lemma run_calls_complete:
  assumes "getitem (slide_layouts prs) 6 = Inr l"
    and "list_all (\<lambda>kt. set (fst kt) \<subseteq> dom cs) (take n (zip slide_keys deck_titles))"
  shows "\<exists>prs'. run_calls n prs cs = Inr prs'"
  using row_complete [OF row_summary assms] unfolding run_calls_def .

lemma slide_call_summary:
  assumes "f \<in> set slide_calls"
  shows "\<exists>ks t. makes_slide f ks t"
proof -
  from assms obtain i where "i < length slide_calls" and "slide_calls ! i = f"
    by (auto simp: in_set_conv_nth)
  with list_all2_nthD [OF calls_summary, of i] show ?thesis by blast
qed

lemma run_calls_prefix:
  assumes "run_calls m prs cs = Inr q" and "n \<le> m"
  shows "\<exists>p. run_calls n prs cs = Inr p"
proof -
  from assms(2) have "take n slide_calls @ drop n (take m slide_calls) = take m slide_calls"
    by (metis append_take_drop_id min.absorb1 take_take)
  with for_each_append [of "take n slide_calls" "drop n (take m slide_calls)" "\<lambda>f p. f p cs" prs]
  have "run_calls m prs cs =
      bindE (run_calls n prs cs) (for_each (drop n (take m slide_calls)) (\<lambda>f p. f p cs))"
    unfolding run_calls_def by simp
  with assms(1) show ?thesis
    by (cases "run_calls n prs cs") (simp_all add: bindE_def)
qed

lemma keys_present: "set ks \<subseteq> dom cs \<longleftrightarrow> list_all (\<lambda>k. cs k \<noteq> None) ks"
  by (induction ks) auto

subsection \<open>The literal colour table and the default presentation\<close>

lemma layout_default: "getitem (slide_layouts Presentation) 6 = Inr ''Blank''"
  by (simp add: Presentation_def getitem_def)

lemma layout_widescreen: "getitem (slide_layouts widescreen) 6 = Inr ''Blank''"
  by (simp add: widescreen_def Presentation_def getitem_def)

lemma outcome_start_with: "outcome (start_with prs) = Inr prs"
  by (simp add: start_with_def)

lemma outcome_then_do: "outcome (then_do r stmt) = bindE (outcome r) stmt"
  by (simp add: then_do_def bindE_def split: sum.split)

lemma bindE_assoc: "bindE (bindE m f) g = bindE m (\<lambda>x. bindE (f x) g)"
  by (simp add: bindE_def split: sum.split)

lemma bindE_return: "bindE m Inr = m"
  by (simp add: bindE_def split: sum.split)

lemma create_angular_presentation_widescreen:
  "create_angular_presentation = create_slides widescreen colors"
  unfolding create_angular_presentation_def create_angular_presentation_run_def Let_def
    outcome_then_do outcome_start_with
  by (simp add: bindE_Inr bindE_assoc bindE_return widescreen_def create_slides_def)

lemma six_present:
  "list_all (\<lambda>kt. set (fst kt) \<subseteq> dom colors) (take 6 (zip slide_keys deck_titles))"
  by (simp add: slide_keys_def deck_titles_def keys_present colors_def dict_def)

lemma six_calls_complete:
  assumes "getitem (slide_layouts prs) 6 = Inr l"
  obtains ss where "run_calls 6 prs colors = Inr (prs\<lparr>slides := slides prs @ ss\<rparr>)"
    and "length ss = 6"
proof -
  from run_calls_complete [OF assms six_present] obtain p
    where p: "run_calls 6 prs colors = Inr p" by blast
  from run_calls_deck [OF p] obtain ss where "p = prs\<lparr>slides := slides prs @ ss\<rparr>"
    and "map slide_title ss = map Some (take 6 deck_titles)" by blast
  moreover from this(2) have "length ss = 6"
    by (auto simp: deck_titles_def dest: map_eq_imp_length_eq)
  ultimately show thesis using p that by blast
qed

lemma font_loading_raises:
  assumes "getitem (slide_layouts prs) 6 = Inr l"
  shows "create_font_loading_slide prs colors = Inl (KeyError ''accent_cyan'')"
  by (rule makes_slide_raise [OF create_font_loading_slide_call assms]) (simp add: colors_def dict_def)

lemma results_raises:
  assumes "getitem (slide_layouts prs) 6 = Inr l"
  shows "create_results_slide prs colors = Inl (KeyError ''accent_cyan'')"
  by (rule makes_slide_raise [OF create_results_slide_call assms]) (simp add: colors_def dict_def)

lemma roadmap_raises:
  assumes "getitem (slide_layouts prs) 6 = Inr l"
  shows "create_roadmap_slide prs colors = Inl (KeyError ''accent_orange'')"
  by (rule makes_slide_raise [OF create_roadmap_slide_call assms]) (simp add: colors_def dict_def)

lemma cta_raises:
  assumes "getitem (slide_layouts prs) 6 = Inr l"
  shows "create_cta_slide prs colors = Inl (KeyError ''accent_orange'')"
  by (rule makes_slide_raise [OF create_cta_slide_call assms]) (simp add: colors_def dict_def)

lemma qa_raises:
  assumes "getitem (slide_layouts prs) 6 = Inr l"
  shows "create_qa_slide prs colors = Inl (KeyError ''accent_cyan'')"
  by (rule makes_slide_raise [OF create_qa_slide_call assms]) (simp add: colors_def dict_def)

lemma thank_you_raises:
  assumes "getitem (slide_layouts prs) 6 = Inr l"
  shows "create_thank_you_slide prs colors = Inl (KeyError ''accent_orange'')"
  by (rule makes_slide_raise [OF create_thank_you_slide_call assms]) (simp add: colors_def dict_def)

lemma seventh_call: "slide_calls ! 6 = create_font_loading_slide"
  by (simp add: slide_calls_def)

lemma create_slides_raises:
  assumes "getitem (slide_layouts prs) 6 = Inr l"
  shows "create_slides prs colors = Inl (KeyError ''accent_cyan'')"
proof -
  from assms obtain ss where six: "run_calls 6 prs colors = Inr (prs\<lparr>slides := slides prs @ ss\<rparr>)"
    by (rule six_calls_complete)
  have "(slide_calls ! 6) (prs\<lparr>slides := slides prs @ ss\<rparr>) colors = Inl (KeyError ''accent_cyan'')"
    unfolding seventh_call using assms by (intro font_loading_raises [of _ l]) simp
  from run_calls_raise [OF six this, of 14] show ?thesis
    by (simp add: create_slides_run length_slide_calls)
qed

lemma create_angular_presentation_raises:
  "create_angular_presentation = Inl (KeyError ''accent_cyan'')"
  unfolding create_angular_presentation_widescreen
  by (rule create_slides_raises [OF layout_widescreen])

subsection \<open>The run of the script\<close>

lemma run_calls_take:
  assumes "run_calls m prs cs = Inr prs'" and "n \<le> m" and "m \<le> 14"
  shows "run_calls n prs cs = Inr (prs\<lparr>slides := take (length (slides prs) + n) (slides prs')\<rparr>)"
proof -
  from assms(1,2) obtain p where p: "run_calls n prs cs = Inr p"
    using run_calls_prefix by blast
  from run_calls_deck [OF p] obtain ss where ss: "p = prs\<lparr>slides := slides prs @ ss\<rparr>"
    and "map slide_title ss = map Some (take n deck_titles)" by blast
  from this(2) assms(2,3) have len: "length ss = n"
    by (auto simp: deck_titles_def dest: map_eq_imp_length_eq)
  from assms(2) have "take n slide_calls @ drop n (take m slide_calls) = take m slide_calls"
    by (metis append_take_drop_id min.absorb1 take_take)
  with for_each_append [of "take n slide_calls" "drop n (take m slide_calls)" "\<lambda>f p. f p cs" prs]
  have "run_calls m prs cs =
      bindE (run_calls n prs cs) (for_each (drop n (take m slide_calls)) (\<lambda>f p. f p cs))"
    unfolding run_calls_def by simp
  with assms(1) p have "for_each (drop n (take m slide_calls)) (\<lambda>f p. f p cs) p = Inr prs'"
    by (simp add: bindE_def)
  from row_deck [OF list_all2_dropI [OF row_summary] this]
  obtain rest where "prs' = p\<lparr>slides := slides p @ rest\<rparr>" by blast
  with ss len have "take (length (slides prs) + n) (slides prs') = slides prs @ ss" by simp
  with p ss show ?thesis by simp
qed

lemma then_do_Inr:
  "then_do \<lparr>states = tr, outcome = Inr p\<rparr> stmt =
     (case stmt p of
        Inl e \<Rightarrow> \<lparr>states = tr, outcome = Inl e\<rparr>
      | Inr p' \<Rightarrow> \<lparr>states = tr @ [p'], outcome = Inr p'\<rparr>)"
  by (simp add: then_do_def split: sum.split)

lemma then_do_Inl:
  "then_do \<lparr>states = tr, outcome = Inl e\<rparr> stmt = \<lparr>states = tr, outcome = Inl e\<rparr>"
  by (simp add: then_do_def)

text \<open>
  The run of \<^verbatim>\<open>create_angular_presentation\<close>: the object as it was created, after the
  two statements that set the page size, and after each of the six calls that complete; the
  seventh call raises.
\<close>

lemma script_run:
  obtains s1 s2 s3 s4 s5 s6 where
    "map slide_title [s1, s2, s3, s4, s5, s6] = map Some (take 6 deck_titles)"
    and "create_angular_presentation_run =
      \<lparr>states = [Presentation, Presentation\<lparr>slide_width := Inches 13.33\<rparr>, widescreen,
         widescreen\<lparr>slides := [s1]\<rparr>,
         widescreen\<lparr>slides := [s1, s2]\<rparr>,
         widescreen\<lparr>slides := [s1, s2, s3]\<rparr>,
         widescreen\<lparr>slides := [s1, s2, s3, s4]\<rparr>,
         widescreen\<lparr>slides := [s1, s2, s3, s4, s5]\<rparr>,
         widescreen\<lparr>slides := [s1, s2, s3, s4, s5, s6]\<rparr>],
       outcome = Inl (KeyError ''accent_cyan'')\<rparr>"
    and "create_title_slide widescreen colors =
      Inr (widescreen\<lparr>slides := [s1]\<rparr>)"
    and "create_hook_slide (widescreen\<lparr>slides := [s1]\<rparr>) colors =
      Inr (widescreen\<lparr>slides := [s1, s2]\<rparr>)"
    and "create_lighthouse_metrics_slide (widescreen\<lparr>slides := [s1, s2]\<rparr>) colors =
      Inr (widescreen\<lparr>slides := [s1, s2, s3]\<rparr>)"
    and "create_approach_slide (widescreen\<lparr>slides := [s1, s2, s3]\<rparr>) colors =
      Inr (widescreen\<lparr>slides := [s1, s2, s3, s4]\<rparr>)"
    and "create_lazy_loading_slide (widescreen\<lparr>slides := [s1, s2, s3, s4]\<rparr>) colors =
      Inr (widescreen\<lparr>slides := [s1, s2, s3, s4, s5]\<rparr>)"
    and "create_onpush_slide (widescreen\<lparr>slides := [s1, s2, s3, s4, s5]\<rparr>) colors =
      Inr (widescreen\<lparr>slides := [s1, s2, s3, s4, s5, s6]\<rparr>)"
    and "create_font_loading_slide (widescreen\<lparr>slides := [s1, s2, s3, s4, s5, s6]\<rparr>) colors =
      Inl (KeyError ''accent_cyan'')"
    and "run_calls 6 widescreen colors = Inr (widescreen\<lparr>slides := [s1, s2, s3, s4, s5, s6]\<rparr>)"
proof -
  have empty: "slides widescreen = []" by (simp add: widescreen_def Presentation_def)
  then have start: "widescreen\<lparr>slides := []\<rparr> = widescreen" by simp
  from run_calls_complete [OF layout_widescreen six_present]
  obtain p6 where p6: "run_calls 6 widescreen colors = Inr p6" by blast
  from run_calls_deck [OF p6] empty obtain ss where ss: "p6 = widescreen\<lparr>slides := ss\<rparr>"
    and titles: "map slide_title ss = map Some (take 6 deck_titles)" by auto
  from titles have "length ss = 6"
    by (auto simp: deck_titles_def dest: map_eq_imp_length_eq)
  then obtain s1 s2 s3 s4 s5 s6 where six: "ss = [s1, s2, s3, s4, s5, s6]"
    by (auto simp: eval_nat_numeral length_Suc_conv)
  define P where "P n = widescreen\<lparr>slides := take n ss\<rparr>" for n
  have after: "run_calls n widescreen colors = Inr (P n)" if "n \<le> 6" for n
    using run_calls_take [OF p6 that] empty ss by (simp add: P_def)
  have step: "(slide_calls ! i) (P i) colors = Inr (P (Suc i))" if "i < 6" for i
    using that after [of i] after [of "Suc i"]
    by (simp add: run_calls_Suc length_slide_calls bindE_def)
  have c1: "create_title_slide widescreen colors =
      Inr (widescreen\<lparr>slides := [s1]\<rparr>)"
    using step [of 0] by (simp add: slide_calls_def P_def six start)
  have c2: "create_hook_slide (widescreen\<lparr>slides := [s1]\<rparr>) colors =
      Inr (widescreen\<lparr>slides := [s1, s2]\<rparr>)"
    using step [of "Suc 0"] by (simp add: slide_calls_def P_def six start)
  have c3: "create_lighthouse_metrics_slide (widescreen\<lparr>slides := [s1, s2]\<rparr>) colors =
      Inr (widescreen\<lparr>slides := [s1, s2, s3]\<rparr>)"
    using step [of "Suc (Suc 0)"] by (simp add: slide_calls_def P_def six start)
  have c4: "create_approach_slide (widescreen\<lparr>slides := [s1, s2, s3]\<rparr>) colors =
      Inr (widescreen\<lparr>slides := [s1, s2, s3, s4]\<rparr>)"
    using step [of "Suc (Suc (Suc 0))"] by (simp add: slide_calls_def P_def six start)
  have c5: "create_lazy_loading_slide (widescreen\<lparr>slides := [s1, s2, s3, s4]\<rparr>) colors =
      Inr (widescreen\<lparr>slides := [s1, s2, s3, s4, s5]\<rparr>)"
    using step [of "Suc (Suc (Suc (Suc 0)))"] by (simp add: slide_calls_def P_def six start)
  have c6: "create_onpush_slide (widescreen\<lparr>slides := [s1, s2, s3, s4, s5]\<rparr>) colors =
      Inr (widescreen\<lparr>slides := [s1, s2, s3, s4, s5, s6]\<rparr>)"
    using step [of "Suc (Suc (Suc (Suc (Suc 0))))"] by (simp add: slide_calls_def P_def six start)
  have "getitem (slide_layouts (widescreen\<lparr>slides := [s1, s2, s3, s4, s5, s6]\<rparr>)) 6 = Inr ''Blank''"
    using layout_widescreen by simp
  then have c7: "create_font_loading_slide (widescreen\<lparr>slides := [s1, s2, s3, s4, s5, s6]\<rparr>) colors =
      Inl (KeyError ''accent_cyan'')"
    by (rule font_loading_raises)
  have size: "then_do (then_do (start_with Presentation)
        (\<lambda>prs. Inr (prs\<lparr>slide_width := Inches 13.33\<rparr>)))
        (\<lambda>prs. Inr (prs\<lparr>slide_height := Inches 7.5\<rparr>)) =
      \<lparr>states = [Presentation, Presentation\<lparr>slide_width := Inches 13.33\<rparr>, widescreen],
       outcome = Inr widescreen\<rparr>"
    by (simp add: then_do_def start_with_def widescreen_def)
  have run: "create_angular_presentation_run =
      \<lparr>states = [Presentation, Presentation\<lparr>slide_width := Inches 13.33\<rparr>, widescreen,
         widescreen\<lparr>slides := [s1]\<rparr>,
         widescreen\<lparr>slides := [s1, s2]\<rparr>,
         widescreen\<lparr>slides := [s1, s2, s3]\<rparr>,
         widescreen\<lparr>slides := [s1, s2, s3, s4]\<rparr>,
         widescreen\<lparr>slides := [s1, s2, s3, s4, s5]\<rparr>,
         widescreen\<lparr>slides := [s1, s2, s3, s4, s5, s6]\<rparr>],
       outcome = Inl (KeyError ''accent_cyan'')\<rparr>"
    unfolding create_angular_presentation_run_def Let_def size
    by (simp only: then_do_Inr then_do_Inl c1 c2 c3 c4 c5 c6 c7 sum.case append.simps)
  from titles six have t:
    "map slide_title [s1, s2, s3, s4, s5, s6] = map Some (take 6 deck_titles)" by simp
  from p6 ss six have r6: "run_calls 6 widescreen colors = Inr (widescreen\<lparr>slides := [s1, s2, s3, s4, s5, s6]\<rparr>)"
    by simp
  from t run c1 c2 c3 c4 c5 c6 c7 r6 show thesis by (rule that)
qed

lemma main_raises:
  "main w =
     (print ''Creating Angular Optimization TED Talk presentation...'' w,
      Inl (KeyError ''accent_cyan''))"
  by (simp add: main_def create_angular_presentation_raises)

section \<open>The properties of the script\<close>

text \<open>
  C1. The claim: every call of \<^verbatim>\<open>main\<close> makes one pass of slide-building calls and writes
  exactly one file, the presentation saved at
  \<^verbatim>\<open>/workspace/Angular_Optimization_TED_Talk.pptx\<close>. The script does not do so: in a
  world with no file, where every path can be written, \<^verbatim>\<open>main\<close> prints its first
  message and ends with the KeyError for \<^verbatim>\<open>accent_cyan\<close>, and there is still no file at
  the path.
\<close>

theorem main_writes_no_file:
  "main empty_world =
     (print ''Creating Angular Optimization TED Talk presentation...'' empty_world,
      Inl (KeyError ''accent_cyan'')) \<and>
   files (fst (main empty_world)) ''/workspace/Angular_Optimization_TED_Talk.pptx'' = None"
  by (simp add: main_raises print_def empty_world_def)

text \<open>
  C2. The claim: every lookup in the literal colour table uses a key that the table has.
  The script does not keep to it: the table has neither \<^verbatim>\<open>accent_cyan\<close> nor
  \<^verbatim>\<open>accent_orange\<close>, and each of the six slide functions that look one of them up raises
  the KeyError, here on the default presentation.
\<close>

theorem missing_keys_are_looked_up:
  "colors ''accent_cyan'' = None \<and> colors ''accent_orange'' = None \<and>
   create_font_loading_slide Presentation colors = Inl (KeyError ''accent_cyan'') \<and>
   create_results_slide Presentation colors = Inl (KeyError ''accent_cyan'') \<and>
   create_roadmap_slide Presentation colors = Inl (KeyError ''accent_orange'') \<and>
   create_cta_slide Presentation colors = Inl (KeyError ''accent_orange'') \<and>
   create_qa_slide Presentation colors = Inl (KeyError ''accent_cyan'') \<and>
   create_thank_you_slide Presentation colors = Inl (KeyError ''accent_orange'')"
proof -
  have "colors ''accent_cyan'' = None" "colors ''accent_orange'' = None"
    by (simp_all add: colors_def dict_def)
  then show ?thesis
    using font_loading_raises [OF layout_default] results_raises [OF layout_default]
      roadmap_raises [OF layout_default] cta_raises [OF layout_default]
      qa_raises [OF layout_default] thank_you_raises [OF layout_default]
    by simp
qed

text \<open>
  C3. Every call of \<^verbatim>\<open>create_angular_presentation\<close> raises the KeyError for
  \<^verbatim>\<open>accent_cyan\<close>: the first six calls complete and leave six slides, the seventh call,
  \<^verbatim>\<open>create_font_loading_slide\<close>, raises, so that no row of more than six calls completes,
  and \<^verbatim>\<open>main\<close>, in any world, ends with that exception before the save and leaves the
  files as they were.
\<close>

theorem presentation_is_never_returned:
  "create_angular_presentation = Inl (KeyError ''accent_cyan'') \<and>
   (\<exists>p. run_calls 6 widescreen colors = Inr p \<and> length (slides p) = 6 \<and>
        slide_calls ! 6 = create_font_loading_slide \<and>
        create_font_loading_slide p colors = Inl (KeyError ''accent_cyan'')) \<and>
   (\<forall>n. 6 < n \<and> n \<le> 14 \<longrightarrow> run_calls n widescreen colors = Inl (KeyError ''accent_cyan'')) \<and>
   (\<forall>w. main w =
          (print ''Creating Angular Optimization TED Talk presentation...'' w,
           Inl (KeyError ''accent_cyan'')) \<and>
        files (fst (main w)) = files w)"
proof -
  from layout_widescreen obtain ss
    where six: "run_calls 6 widescreen colors = Inr (widescreen\<lparr>slides := slides widescreen @ ss\<rparr>)"
      and len: "length ss = 6"
    by (rule six_calls_complete)
  let ?p = "widescreen\<lparr>slides := slides widescreen @ ss\<rparr>"
  have seventh: "create_font_loading_slide ?p colors = Inl (KeyError ''accent_cyan'')"
    using layout_widescreen by (intro font_loading_raises [of _ "''Blank''"]) simp
  have "length (slides ?p) = 6"
    using len by (simp add: widescreen_def Presentation_def)
  with six seventh have "\<exists>p. run_calls 6 widescreen colors = Inr p \<and> length (slides p) = 6 \<and>
      slide_calls ! 6 = create_font_loading_slide \<and>
      create_font_loading_slide p colors = Inl (KeyError ''accent_cyan'')"
    using seventh_call by blast
  moreover have "run_calls n widescreen colors = Inl (KeyError ''accent_cyan'')"
    if "6 < n \<and> n \<le> 14" for n
    using run_calls_raise [OF six _ conjunct1 [OF that], of "KeyError ''accent_cyan''"]
      seventh that
    by (simp add: seventh_call length_slide_calls)
  moreover have "files (fst (main w)) = files w" for w
    by (simp add: main_raises print_def)
  ultimately show ?thesis
    using create_angular_presentation_raises main_raises by blast
qed

theorem presentation_is_never_returned_witness:
  "(6::nat) < 14 \<and> (14::nat) \<le> 14 \<and>
   run_calls 14 widescreen colors = Inl (KeyError ''accent_cyan'') \<and>
   run_calls 7 widescreen colors = Inl (KeyError ''accent_cyan'') \<and>
   create_angular_presentation = Inl (KeyError ''accent_cyan'')"
  using presentation_is_never_returned by simp

text \<open>
  C4. The file is written only after all the calls have completed: if any of the fourteen
  calls raises an exception, after the calls before it have completed, then \<^verbatim>\<open>main\<close>
  ends with that exception right after its first message: it does not save, does not try
  again, and the files are as they were.
\<close>

theorem no_file_when_a_call_raises:
  assumes "n < length slide_calls"
    and "run_calls n widescreen colors = Inr p"
    and "(slide_calls ! n) p colors = Inl e"
  shows "main w = (print ''Creating Angular Optimization TED Talk presentation...'' w, Inl e) \<and>
    files (fst (main w)) = files w"
proof -
  from run_calls_raise [OF assms(2,3), of 14] assms(1)
  have raised: "create_angular_presentation = Inl e"
    by (simp add: create_angular_presentation_widescreen create_slides_run length_slide_calls)
  show ?thesis unfolding main_def raised by (simp add: print_def Let_def)
qed

theorem no_file_when_a_call_raises_witness:
  "\<exists>p. 6 < length slide_calls \<and> run_calls 6 widescreen colors = Inr p \<and>
     (slide_calls ! 6) p colors = Inl (KeyError ''accent_cyan'') \<and>
     main empty_world =
       (print ''Creating Angular Optimization TED Talk presentation...'' empty_world,
        Inl (KeyError ''accent_cyan'')) \<and>
     files (fst (main empty_world)) = files empty_world"
proof -
  from layout_widescreen obtain ss
    where six: "run_calls 6 widescreen colors = Inr (widescreen\<lparr>slides := slides widescreen @ ss\<rparr>)"
    by (rule six_calls_complete)
  let ?p = "widescreen\<lparr>slides := slides widescreen @ ss\<rparr>"
  have len: "6 < length slide_calls" by (simp add: length_slide_calls)
  have seventh: "(slide_calls ! 6) ?p colors = Inl (KeyError ''accent_cyan'')"
    unfolding seventh_call using layout_widescreen
    by (intro font_loading_raises [of _ "''Blank''"]) simp
  from no_file_when_a_call_raises [OF len six seventh, of empty_world] len six seventh
  show ?thesis by blast
qed

text \<open>
  C5. The script catches no exception. An exception that one of the fourteen calls raises,
  after the calls before it have completed, is the result of the whole row, for any
  presentation and any colour table; the exception of \<^verbatim>\<open>create_angular_presentation\<close> is
  the result of \<^verbatim>\<open>main\<close>; and the exception of the save is the result of the statements
  that save, which leave the world as it was.
\<close>

theorem exceptions_reach_the_caller:
  "(n < length slide_calls \<and> run_calls n prs cs = Inr p \<and> (slide_calls ! n) p cs = Inl e
      \<longrightarrow> create_slides prs cs = Inl e) \<and>
   (create_angular_presentation = Inl e' \<longrightarrow> snd (main w) = Inl e') \<and>
   (save prs' ''/workspace/Angular_Optimization_TED_Talk.pptx'' w' = Inl e''
      \<longrightarrow> main_save prs' w' = (w', Inl e''))"
proof (intro conjI impI)
  assume "n < length slide_calls \<and> run_calls n prs cs = Inr p \<and> (slide_calls ! n) p cs = Inl e"
  then have "run_calls 14 prs cs = Inl e"
    by (intro run_calls_raise [of n prs cs p]) (simp_all add: length_slide_calls)
  then show "create_slides prs cs = Inl e" by (simp add: create_slides_run)
next
  assume raised: "create_angular_presentation = Inl e'"
  show "snd (main w) = Inl e'" unfolding main_def raised by (simp add: Let_def)
next
  assume "save prs' ''/workspace/Angular_Optimization_TED_Talk.pptx'' w' = Inl e''"
  then show "main_save prs' w' = (w', Inl e'')" by (simp add: main_save_def)
qed

theorem exceptions_reach_the_caller_witness:
  "\<exists>p. 6 < length slide_calls \<and> run_calls 6 widescreen colors = Inr p \<and>
     (slide_calls ! 6) p colors = Inl (KeyError ''accent_cyan'') \<and>
     create_slides widescreen colors = Inl (KeyError ''accent_cyan'') \<and>
     create_angular_presentation = Inl (KeyError ''accent_cyan'') \<and>
     snd (main empty_world) = Inl (KeyError ''accent_cyan'') \<and>
     save Presentation ''/workspace/Angular_Optimization_TED_Talk.pptx''
       (empty_world\<lparr>writable := \<lambda>_. False\<rparr>) =
       Inl (OSError ''/workspace/Angular_Optimization_TED_Talk.pptx'') \<and>
     main_save Presentation (empty_world\<lparr>writable := \<lambda>_. False\<rparr>) =
       (empty_world\<lparr>writable := \<lambda>_. False\<rparr>,
        Inl (OSError ''/workspace/Angular_Optimization_TED_Talk.pptx''))"
proof -
  from layout_widescreen obtain ss
    where six: "run_calls 6 widescreen colors = Inr (widescreen\<lparr>slides := slides widescreen @ ss\<rparr>)"
    by (rule six_calls_complete)
  let ?p = "widescreen\<lparr>slides := slides widescreen @ ss\<rparr>"
  let ?path = "''/workspace/Angular_Optimization_TED_Talk.pptx''"
  let ?w = "empty_world\<lparr>writable := \<lambda>_. False\<rparr>"
  have len: "6 < length slide_calls" by (simp add: length_slide_calls)
  have seventh: "(slide_calls ! 6) ?p colors = Inl (KeyError ''accent_cyan'')"
    unfolding seventh_call using layout_widescreen
    by (intro font_loading_raises [of _ "''Blank''"]) simp
  have cap: "create_angular_presentation = Inl (KeyError ''accent_cyan'')"
    by (rule create_angular_presentation_raises)
  have sv: "save Presentation ?path ?w = Inl (OSError ?path)"
    by (simp add: save_def empty_world_def)
  from exceptions_reach_the_caller
    [of 6 widescreen colors ?p "KeyError ''accent_cyan''" "KeyError ''accent_cyan''" empty_world
      Presentation ?w "OSError ?path"]
    len six seventh cap sv
  show ?thesis by blast
qed

text \<open>
  C6. \<^verbatim>\<open>create_angular_presentation\<close> takes no argument, and what its calls add is static:
  two runs of the calls with the same colour table, from any two presentations that agree on
  the layout taken, end with the same exception or add the same slides, whatever the slides
  and the page size the two presentations had.
\<close>

theorem deck_is_static:
  assumes "getitem (slide_layouts prs1) 6 = getitem (slide_layouts prs2) 6"
  shows "new_slides prs1 (create_slides prs1 cs) = new_slides prs2 (create_slides prs2 cs)"
  unfolding create_slides_run by (rule run_calls_static [OF assms])

theorem deck_is_static_witness:
  "getitem (slide_layouts widescreen) 6 =
     getitem (slide_layouts (Presentation\<lparr>slides :=
       [\<lparr>layout = ''Title Slide'', background_fill = NoFill, shapes = [], notes_text = None\<rparr>]\<rparr>)) 6 \<and>
   new_slides widescreen create_angular_presentation =
     new_slides (Presentation\<lparr>slides :=
       [\<lparr>layout = ''Title Slide'', background_fill = NoFill, shapes = [], notes_text = None\<rparr>]\<rparr>)
      (create_slides (Presentation\<lparr>slides :=
       [\<lparr>layout = ''Title Slide'', background_fill = NoFill, shapes = [], notes_text = None\<rparr>]\<rparr>)
        colors) \<and>
   new_slides widescreen (create_slides widescreen colors_with_accents) =
     new_slides (Presentation\<lparr>slides :=
       [\<lparr>layout = ''Title Slide'', background_fill = NoFill, shapes = [], notes_text = None\<rparr>]\<rparr>)
      (create_slides (Presentation\<lparr>slides :=
       [\<lparr>layout = ''Title Slide'', background_fill = NoFill, shapes = [], notes_text = None\<rparr>]\<rparr>)
        colors_with_accents)"
proof -
  let ?q = "Presentation\<lparr>slides :=
       [\<lparr>layout = ''Title Slide'', background_fill = NoFill, shapes = [], notes_text = None\<rparr>]\<rparr>"
  have eq: "getitem (slide_layouts widescreen) 6 = getitem (slide_layouts ?q) 6"
    by (simp add: widescreen_def)
  from deck_is_static [OF eq, of colors] deck_is_static [OF eq, of colors_with_accents] eq
  show ?thesis by (simp add: create_angular_presentation_widescreen)
qed


text \<open>
  C8. Whenever one of the fourteen slide functions completes, on any presentation and with
  any colour table, it has added exactly one slide at the end, the slide has the layout
  number 6 of the presentation, which is the blank one of the default presentation, its
  background is one solid colour, not a gradient, and it has speaker notes that are not
  empty. The layouts, and so the blank layout, are left as they were.
\<close>

theorem one_slide_per_call:
  assumes "f \<in> set slide_calls" and "f prs cs = Inr prs'"
  shows "slides prs' = slides prs @ [last (slides prs')] \<and>
    getitem (slide_layouts prs) 6 = Inr (layout (last (slides prs'))) \<and>
    solid_background (last (slides prs')) \<and>
    (\<forall>gs. background_fill (last (slides prs')) \<noteq> Gradient gs) \<and>
    has_notes (last (slides prs')) \<and>
    slide_layouts prs' = slide_layouts prs"
proof -
  from slide_call_summary [OF assms(1)] obtain ks t where "makes_slide f ks t" by blast
  from this assms(2) obtain s where "prs' = prs\<lparr>slides := slides prs @ [s]\<rparr>"
    and "getitem (slide_layouts prs) 6 = Inr (layout s)"
    and "solid_background s" and "has_notes s"
    by (rule makes_slide_Inr)
  then show ?thesis
    by (auto simp: solid_background_def)
qed

theorem one_slide_per_call_witness:
  "\<exists>prs'. create_title_slide \<in> set slide_calls \<and>
     create_title_slide Presentation colors = Inr prs' \<and>
     slides prs' = [last (slides prs')] \<and>
     layout (last (slides prs')) = ''Blank'' \<and>
     solid_background (last (slides prs')) \<and>
     has_notes (last (slides prs'))"
proof -
  have mem: "create_title_slide \<in> set slide_calls" by (simp add: slide_calls_def)
  have "set [''title_bg_start'', ''white'', ''light_blue'', ''angular_red'', ''lighthouse_blue'',
      ''performance_green''] \<subseteq> dom colors"
    unfolding keys_present by (simp add: colors_def dict_def)
  with create_title_slide_call layout_default obtain s
    where run: "create_title_slide Presentation colors =
      Inr (Presentation\<lparr>slides := slides Presentation @ [s]\<rparr>)"
    by (rule makes_slide_complete)
  have "slides Presentation = []" by (simp add: Presentation_def)
  with one_slide_per_call [OF mem run] layout_default mem run show ?thesis by simp
qed

text \<open>
  C9. Before any slide is added, \<^verbatim>\<open>create_angular_presentation\<close> sets the page to 13.33
  by 7.5 inches, and the size is not changed afterwards. In its run the object is the
  default presentation first, the next two statements set its width and its height, and in
  these three states it has no slide; in every state from the third on, that is after each
  of the calls that complete, the page is 13.33 by 7.5 inches, while the slides grow from
  one to six. Nor would later calls change the size: any number of the calls in a row, and
  any one of the fourteen slide functions, on any presentation and with any colour table,
  leave the width and the height as they were when they complete.
\<close>

theorem page_size_is_set_and_kept:
  "take 3 (states create_angular_presentation_run) =
     [Presentation, Presentation\<lparr>slide_width := Inches 13.33\<rparr>,
      Presentation\<lparr>slide_width := Inches 13.33, slide_height := Inches 7.5\<rparr>] \<and>
   list_all (\<lambda>p. slides p = []) (take 3 (states create_angular_presentation_run)) \<and>
   map (\<lambda>p. length (slides p)) (drop 3 (states create_angular_presentation_run)) = [1, 2, 3, 4, 5, 6] \<and>
   list_all (\<lambda>p. slide_width p = Inches 13.33 \<and> slide_height p = Inches 7.5)
     (drop 2 (states create_angular_presentation_run)) \<and>
   (run_calls n prs cs = Inr p \<longrightarrow>
      slide_width p = slide_width prs \<and> slide_height p = slide_height prs) \<and>
   (f \<in> set slide_calls \<and> f prs' cs' = Inr p' \<longrightarrow>
      slide_width p' = slide_width prs' \<and> slide_height p' = slide_height prs')"
proof -
  obtain s1 s2 s3 s4 s5 s6 where
    run: "create_angular_presentation_run =
      \<lparr>states = [Presentation, Presentation\<lparr>slide_width := Inches 13.33\<rparr>, widescreen,
         widescreen\<lparr>slides := [s1]\<rparr>,
         widescreen\<lparr>slides := [s1, s2]\<rparr>,
         widescreen\<lparr>slides := [s1, s2, s3]\<rparr>,
         widescreen\<lparr>slides := [s1, s2, s3, s4]\<rparr>,
         widescreen\<lparr>slides := [s1, s2, s3, s4, s5]\<rparr>,
         widescreen\<lparr>slides := [s1, s2, s3, s4, s5, s6]\<rparr>],
       outcome = Inl (KeyError ''accent_cyan'')\<rparr>"
    by (rule script_run)
  have empty: "slides Presentation = []" by (simp add: Presentation_def)
  have "take 3 (states create_angular_presentation_run) =
     [Presentation, Presentation\<lparr>slide_width := Inches 13.33\<rparr>,
      Presentation\<lparr>slide_width := Inches 13.33, slide_height := Inches 7.5\<rparr>]"
    by (simp add: run widescreen_def)
  moreover from this have "list_all (\<lambda>p. slides p = []) (take 3 (states create_angular_presentation_run))"
    by (simp add: empty)
  moreover have "map (\<lambda>p. length (slides p)) (drop 3 (states create_angular_presentation_run)) = [1, 2, 3, 4, 5, 6]"
    by (simp add: run)
  moreover have "list_all (\<lambda>p. slide_width p = Inches 13.33 \<and> slide_height p = Inches 7.5)
      (drop 2 (states create_angular_presentation_run))"
    by (simp add: run) (simp add: widescreen_def)
  moreover have "slide_width p = slide_width prs \<and> slide_height p = slide_height prs"
    if "run_calls n prs cs = Inr p"
  proof -
    from run_calls_deck [OF that] obtain ss where "p = prs\<lparr>slides := slides prs @ ss\<rparr>"
      by blast
    then show ?thesis by simp
  qed
  moreover have "slide_width p' = slide_width prs' \<and> slide_height p' = slide_height prs'"
    if "f \<in> set slide_calls \<and> f prs' cs' = Inr p'"
  proof -
    from that have f: "f \<in> set slide_calls" and call: "f prs' cs' = Inr p'" by simp_all
    from slide_call_summary [OF f] obtain ks t where "makes_slide f ks t" by blast
    from this call obtain s where "p' = prs'\<lparr>slides := slides prs' @ [s]\<rparr>"
      by (rule makes_slide_Inr)
    then show ?thesis by simp
  qed
  ultimately show ?thesis by blast
qed

theorem page_size_is_set_and_kept_witness:
  "run_calls 6 (states create_angular_presentation_run ! 2) colors = Inr (states create_angular_presentation_run ! 8) \<and>
   slide_width (states create_angular_presentation_run ! 8) = slide_width (states create_angular_presentation_run ! 2) \<and>
   slide_height (states create_angular_presentation_run ! 8) = slide_height (states create_angular_presentation_run ! 2) \<and>
   slide_width (states create_angular_presentation_run ! 2) = Inches 13.33 \<and>
   slide_height (states create_angular_presentation_run ! 2) = Inches 7.5 \<and>
   create_title_slide \<in> set slide_calls \<and>
   create_title_slide (states create_angular_presentation_run ! 2) colors = Inr (states create_angular_presentation_run ! 3) \<and>
   slide_width (states create_angular_presentation_run ! 3) = slide_width (states create_angular_presentation_run ! 2) \<and>
   slide_height (states create_angular_presentation_run ! 3) = slide_height (states create_angular_presentation_run ! 2)"
proof -
  obtain s1 s2 s3 s4 s5 s6 where
    "map slide_title [s1, s2, s3, s4, s5, s6] = map Some (take 6 deck_titles)"
    and run: "create_angular_presentation_run =
      \<lparr>states = [Presentation, Presentation\<lparr>slide_width := Inches 13.33\<rparr>, widescreen,
         widescreen\<lparr>slides := [s1]\<rparr>,
         widescreen\<lparr>slides := [s1, s2]\<rparr>,
         widescreen\<lparr>slides := [s1, s2, s3]\<rparr>,
         widescreen\<lparr>slides := [s1, s2, s3, s4]\<rparr>,
         widescreen\<lparr>slides := [s1, s2, s3, s4, s5]\<rparr>,
         widescreen\<lparr>slides := [s1, s2, s3, s4, s5, s6]\<rparr>],
       outcome = Inl (KeyError ''accent_cyan'')\<rparr>"
    and first: "create_title_slide widescreen colors = Inr (widescreen\<lparr>slides := [s1]\<rparr>)"
    and "create_hook_slide (widescreen\<lparr>slides := [s1]\<rparr>) colors =
        Inr (widescreen\<lparr>slides := [s1, s2]\<rparr>)"
    and "create_lighthouse_metrics_slide (widescreen\<lparr>slides := [s1, s2]\<rparr>) colors =
        Inr (widescreen\<lparr>slides := [s1, s2, s3]\<rparr>)"
    and "create_approach_slide (widescreen\<lparr>slides := [s1, s2, s3]\<rparr>) colors =
        Inr (widescreen\<lparr>slides := [s1, s2, s3, s4]\<rparr>)"
    and "create_lazy_loading_slide (widescreen\<lparr>slides := [s1, s2, s3, s4]\<rparr>) colors =
        Inr (widescreen\<lparr>slides := [s1, s2, s3, s4, s5]\<rparr>)"
    and "create_onpush_slide (widescreen\<lparr>slides := [s1, s2, s3, s4, s5]\<rparr>) colors =
        Inr (widescreen\<lparr>slides := [s1, s2, s3, s4, s5, s6]\<rparr>)"
    and "create_font_loading_slide (widescreen\<lparr>slides := [s1, s2, s3, s4, s5, s6]\<rparr>) colors =
        Inl (KeyError ''accent_cyan'')"
    and six: "run_calls 6 widescreen colors =
        Inr (widescreen\<lparr>slides := [s1, s2, s3, s4, s5, s6]\<rparr>)"
    by (rule script_run)
  have mem: "create_title_slide \<in> set slide_calls" by (simp add: slide_calls_def)
  have size: "slide_width widescreen = Inches 13.33" "slide_height widescreen = Inches 7.5"
    by (simp_all add: widescreen_def)
  from page_size_is_set_and_kept
    [of 6 widescreen colors "widescreen\<lparr>slides := [s1, s2, s3, s4, s5, s6]\<rparr>"
      create_title_slide widescreen colors "widescreen\<lparr>slides := [s1]\<rparr>"]
    six mem first size
  show ?thesis by (simp add: run)
qed

end
